theory Spec2Isabelle
  imports Main "HOL-Library.Word"
begin

section \<open>Go values shared by the handlers\<close>

text \<open>
  Go strings are byte sequences and are modelled as \<open>string\<close> (a list of 8-bit
  characters). A nilable pointer \<open>*T\<close> is \<open>T option\<close> with \<open>None\<close> for nil.
  A Go \<open>int\<close> read from the configuration is an \<open>int\<close>; an \<open>int32\<close> is a
  \<open>32 word\<close> read with \<open>sint\<close>. \<open>cfgval\<close> is a value of a configuration
  field (\<open>interface{}\<close>), \<open>CNil\<close> being nil.
\<close>

datatype cfgval = CString string | CInt int | CBool bool | CNil

type_synonym block = "string \<rightharpoonup> cfgval"

section \<open>SQL failover group: the read-write endpoint policy\<close>

text \<open>
  \<open>sql.Manual\<close> and \<open>sql.Automatic\<close> are constants of the Azure SDK (type
  \<open>ReadWriteEndpointFailoverPolicy\<close>, a string); the schema admits exactly these two
  values for \<open>mode\<close>.
\<close>

definition sql_Manual :: string where
  "sql_Manual = ''Manual''"

definition sql_Automatic :: string where
  "sql_Automatic = ''Automatic''"

record FailoverGroupReadWriteEndpoint =
  FailoverPolicy :: string
  FailoverWithDataLossGracePeriodMinutes :: "32 word option"

text \<open>
  \<open>expandSqlFailoverGroupReadWritePolicy\<close> reads the value of the field
  \<open>read_write_endpoint_failover_policy\<close>, a list of blocks. \<open>vs[0]\<close> on an empty
  list and a failed type assertion panic: the result is \<open>None\<close> there.
  \<open>int32(v["grace_minutes"].(int))\<close> keeps the low 32 bits.
\<close>

definition expandSqlFailoverGroupReadWritePolicy ::
    "block list \<Rightarrow> FailoverGroupReadWriteEndpoint option" where
  "expandSqlFailoverGroupReadWritePolicy vs =
     (case vs of
        [] \<Rightarrow> None
      | v # _ \<Rightarrow>
          (case (v ''mode'', v ''grace_minutes'') of
             (Some (CString mode), Some (CInt g)) \<Rightarrow>
               (let graceMins = (word_of_int g :: 32 word);
                    policy = \<lparr>FailoverPolicy = mode,
                              FailoverWithDataLossGracePeriodMinutes = None\<rparr>
                in Some (if mode \<noteq> sql_Manual
                         then policy\<lparr>FailoverWithDataLossGracePeriodMinutes := Some graceMins\<rparr>
                         else policy))
           | _ \<Rightarrow> None))"

definition flattenSqlFailoverGroupReadWritePolicy ::
    "FailoverGroupReadWriteEndpoint option \<Rightarrow> block list" where
  "flattenSqlFailoverGroupReadWritePolicy input =
     (case input of
        None \<Rightarrow> []
      | Some p \<Rightarrow>
          (let policy = [''mode'' \<mapsto> CString (FailoverPolicy p)]
           in [case FailoverWithDataLossGracePeriodMinutes p of
                 None \<Rightarrow> policy
               | Some m \<Rightarrow> policy(''grace_minutes'' \<mapsto> CInt (sint m))]))"

text \<open>
  A configuration block of the schema: a \<open>mode\<close> and a \<open>grace_minutes\<close> integer.
\<close>

definition rwPolicyBlock :: "string \<Rightarrow> int \<Rightarrow> block" where
  "rwPolicyBlock mode g = [''mode'' \<mapsto> CString mode, ''grace_minutes'' \<mapsto> CInt g]"

text \<open>
  Flatten applied to the output of expand, as Create followed by Read composes them
  when the service returns the endpoint it was sent.
\<close>

definition rwPolicyRoundTrip :: "block list \<Rightarrow> block list option" where
  "rwPolicyRoundTrip vs =
     (case expandSqlFailoverGroupReadWritePolicy vs of
        None \<Rightarrow> None
      | Some p \<Rightarrow> Some (flattenSqlFailoverGroupReadWritePolicy (Some p)))"

text \<open>What a reader of the flattened block finds under an integer key: the zero value
  when the key is absent.\<close>

definition blockInt :: "block \<Rightarrow> string \<Rightarrow> int" where
  "blockInt b k = (case b k of Some (CInt i) \<Rightarrow> i | _ \<Rightarrow> 0)"

section \<open>Automation variables: the string encoding of a value\<close>

subsection \<open>Go standard library: integer division, strconv, utf8, the date pattern\<close>

text \<open>
  Go's \<open>/\<close> and \<open>%\<close> on integers truncate towards zero.
\<close>

definition goDiv :: "int \<Rightarrow> int \<Rightarrow> int" where
  "goDiv a b = (if (a < 0) = (b < 0) then \<bar>a\<bar> div \<bar>b\<bar> else - (\<bar>a\<bar> div \<bar>b\<bar>))"

definition goRem :: "int \<Rightarrow> int \<Rightarrow> int" where
  "goRem a b = a - b * goDiv a b"

definition isDigit :: "char \<Rightarrow> bool" where
  "isDigit c = (48 \<le> (of_char c :: nat) \<and> (of_char c :: nat) \<le> 57)"

definition decimal :: "string \<Rightarrow> nat" where
  "decimal ds = foldl (\<lambda>a c. 10 * a + (of_char c - 48)) 0 ds"

text \<open>
  \<open>strconv.ParseInt(s, 10, bitSize)\<close>: an optional sign, then one or more decimal
  digits; a value outside the signed range of \<open>bitSize\<close> bits is a range error.
  The callers only test \<open>err == nil\<close>, so every error is \<open>None\<close>.
\<close>

definition ParseInt :: "string \<Rightarrow> nat \<Rightarrow> int option" where
  "ParseInt s bitSize =
     (case s of
        [] \<Rightarrow> None
      | c # r \<Rightarrow>
          (let neg = (c = CHR ''-'');
               ds = (if c = CHR ''+'' \<or> c = CHR ''-'' then r else s)
           in if ds = [] \<or> \<not> list_all isDigit ds then None
              else (let un = decimal ds; cutoff = 2 ^ (bitSize - 1)
                    in if \<not> neg \<and> cutoff \<le> un then None
                       else if neg \<and> cutoff < un then None
                       else Some (if neg then - int un else int un))))"

fun natDigits :: "nat \<Rightarrow> string" where
  "natDigits n =
     (if n < 10 then [char_of (48 + n)]
      else natDigits (n div 10) @ [char_of (48 + n mod 10)])"

declare natDigits.simps [simp del]

text \<open>\<open>strconv.Itoa\<close>: the decimal text of a Go \<open>int\<close>.\<close>

definition Itoa :: "int \<Rightarrow> string" where
  "Itoa i = (if i < 0 then CHR ''-'' # natDigits (nat (- i)) else natDigits (nat i))"

definition FormatBool :: "bool \<Rightarrow> string" where
  "FormatBool b = (if b then ''true'' else ''false'')"

definition ParseBool :: "string \<Rightarrow> bool option" where
  "ParseBool str =
     (if str \<in> {''1'', ''t'', ''T'', ''TRUE'', ''true'', ''True''} then Some True
      else if str \<in> {''0'', ''f'', ''F'', ''FALSE'', ''false'', ''False''} then Some False
      else None)"

subsubsection \<open>UTF-8 (package utf8)\<close>

definition RuneError :: nat where
  "RuneError = 0xFFFD"

definition isCont :: "char \<Rightarrow> bool" where
  "isCont c = (0x80 \<le> (of_char c :: nat) \<and> (of_char c :: nat) \<le> 0xBF)"

text \<open>\<open>utf8.DecodeRuneInString\<close>: the rune and its width; \<open>(RuneError, 1)\<close> for an
  invalid or short encoding, \<open>(RuneError, 0)\<close> for the empty string.\<close>

definition DecodeRuneInString :: "string \<Rightarrow> nat \<times> nat" where
  "DecodeRuneInString s =
     (case s of
        [] \<Rightarrow> (RuneError, 0)
      | c0 # rest \<Rightarrow>
          (let b0 = (of_char c0 :: nat)
           in if b0 < 0x80 then (b0, 1)
              else if 0xC2 \<le> b0 \<and> b0 \<le> 0xDF then
                (case rest of
                   c1 # _ \<Rightarrow>
                     if isCont c1 then ((b0 mod 32) * 64 + of_char c1 mod 64, 2)
                     else (RuneError, 1)
                 | _ \<Rightarrow> (RuneError, 1))
              else if 0xE0 \<le> b0 \<and> b0 \<le> 0xEF then
                (case rest of
                   c1 # c2 # _ \<Rightarrow>
                     (let b1 = (of_char c1 :: nat);
                          lo = (if b0 = 0xE0 then 0xA0 else 0x80);
                          hi = (if b0 = 0xED then 0x9F else 0xBF)
                      in if lo \<le> b1 \<and> b1 \<le> hi \<and> isCont c2
                         then ((b0 mod 16) * 4096 + (b1 mod 64) * 64 + of_char c2 mod 64, 3)
                         else (RuneError, 1))
                 | _ \<Rightarrow> (RuneError, 1))
              else if 0xF0 \<le> b0 \<and> b0 \<le> 0xF4 then
                (case rest of
                   c1 # c2 # c3 # _ \<Rightarrow>
                     (let b1 = (of_char c1 :: nat);
                          lo = (if b0 = 0xF0 then 0x90 else 0x80);
                          hi = (if b0 = 0xF4 then 0x8F else 0xBF)
                      in if lo \<le> b1 \<and> b1 \<le> hi \<and> isCont c2 \<and> isCont c3
                         then ((b0 mod 8) * 262144 + (b1 mod 64) * 4096
                               + (of_char c2 mod 64) * 64 + of_char c3 mod 64, 4)
                         else (RuneError, 1))
                 | _ \<Rightarrow> (RuneError, 1))
              else (RuneError, 1)))"

definition ValidRune :: "nat \<Rightarrow> bool" where
  "ValidRune r = (r < 0xD800 \<or> (0xDFFF < r \<and> r \<le> 0x10FFFF))"

definition EncodeRune :: "nat \<Rightarrow> string" where
  "EncodeRune r0 =
     (let r = (if ValidRune r0 then r0 else RuneError)
      in if r \<le> 0x7F then [char_of r]
         else if r \<le> 0x7FF then [char_of (0xC0 + r div 64), char_of (0x80 + r mod 64)]
         else if r \<le> 0xFFFF then
           [char_of (0xE0 + r div 4096), char_of (0x80 + (r div 64) mod 64),
            char_of (0x80 + r mod 64)]
         else
           [char_of (0xF0 + r div 262144), char_of (0x80 + (r div 4096) mod 64),
            char_of (0x80 + (r div 64) mod 64), char_of (0x80 + r mod 64)])"

text \<open>\<open>utf8.ValidString\<close>, with the number of bytes still to check as fuel: each
  step consumes at least one byte, so the length of the string is enough.\<close>

fun validFrom :: "nat \<Rightarrow> string \<Rightarrow> bool" where
  "validFrom 0 s = (s = [])"
| "validFrom (Suc n) s =
     (if s = [] then True
      else (let (r, size) = DecodeRuneInString s
            in if r = RuneError \<and> size = 1 then False
               else validFrom n (drop size s)))"

definition ValidString :: "string \<Rightarrow> bool" where
  "ValidString s = validFrom (length s) s"

subsubsection \<open>strconv.Unquote\<close>

definition unhex :: "char \<Rightarrow> nat option" where
  "unhex c =
     (let b = (of_char c :: nat)
      in if 48 \<le> b \<and> b \<le> 57 then Some (b - 48)
         else if 97 \<le> b \<and> b \<le> 102 then Some (b - 97 + 10)
         else if 65 \<le> b \<and> b \<le> 70 then Some (b - 65 + 10)
         else None)"

fun hexValue :: "nat \<Rightarrow> string \<Rightarrow> nat option" where
  "hexValue v [] = Some v"
| "hexValue v (c # cs) =
     (case unhex c of None \<Rightarrow> None | Some x \<Rightarrow> hexValue (v * 16 + x) cs)"

definition isOctal :: "char \<Rightarrow> bool" where
  "isOctal c = (48 \<le> (of_char c :: nat) \<and> (of_char c :: nat) \<le> 55)"

text \<open>
  \<open>strconv.UnquoteChar(s, quote)\<close>: the first character or escape sequence of \<open>s\<close>
  as \<open>(value, multibyte, tail)\<close>; \<open>None\<close> is \<open>ErrSyntax\<close>.
\<close>

definition UnquoteChar :: "string \<Rightarrow> char \<Rightarrow> (nat \<times> bool \<times> string) option" where
  "UnquoteChar s quote =
     (case s of
        [] \<Rightarrow> None
      | c # s1 \<Rightarrow>
          if c = quote \<and> (quote = CHR 0x27 \<or> quote = CHR 0x22) then None
          else if 0x80 \<le> (of_char c :: nat) then
            (let (r, size) = DecodeRuneInString s in Some (r, True, drop size s))
          else if c \<noteq> CHR 0x5C then Some (of_char c, False, s1)
          else
            (case s1 of
               [] \<Rightarrow> None
             | e # s2 \<Rightarrow>
                 if e = CHR ''a'' then Some (7, False, s2)
                 else if e = CHR ''b'' then Some (8, False, s2)
                 else if e = CHR ''f'' then Some (12, False, s2)
                 else if e = CHR ''n'' then Some (10, False, s2)
                 else if e = CHR ''r'' then Some (13, False, s2)
                 else if e = CHR ''t'' then Some (9, False, s2)
                 else if e = CHR ''v'' then Some (11, False, s2)
                 else if e = CHR ''x'' \<or> e = CHR ''u'' \<or> e = CHR ''U'' then
                   (let n = (if e = CHR ''x'' then 2 else if e = CHR ''u'' then 4 else 8)
                    in if length s2 < n then None
                       else (case hexValue 0 (take n s2) of
                               None \<Rightarrow> None
                             | Some v \<Rightarrow>
                                 if e = CHR ''x'' then Some (v, False, drop n s2)
                                 else if \<not> ValidRune v then None
                                 else Some (v, True, drop n s2)))
                 else if isOctal e then
                   (case s2 of
                      o1 # o2 # s3 \<Rightarrow>
                        if \<not> isOctal o1 \<or> \<not> isOctal o2 then None
                        else (let v = ((of_char e - 48) * 8 + (of_char o1 - 48)) * 8
                                      + (of_char o2 - 48)
                              in if 255 < v then None else Some (v, False, s3))
                    | _ \<Rightarrow> None)
                 else if e = CHR 0x5C then Some (0x5C, False, s2)
                 else if e = CHR 0x27 \<or> e = CHR 0x22 then
                   (if e \<noteq> quote then None else Some (of_char e, False, s2))
                 else None))"

text \<open>The loop of \<open>Unquote\<close> over the text between the quotes, with the number of
  bytes left as fuel (each \<open>UnquoteChar\<close> consumes at least one).\<close>

fun unquoteLoop :: "nat \<Rightarrow> char \<Rightarrow> string \<Rightarrow> string \<Rightarrow> string option" where
  "unquoteLoop 0 quote s buf = (if s = [] then Some buf else None)"
| "unquoteLoop (Suc n) quote s buf =
     (if s = [] then Some buf
      else (case UnquoteChar s quote of
              None \<Rightarrow> None
            | Some (c, multibyte, ss) \<Rightarrow>
                (let buf' = buf @ (if c < 0x80 \<or> \<not> multibyte then [char_of c]
                                   else EncodeRune c)
                 in if quote = CHR 0x27 \<and> ss \<noteq> [] then None
                    else unquoteLoop n quote ss buf')))"

text \<open>
  \<open>strconv.Unquote\<close>: \<open>s\<close> read as a Go string literal in double quotes, single
  quotes (one character) or back quotes (raw; carriage returns are dropped);
  \<open>None\<close> is \<open>ErrSyntax\<close>.
\<close>

definition Unquote :: "string \<Rightarrow> string option" where
  "Unquote s0 =
     (let n = length s0
      in if n < 2 then None
         else (let quote = hd s0
               in if quote \<noteq> last s0 then None
                  else (let s = take (n - 2) (drop 1 s0)
                        in if quote = CHR 0x60 then
                             (if CHR 0x60 \<in> set s then None
                              else Some (filter (\<lambda>c. c \<noteq> CHR 0x0D) s))
                           else if quote \<noteq> CHR 0x22 \<and> quote \<noteq> CHR 0x27 then None
                           else if CHR 0x0A \<in> set s then None
                           else if CHR 0x5C \<notin> set s \<and> quote \<notin> set s \<and>
                                   (if quote = CHR 0x22 then ValidString s
                                    else (let (r, size) = DecodeRuneInString s
                                          in size = length s \<and> (r \<noteq> RuneError \<or> size \<noteq> 1)))
                                then Some s
                           else unquoteLoop (length s) quote s [])))"

subsubsection \<open>The date pattern\<close>

text \<open>
  The pattern of \<open>regexp.MustCompile\<close> is a double quote, a backslash, \<open>/Date(\<close>,
  an optional minus sign and one or more digits (the group), \<open>)\<close>, a backslash,
  \<open>/\<close> and a double quote. \<open>FindStringSubmatch\<close> returns the leftmost match and
  its group; the source requires the match to be the whole input, which holds
  exactly when the input has this shape. \<open>dateTicks\<close> is the group then.
\<close>

definition datePrefix :: string where
  "datePrefix = [CHR 0x22, CHR 0x5C] @ ''/Date(''"

definition dateSuffix :: string where
  "dateSuffix = '')'' @ [CHR 0x5C, CHR ''/'', CHR 0x22]"

definition dateTicks :: "string \<Rightarrow> string option" where
  "dateTicks input =
     (let n = length input
      in if 12 \<le> n \<and> take 8 input = datePrefix \<and> drop (n - 4) input = dateSuffix then
           (let m = take (n - 12) (drop 8 input);
                ds = (case m of [] \<Rightarrow> [] | c # r \<Rightarrow> if c = CHR ''-'' then r else m)
            in if ds \<noteq> [] \<and> list_all isDigit ds then Some m else None)
         else None)"

subsubsection \<open>time.Time\<close>

text \<open>A \<open>time.Time\<close> in UTC: the seconds since the Unix epoch and the nanoseconds
  within the second.\<close>

record Time =
  unixSec :: int
  nsec :: int

text \<open>\<open>time.Unix(sec, nsec)\<close> brings \<open>nsec\<close> into \<open>[0, 1e9)\<close>.\<close>

definition timeUnix :: "int \<Rightarrow> int \<Rightarrow> Time" where
  "timeUnix sec ns =
     (if ns < 0 \<or> 1000000000 \<le> ns then
        (let n = goDiv ns 1000000000;
             sec1 = sec + n;
             ns1 = ns - n * 1000000000
         in if ns1 < 0 then \<lparr>unixSec = sec1 - 1, nsec = ns1 + 1000000000\<rparr>
            else \<lparr>unixSec = sec1, nsec = ns1\<rparr>)
      else \<lparr>unixSec = sec, nsec = ns\<rparr>)"

text \<open>\<open>t.UnixNano()\<close>: computed in \<open>int64\<close>, wrapping around outside the years
  1678 to 2262.\<close>

definition UnixNano :: "Time \<Rightarrow> int" where
  "UnixNano t = sint (word_of_int (unixSec t * 1000000000 + nsec t) :: 64 word)"

subsection \<open>ParseAzureAutomationVariableValue\<close>

datatype error =
    Errorf string "string list"
  | ImportAsExistsError string string
  | Err string

datatype "value" = VTime Time | VString string | VInt32 "32 word" | VBool bool

text \<open>
  The chain of \<open>if\<close>/\<open>else if\<close> of the source: the value and \<open>actualResource\<close>.
  When the date pattern matches, the other parsers are not tried, also when
  \<open>ParseInt\<close> then fails on the ticks. Each failed \<open>value, err = ...\<close> still assigns
  \<open>value\<close>, so after the last one it holds \<open>false\<close>.
\<close>

definition inferVariableValue :: "string \<Rightarrow> value option \<times> string" where
  "inferVariableValue input =
     (case dateTicks input of
        Some m \<Rightarrow>
          (case ParseInt m 64 of
             Some ticks \<Rightarrow>
               (Some (VTime (timeUnix (goDiv ticks 1000) (goRem ticks 1000 * 1000000))),
                ''azurerm_automation_variable_datetime'')
           | None \<Rightarrow> (None, ''Unknown''))
      | None \<Rightarrow>
          (case Unquote input of
             Some str \<Rightarrow> (Some (VString str), ''azurerm_automation_variable_string'')
           | None \<Rightarrow>
               (case ParseInt input 32 of
                  Some i \<Rightarrow> (Some (VInt32 (word_of_int i)), ''azurerm_automation_variable_int'')
                | None \<Rightarrow>
                    (case ParseBool input of
                       Some b \<Rightarrow> (Some (VBool b), ''azurerm_automation_variable_bool'')
                     | None \<Rightarrow> (Some (VBool False), ''Unknown'')))))"

text \<open>The result is the pair \<open>(interface{}, error)\<close> of the source.\<close>

definition ParseAzureAutomationVariableValue ::
    "string \<Rightarrow> string option \<Rightarrow> value option \<times> error option" where
  "ParseAzureAutomationVariableValue resource input =
     (case input of
        None \<Rightarrow>
          if resource \<noteq> ''azurerm_automation_variable_null''
          then (None, Some (Errorf ''Expected value nil to be %q, actual type is azurerm_automation_variable_null''
                              [resource]))
          else (None, None)
      | Some inp \<Rightarrow>
          (let (v, actualResource) = inferVariableValue inp
           in if actualResource \<noteq> resource
              then (None, Some (Errorf ''Expected value %q to be %q, actual type is %q''
                                  [inp, resource, actualResource]))
              else (v, None)))"

section \<open>Resource handlers\<close>

subsection \<open>ResourceData, outcomes and effects\<close>

text \<open>
  A handler receives the resource data \<open>d\<close> and the client \<open>meta\<close>, and returns
  an \<open>error\<close>. In the model a handler is a function of \<open>d\<close> and of the response
  of every client call it can make (in the order of the calls), and it returns its
  outcome, the updated \<open>d\<close> and the trace of its effects: the locks taken and
  released, the client calls with the body sent, and the calls of \<open>d.SetId\<close>.
  A nil dereference or a failed index is the outcome \<open>Panic\<close>; deferred calls still
  run then.

  Of \<open>d\<close> the model keeps the ID, the new-resource flag and the fields.
  \<open>d.Set\<close> of a pointer stores \<open>CNil\<close> for nil; the typed reads give the zero
  value of the type for a field that is absent or nil. Field writes are modelled in
  the handlers of the IoT Hub endpoint, the automation variable and the container
  registry token. In the other Read handlers the statements after the not-found
  check only write descriptive fields with \<open>d.Set\<close> and return nil or an error
  (a failed \<open>d.Set\<close>, \<open>json.Marshal\<close>, \<open>tags.FlattenAndSet\<close>); they make no
  client call and no \<open>d.SetId\<close>, and their outcome is the input \<open>rest\<close> of the
  handler. \<open>log.Printf\<close> and the context with its deferred \<open>cancel\<close> are left
  out, and so are the quotation marks inside error messages.
\<close>

record ResourceData =
  Id :: string
  IsNewResource :: bool
  Fields :: "string \<rightharpoonup> cfgval"

definition getString :: "ResourceData \<Rightarrow> string \<Rightarrow> string" where
  "getString d k = (case Fields d k of Some (CString s) \<Rightarrow> s | _ \<Rightarrow> [])"

definition getBool :: "ResourceData \<Rightarrow> string \<Rightarrow> bool" where
  "getBool d k = (case Fields d k of Some (CBool b) \<Rightarrow> b | _ \<Rightarrow> False)"

definition getInt :: "ResourceData \<Rightarrow> string \<Rightarrow> int" where
  "getInt d k = (case Fields d k of Some (CInt i) \<Rightarrow> i | _ \<Rightarrow> 0)"

definition SetField :: "ResourceData \<Rightarrow> string \<Rightarrow> cfgval \<Rightarrow> ResourceData" where
  "SetField d k v = d\<lparr>Fields := (Fields d)(k \<mapsto> v)\<rparr>"

definition ptrString :: "string option \<Rightarrow> cfgval" where
  "ptrString p = (case p of None \<Rightarrow> CNil | Some s \<Rightarrow> CString s)"

definition ptrBool :: "bool option \<Rightarrow> cfgval" where
  "ptrBool p = (case p of None \<Rightarrow> CNil | Some b \<Rightarrow> CBool b)"

definition SetId :: "ResourceData \<Rightarrow> string \<Rightarrow> ResourceData" where
  "SetId d v = d\<lparr>Id := v\<rparr>"

datatype outcome = Success | Failure error | Panic

datatype api_op = Get | CreateOrUpdate | Create | Update | Delete | WaitForCompletion

datatype 'b event =
    LockByName string string
  | UnlockByName string string
  | Call api_op "string list" "'b option"
  | IdSet string

type_synonym 'b result = "outcome \<times> ResourceData \<times> 'b event list"

text \<open>
  \<open>traced before r after\<close> is the computation \<open>r\<close> with the effects \<open>before\<close> in
  front of its trace and the effects \<open>after\<close> behind it: \<open>before\<close> are calls made
  before \<open>r\<close> starts, \<open>after\<close> the deferred calls, which run when \<open>r\<close> has
  returned or panicked.
\<close>

definition traced :: "'b event list \<Rightarrow> 'b result \<Rightarrow> 'b event list \<Rightarrow> 'b result" where
  "traced before r after = (case r of (out, d, tr) \<Rightarrow> (out, d, before @ tr @ after))"

text \<open>
  What a client call returns next to its error: whether
  \<open>utils.ResponseWasNotFound\<close> (or \<open>response.WasNotFound\<close>) holds of the response,
  and the resource. The error is the \<open>string option\<close> paired with it (its text;
  \<open>None\<close> is nil).
\<close>

record Resource =
  WasNotFound :: bool
  ID :: "string option"

type_synonym err = "string option"

text \<open>
  Helpers of the repository and of the standard library that are not among the
  sources, as parameters: \<open>strings.EqualFold\<close>, \<open>azure.ParseAzureResourceID\<close>
  (the resource group and the path segments of an ID), the typed ID parsers of the
  \<open>parse\<close> packages (resource group and names),
  \<open>parse.NewDashboardID(_, _, _).ID()\<close>, \<open>strings.ToLower\<close>,
  \<open>time.Parse(time.RFC3339, _)\<close>, \<open>strconv.Quote\<close> and \<open>Time.Format\<close> with the
  layout of the automation variable Read.
\<close>

record ResourceID =
  ResourceGroup :: string
  Path :: "string \<rightharpoonup> string"

definition pathOf :: "ResourceID \<Rightarrow> string \<Rightarrow> string" where
  "pathOf rid k = (case Path rid k of None \<Rightarrow> [] | Some v \<Rightarrow> v)"

record helpers =
  EqualFold :: "string \<Rightarrow> string \<Rightarrow> bool"
  ParseAzureResourceID :: "string \<Rightarrow> string + ResourceID"
  StorageSyncServiceID :: "string \<Rightarrow> string + string \<times> string"
  DashboardID :: "string \<Rightarrow> string + string \<times> string"
  NewDashboardID :: "string \<Rightarrow> string \<Rightarrow> string \<Rightarrow> string"
  FirewallRuleID :: "string \<Rightarrow> string + string \<times> string \<times> string"
  FailoverGroupID :: "string \<Rightarrow> string + string \<times> string \<times> string"
  ToLower :: "string \<Rightarrow> string"
  ParseRFC3339 :: "string \<Rightarrow> string + Time"
  Quote :: "string \<Rightarrow> string"
  FormatTime :: "Time \<Rightarrow> string"

text \<open>The lock discipline of a trace, for the lock \<open>k\<close>: every client call happens
  while \<open>k\<close> is held (\<open>h\<close> says whether it is held now).\<close>

fun callsUnder :: "string \<times> string \<Rightarrow> bool \<Rightarrow> 'b event list \<Rightarrow> bool" where
  "callsUnder k h [] = True"
| "callsUnder k h (LockByName n t # es) = callsUnder k (h \<or> (n, t) = k) es"
| "callsUnder k h (UnlockByName n t # es) = callsUnder k (h \<and> (n, t) \<noteq> k) es"
| "callsUnder k h (Call operation args body # es) = (h \<and> callsUnder k h es)"
| "callsUnder k h (IdSet v # es) = callsUnder k h es"

text \<open>The locks held after a trace, from the locks \<open>hs\<close> held before it.\<close>

fun heldAfter :: "(string \<times> string) list \<Rightarrow> 'b event list \<Rightarrow> (string \<times> string) list" where
  "heldAfter hs [] = hs"
| "heldAfter hs (LockByName n t # es) = heldAfter ((n, t) # hs) es"
| "heldAfter hs (UnlockByName n t # es) = heldAfter (remove1 (n, t) hs) es"
| "heldAfter hs (Call operation args body # es) = heldAfter hs es"
| "heldAfter hs (IdSet v # es) = heldAfter hs es"

definition isWrite :: "'b event \<Rightarrow> bool" where
  "isWrite e = (case e of
                  Call operation args body \<Rightarrow> operation \<in> {CreateOrUpdate, Create, Update, Delete}
                | _ \<Rightarrow> False)"

subsection \<open>IoT Hub: ServiceBus queue endpoints\<close>

text \<open>\<open>IothubResourceName\<close> is a constant of the package, declared outside the
  sources at hand; it is used as the lock's resource-type tag only.\<close>

definition IothubResourceName :: string where
  "IothubResourceName = ''azurerm_iothub''"

record RoutingServiceBusQueueEndpointProperties =
  ConnectionString :: "string option"
  Name :: "string option"
  SubscriptionID :: "string option"
  EndpointResourceGroup :: "string option"

typedecl RoutingEventHubProperties

record RoutingEndpoints =
  EventHubs :: "RoutingEventHubProperties list option"
  ServiceBusQueues :: "RoutingServiceBusQueueEndpointProperties list option"

record RoutingProperties =
  Endpoints :: "RoutingEndpoints option"

record IotHubProperties =
  Routing :: "RoutingProperties option"

record IotHubDescription = Resource +
  Properties :: "IotHubProperties option"

text \<open>
  The \<open>for\<close> loop of \<open>resourceIotHubEndpointServiceBusQueueCreateUpdate\<close> over the
  existing endpoints, with its accumulators \<open>endpoints\<close> and \<open>alreadyExists\<close>; the
  \<open>return\<close> inside the loop is \<open>Inl\<close>.
\<close>

fun createUpdateEndpoints ::
    "(string \<Rightarrow> string \<Rightarrow> bool) \<Rightarrow> bool \<Rightarrow> string \<Rightarrow> string
       \<Rightarrow> RoutingServiceBusQueueEndpointProperties
       \<Rightarrow> RoutingServiceBusQueueEndpointProperties list
       \<Rightarrow> RoutingServiceBusQueueEndpointProperties list \<Rightarrow> bool
       \<Rightarrow> error + RoutingServiceBusQueueEndpointProperties list \<times> bool" where
  "createUpdateEndpoints eqFold isNew endpointName resourceId queueEndpoint [] endpoints alreadyExists =
     Inr (endpoints, alreadyExists)"
| "createUpdateEndpoints eqFold isNew endpointName resourceId queueEndpoint
       (existingEndpoint # rest) endpoints alreadyExists =
     (case Name existingEndpoint of
        None \<Rightarrow>
          createUpdateEndpoints eqFold isNew endpointName resourceId queueEndpoint rest
            endpoints alreadyExists
      | Some existingEndpointName \<Rightarrow>
          if eqFold existingEndpointName endpointName then
            (if isNew
             then Inl (ImportAsExistsError ''azurerm_iothub_endpoint_servicebus_queue'' resourceId)
             else createUpdateEndpoints eqFold isNew endpointName resourceId queueEndpoint rest
                    (endpoints @ [queueEndpoint]) True)
          else createUpdateEndpoints eqFold isNew endpointName resourceId queueEndpoint rest
                 (endpoints @ [existingEndpoint]) alreadyExists)"

text \<open>The loop of \<open>resourceIotHubEndpointServiceBusQueueRead\<close>: every endpoint of
  the name sets \<open>connection_string\<close>.\<close>

fun readEndpoints ::
    "(string \<Rightarrow> string \<Rightarrow> bool) \<Rightarrow> string
       \<Rightarrow> RoutingServiceBusQueueEndpointProperties list \<Rightarrow> ResourceData \<Rightarrow> ResourceData" where
  "readEndpoints eqFold endpointName [] d = d"
| "readEndpoints eqFold endpointName (endpoint # rest) d =
     readEndpoints eqFold endpointName rest
       (case Name endpoint of
          None \<Rightarrow> d
        | Some existingEndpointName \<Rightarrow>
            if eqFold existingEndpointName endpointName
            then SetField d ''connection_string'' (ptrString (ConnectionString endpoint))
            else d)"

definition resourceIotHubEndpointServiceBusQueueRead ::
    "helpers \<Rightarrow> IotHubDescription \<times> err \<Rightarrow> ResourceData \<Rightarrow> IotHubDescription result" where
  "resourceIotHubEndpointServiceBusQueueRead h get d =
     (case ParseAzureResourceID h (Id d) of
        Inl e \<Rightarrow> (Failure (Err e), d, [])
      | Inr parsedIothubEndpointId \<Rightarrow>
          (let resourceGroup = ResourceGroup parsedIothubEndpointId;
               iothubName = pathOf parsedIothubEndpointId ''IotHubs'';
               endpointName = pathOf parsedIothubEndpointId ''Endpoints'';
               tr = [Call Get [resourceGroup, iothubName] None]
           in case get of
                (iothub, Some e) \<Rightarrow>
                  (Failure (Errorf ''Error loading IotHub %q (Resource Group %q): %+v''
                              [iothubName, resourceGroup, e]), d, tr)
              | (iothub, None) \<Rightarrow>
                  (let d1 = SetField d ''name'' (CString endpointName);
                       d2 = SetField d1 ''iothub_name'' (CString iothubName);
                       d3 = SetField d2 ''resource_group_name'' (CString resourceGroup)
                   in case Properties iothub of
                        None \<Rightarrow> (Success, d3, tr)
                      | Some props \<Rightarrow>
                          (case Routing props of
                             None \<Rightarrow> (Success, d3, tr)
                           | Some routing \<Rightarrow>
                               (case Endpoints routing of
                                  None \<Rightarrow> (Success, d3, tr)
                                | Some eps \<Rightarrow>
                                    (case ServiceBusQueues eps of
                                       None \<Rightarrow> (Success, d3, tr)
                                     | Some endpoints \<Rightarrow>
                                         (Success,
                                          readEndpoints (EqualFold h) endpointName endpoints d3,
                                          tr)))))))"

text \<open>
  \<open>resourceIotHubEndpointServiceBusQueueCreateUpdate\<close>. \<open>routing\<close> is a pointer:
  when the hub has no routing, the fresh \<open>RoutingProperties\<close> is not attached to
  \<open>iothub\<close>, and the hub is sent as it was read; otherwise the assignments reach
  the hub that is sent. \<open>*iothub.ID\<close>, \<open>iothub.Properties.Routing\<close> and
  \<open>*routing.Endpoints.ServiceBusQueues\<close> panic on nil. The deferred unlock runs on
  every return and on a panic. \<open>get\<close>, \<open>createErr\<close>, \<open>waitErr\<close> are the
  responses of \<open>client.Get\<close>, \<open>client.CreateOrUpdate\<close> and
  \<open>future.WaitForCompletionRef\<close>; \<open>readGet\<close> is the response of the \<open>Get\<close> of
  the final Read.
\<close>

definition resourceIotHubEndpointServiceBusQueueCreateUpdate ::
    "helpers \<Rightarrow> string \<Rightarrow> IotHubDescription \<times> err \<Rightarrow> err \<Rightarrow> err
       \<Rightarrow> IotHubDescription \<times> err \<Rightarrow> ResourceData \<Rightarrow> IotHubDescription result" where
  "resourceIotHubEndpointServiceBusQueueCreateUpdate h subscriptionID get createErr waitErr readGet d =
     (let iothubName = getString d ''iothub_name'';
          resourceGroup = getString d ''resource_group_name''
      in traced
           [LockByName iothubName IothubResourceName, Call Get [resourceGroup, iothubName] None]
            (case get of
               (iothub, Some e) \<Rightarrow>
                 if WasNotFound iothub
                 then (Failure (Errorf ''IotHub %q (Resource Group %q) was not found''
                                  [iothubName, resourceGroup]), d, [])
                 else (Failure (Errorf ''Error loading IotHub %q (Resource Group %q): %+v''
                                  [iothubName, resourceGroup, e]), d, [])
             | (iothub, None) \<Rightarrow>
                 (let endpointName = getString d ''name''
                  in case ID iothub of
                       None \<Rightarrow> (Panic, d, [])
                     | Some hubID \<Rightarrow>
                         (let resourceId = hubID @ ''/Endpoints/'' @ endpointName;
                              queueEndpoint =
                                \<lparr>ConnectionString = Some (getString d ''connection_string''),
                                 Name = Some endpointName,
                                 SubscriptionID = Some subscriptionID,
                                 EndpointResourceGroup = Some resourceGroup\<rparr>
                          in case Properties iothub of
                               None \<Rightarrow> (Panic, d, [])
                             | Some props \<Rightarrow>
                                 (let attached = (Routing props \<noteq> None);
                                      routing = (case Routing props of
                                                   None \<Rightarrow> \<lparr>Endpoints = None\<rparr>
                                                 | Some r \<Rightarrow> r);
                                      eps0 = (case Endpoints routing of
                                                None \<Rightarrow> \<lparr>EventHubs = None, ServiceBusQueues = None\<rparr>
                                              | Some e \<Rightarrow> e);
                                      eps1 = (if EventHubs eps0 = None
                                              then eps0\<lparr>ServiceBusQueues := Some []\<rparr>
                                              else eps0)
                                  in case ServiceBusQueues eps1 of
                                       None \<Rightarrow> (Panic, d, [])
                                     | Some existing \<Rightarrow>
                                         (case createUpdateEndpoints (EqualFold h) (IsNewResource d)
                                                 endpointName resourceId queueEndpoint existing [] False of
                                            Inl e \<Rightarrow> (Failure e, d, [])
                                          | Inr (endpoints, alreadyExists) \<Rightarrow>
                                              if \<not> IsNewResource d \<and> \<not> alreadyExists then
                                                (Failure (Errorf ''Unable to find ServiceBus Queue Endpoint %q defined for IotHub %q (Resource Group %q)''
                                                            [endpointName, iothubName, resourceGroup]), d, [])
                                              else
                                                (let endpoints1 = (if IsNewResource d
                                                                   then endpoints @ [queueEndpoint]
                                                                   else endpoints);
                                                     eps2 = eps1\<lparr>ServiceBusQueues := Some endpoints1\<rparr>;
                                                     sent = (if attached
                                                             then iothub\<lparr>Properties :=
                                                                    Some (props\<lparr>Routing :=
                                                                      Some (routing\<lparr>Endpoints := Some eps2\<rparr>)\<rparr>)\<rparr>
                                                             else iothub);
                                                     put = Call CreateOrUpdate [resourceGroup, iothubName] (Some sent)
                                                 in case createErr of
                                                      Some e \<Rightarrow>
                                                        (Failure (Errorf ''Error creating/updating IotHub %q (Resource Group %q): %+v''
                                                                    [iothubName, resourceGroup, e]), d, [put])
                                                    | None \<Rightarrow>
                                                        (case waitErr of
                                                           Some e \<Rightarrow>
                                                             (Failure (Errorf ''Error waiting for the completion of the creating/updating of IotHub %q (Resource Group %q): %+v''
                                                                         [iothubName, resourceGroup, e]), d,
                                                              [put, Call WaitForCompletion [] None])
                                                         | None \<Rightarrow>
                                                             traced ([put, Call WaitForCompletion [] None, IdSet resourceId])
                                        (resourceIotHubEndpointServiceBusQueueRead h readGet (SetId d resourceId)) [])))))))
           [UnlockByName iothubName IothubResourceName])"

text \<open>The \<open>for\<close> loop of \<open>resourceIotHubEndpointServiceBusQueueDelete\<close>.\<close>

fun deleteEndpoints ::
    "(string \<Rightarrow> string \<Rightarrow> bool) \<Rightarrow> string
       \<Rightarrow> RoutingServiceBusQueueEndpointProperties list
       \<Rightarrow> RoutingServiceBusQueueEndpointProperties list
       \<Rightarrow> RoutingServiceBusQueueEndpointProperties list" where
  "deleteEndpoints eqFold endpointName [] updatedEndpoints = updatedEndpoints"
| "deleteEndpoints eqFold endpointName (endpoint # rest) updatedEndpoints =
     deleteEndpoints eqFold endpointName rest
       (case Name endpoint of
          None \<Rightarrow> updatedEndpoints
        | Some existingEndpointName \<Rightarrow>
            if \<not> eqFold existingEndpointName endpointName
            then updatedEndpoints @ [endpoint]
            else updatedEndpoints)"

definition resourceIotHubEndpointServiceBusQueueDelete ::
    "helpers \<Rightarrow> IotHubDescription \<times> err \<Rightarrow> err \<Rightarrow> err \<Rightarrow> ResourceData
       \<Rightarrow> IotHubDescription result" where
  "resourceIotHubEndpointServiceBusQueueDelete h get updateErr waitErr d =
     (case ParseAzureResourceID h (Id d) of
        Inl e \<Rightarrow> (Failure (Err e), d, [])
      | Inr parsedIothubEndpointId \<Rightarrow>
          (let resourceGroup = ResourceGroup parsedIothubEndpointId;
               iothubName = pathOf parsedIothubEndpointId ''IotHubs'';
               endpointName = pathOf parsedIothubEndpointId ''Endpoints''
           in traced
                [LockByName iothubName IothubResourceName, Call Get [resourceGroup, iothubName] None]
                 (case get of
                    (iothub, Some e) \<Rightarrow>
                      if WasNotFound iothub
                      then (Failure (Errorf ''IotHub %q (Resource Group %q) was not found''
                                       [iothubName, resourceGroup]), d, [])
                      else (Failure (Errorf ''Error loading IotHub %q (Resource Group %q): %+v''
                                       [iothubName, resourceGroup, e]), d, [])
                  | (iothub, None) \<Rightarrow>
                      (case Properties iothub of
                         None \<Rightarrow> (Success, d, [])
                       | Some props \<Rightarrow>
                           (case Routing props of
                              None \<Rightarrow> (Success, d, [])
                            | Some routing \<Rightarrow>
                                (case Endpoints routing of
                                   None \<Rightarrow> (Success, d, [])
                                 | Some eps \<Rightarrow>
                                     (case ServiceBusQueues eps of
                                        None \<Rightarrow> (Success, d, [])
                                      | Some endpoints \<Rightarrow>
                                          (let updatedEndpoints =
                                                 deleteEndpoints (EqualFold h) endpointName endpoints [];
                                               sent = iothub\<lparr>Properties :=
                                                        Some (props\<lparr>Routing :=
                                                          Some (routing\<lparr>Endpoints :=
                                                            Some (eps\<lparr>ServiceBusQueues := Some updatedEndpoints\<rparr>)\<rparr>)\<rparr>)\<rparr>;
                                               put = Call CreateOrUpdate [resourceGroup, iothubName] (Some sent)
                                           in case updateErr of
                                                Some e \<Rightarrow>
                                                  (Failure (Errorf ''Error updating IotHub %q (Resource Group %q) with ServiceBus Queue Endpoint %q: %+v''
                                                              [iothubName, resourceGroup, endpointName, e]), d, [put])
                                              | None \<Rightarrow>
                                                  (case waitErr of
                                                     Some e \<Rightarrow>
                                                       (Failure (Errorf ''Error waiting for IotHub %q (Resource Group %q) to finish updating ServiceBus Queue Endpoint %q: %+v''
                                                                   [iothubName, resourceGroup, endpointName, e]), d,
                                                        [put, Call WaitForCompletion [] None])
                                                   | None \<Rightarrow>
                                                       (Success, d, [put, Call WaitForCompletion [] None]))))))))
                [UnlockByName iothubName IothubResourceName]))"

subsection \<open>Network interface: the security group association\<close>

text \<open>\<open>networkInterfaceResourceName\<close> and \<open>networkSecurityGroupResourceName\<close> are
  variables of the package, declared outside the sources at hand; they are the
  resource-type tags of the locks.\<close>

definition networkInterfaceResourceName :: string where
  "networkInterfaceResourceName = ''azurerm_network_interface''"

definition networkSecurityGroupResourceName :: string where
  "networkSecurityGroupResourceName = ''azurerm_network_security_group''"

record SecurityGroup =
  SecurityGroupID :: "string option"

record InterfacePropertiesFormat =
  NetworkSecurityGroup :: "SecurityGroup option"

record Interface = Resource +
  InterfaceProperties :: "InterfacePropertiesFormat option"

text \<open>\<open>strings.Split(s, sep)\<close> for a separator of one character.\<close>

fun splitOn :: "char \<Rightarrow> string \<Rightarrow> string list" where
  "splitOn c [] = [[]]"
| "splitOn c (x # xs) =
     (if x = c then [] # splitOn c xs
      else (case splitOn c xs of [] \<Rightarrow> [[x]] | p # ps \<Rightarrow> (x # p) # ps))"

definition resourceNetworkInterfaceSecurityGroupAssociationRead ::
    "helpers \<Rightarrow> Interface \<times> err \<Rightarrow> ResourceData \<Rightarrow> Interface result" where
  "resourceNetworkInterfaceSecurityGroupAssociationRead h get d =
     (case splitOn CHR ''|'' (Id d) of
        [nicPart, nsgPart] \<Rightarrow>
          (case ParseAzureResourceID h nicPart of
             Inl e \<Rightarrow> (Failure (Err e), d, [])
           | Inr nicID \<Rightarrow>
               (let name = pathOf nicID ''networkInterfaces'';
                    resourceGroup = ResourceGroup nicID;
                    tr = [Call Get [resourceGroup, name] None]
                in case get of
                     (read, Some e) \<Rightarrow>
                       if WasNotFound read then (Success, SetId d [], tr @ [IdSet []])
                       else (Failure (Errorf ''Error retrieving Network Interface %q (Resource Group %q): %+v''
                                        [name, resourceGroup, e]), d, tr)
                   | (read, None) \<Rightarrow>
                       (case InterfaceProperties read of
                          None \<Rightarrow>
                            (Failure (Errorf ''Error: properties was nil for Network Interface %q (Resource Group %q)''
                                        [name, resourceGroup]), d, tr)
                        | Some props \<Rightarrow>
                            (case NetworkSecurityGroup props of
                               None \<Rightarrow> (Success, SetId d [], tr @ [IdSet []])
                             | Some sg \<Rightarrow>
                                 (case SecurityGroupID sg of
                                    None \<Rightarrow> (Success, SetId d [], tr @ [IdSet []])
                                  | Some sgID \<Rightarrow>
                                      (let d1 = SetField d ''network_interface_id'' (ptrString (ID read));
                                           d2 = SetField d1 ''network_security_group_id'' (CString sgID)
                                       in (Success, d2, tr)))))))
      | _ \<Rightarrow>
          (Failure (Errorf ''Expected ID to be in the format {networkInterfaceId}|{networkSecurityGroupId} but got %q''
                      [Id d]), d, []))"

text \<open>
  \<open>resourceNetworkInterfaceSecurityGroupAssociationCreate\<close> takes the lock of the
  network interface, then the lock of the security group; the deferred unlocks
  run in the reverse order.
\<close>

definition resourceNetworkInterfaceSecurityGroupAssociationCreate ::
    "helpers \<Rightarrow> Interface \<times> err \<Rightarrow> err \<Rightarrow> err \<Rightarrow> Interface \<times> err \<Rightarrow> ResourceData
       \<Rightarrow> Interface result" where
  "resourceNetworkInterfaceSecurityGroupAssociationCreate h get createErr waitErr readGet d =
     (let networkInterfaceId = getString d ''network_interface_id'';
          networkSecurityGroupId = getString d ''network_security_group_id''
      in case ParseAzureResourceID h networkInterfaceId of
           Inl e \<Rightarrow> (Failure (Err e), d, [])
         | Inr nicId \<Rightarrow>
             (let networkInterfaceName = pathOf nicId ''networkInterfaces'';
                  resourceGroup = ResourceGroup nicId
              in traced [LockByName networkInterfaceName networkInterfaceResourceName]
                    (case ParseAzureResourceID h networkSecurityGroupId of
                       Inl e \<Rightarrow> (Failure (Err e), d, [])
                     | Inr nsgId \<Rightarrow>
                         (let nsgName = pathOf nsgId ''networkSecurityGroups''
                          in traced
                               [LockByName nsgName networkSecurityGroupResourceName,
                                Call Get [resourceGroup, networkInterfaceName] None]
                                (case get of
                                   (read, Some e) \<Rightarrow>
                                     if WasNotFound read
                                     then (Failure (Errorf ''Network Interface %q (Resource Group %q) was not found!''
                                                      [networkInterfaceName, resourceGroup]), d, [])
                                     else (Failure (Errorf ''Error retrieving Network Interface %q (Resource Group %q): %+v''
                                                      [networkInterfaceName, resourceGroup, e]), d, [])
                                 | (read, None) \<Rightarrow>
                                     (case InterfaceProperties read of
                                        None \<Rightarrow>
                                          (Failure (Errorf ''Error: properties was nil for Network Interface %q (Resource Group %q)''
                                                      [networkInterfaceName, resourceGroup]), d, [])
                                      | Some props \<Rightarrow>
                                          (let resourceId = networkInterfaceId @ ''|'' @ networkSecurityGroupId
                                           in if NetworkSecurityGroup props \<noteq> None
                                              then (Failure (ImportAsExistsError
                                                               ''azurerm_network_interface_security_group_association''
                                                               resourceId), d, [])
                                              else
                                                (let sent = read\<lparr>InterfaceProperties :=
                                                              Some (props\<lparr>NetworkSecurityGroup :=
                                                                Some \<lparr>SecurityGroupID = Some networkSecurityGroupId\<rparr>\<rparr>)\<rparr>;
                                                     put = Call CreateOrUpdate [resourceGroup, networkInterfaceName]
                                                             (Some sent)
                                                 in case createErr of
                                                      Some e \<Rightarrow>
                                                        (Failure (Errorf ''Error updating Security Group Association for Network Interface %q (Resource Group %q): %+v''
                                                                    [networkInterfaceName, resourceGroup, e]), d, [put])
                                                    | None \<Rightarrow>
                                                        (case waitErr of
                                                           Some e \<Rightarrow>
                                                             (Failure (Errorf ''Error waiting for completion of Security Group Association for NIC %q (Resource Group %q): %+v''
                                                                         [networkInterfaceName, resourceGroup, e]), d,
                                                              [put, Call WaitForCompletion [] None])
                                                         | None \<Rightarrow>
                                                             traced ([put, Call WaitForCompletion [] None, IdSet resourceId])
                                        (resourceNetworkInterfaceSecurityGroupAssociationRead h readGet (SetId d resourceId)) [])))))
                               [UnlockByName nsgName networkSecurityGroupResourceName]))
                    [UnlockByName networkInterfaceName networkInterfaceResourceName]))"

text \<open>
  \<open>resourceNetworkInterfaceSecurityGroupAssociationDelete\<close>; the write is
  \<open>azuresdkhacks.UpdateNetworkInterfaceAllowingRemovalOfNSG\<close>, a client call.
\<close>

definition resourceNetworkInterfaceSecurityGroupAssociationDelete ::
    "helpers \<Rightarrow> Interface \<times> err \<Rightarrow> err \<Rightarrow> err \<Rightarrow> ResourceData \<Rightarrow> Interface result" where
  "resourceNetworkInterfaceSecurityGroupAssociationDelete h get updateErr waitErr d =
     (case splitOn CHR ''|'' (Id d) of
        [nicPart, nsgPart] \<Rightarrow>
          (case ParseAzureResourceID h nicPart of
             Inl e \<Rightarrow> (Failure (Err e), d, [])
           | Inr nicID \<Rightarrow>
               (let name = pathOf nicID ''networkInterfaces'';
                    resourceGroup = ResourceGroup nicID
                in traced
                     [LockByName name networkInterfaceResourceName, Call Get [resourceGroup, name] None]
                      (case get of
                         (read, Some e) \<Rightarrow>
                           if WasNotFound read
                           then (Failure (Errorf ''Network Interface %q (Resource Group %q) was not found!''
                                            [name, resourceGroup]), d, [])
                           else (Failure (Errorf ''Error retrieving Network Interface %q (Resource Group %q): %+v''
                                            [name, resourceGroup, e]), d, [])
                       | (read, None) \<Rightarrow>
                           (case InterfaceProperties read of
                              None \<Rightarrow>
                                (Failure (Errorf ''Error: properties was nil for Network Interface %q (Resource Group %q)''
                                            [name, resourceGroup]), d, [])
                            | Some props \<Rightarrow>
                                (let sent = read\<lparr>InterfaceProperties :=
                                              Some (props\<lparr>NetworkSecurityGroup := None\<rparr>)\<rparr>;
                                     put = Call Update [resourceGroup, name] (Some sent)
                                 in case updateErr of
                                      Some e \<Rightarrow>
                                        (Failure (Errorf ''Error updating Network Interface %q (Resource Group %q): %+v''
                                                    [name, resourceGroup, e]), d, [put])
                                    | None \<Rightarrow>
                                        (case waitErr of
                                           Some e \<Rightarrow>
                                             (Failure (Errorf ''Error waiting for update of Network Interface %q (Resource Group %q): %+v''
                                                         [name, resourceGroup, e]), d,
                                              [put, Call WaitForCompletion [] None])
                                         | None \<Rightarrow> (Success, d, [put, Call WaitForCompletion [] None])))))
                     [UnlockByName name networkInterfaceResourceName]))
      | _ \<Rightarrow>
          (Failure (Errorf ''Expected ID to be in the format {networkInterfaceId}/{networkSecurityGroup} but got %q''
                      [Id d]), d, []))"

subsection \<open>Automation variables: the handlers\<close>

record VariableProperties =
  Description :: "string option"
  IsEncrypted :: "bool option"
  Value :: "string option"

record Variable = Resource +
  VariableName :: "string option"
  VariableProps :: "VariableProperties option"

text \<open>
  The \<open>switch varTypeLower\<close> of \<open>resourceAutomationVariableCreateUpdate\<close>: the
  text sent as the value.
\<close>

definition encodeVariableValue :: "helpers \<Rightarrow> string \<Rightarrow> ResourceData \<Rightarrow> error + string" where
  "encodeVariableValue h varTypeLower d =
     (if varTypeLower = ''datetime'' then
        (case ParseRFC3339 h (getString d ''value'') of
           Inl parseErr \<Rightarrow> Inl (Errorf ''Error invalid time format: %+v'' [parseErr])
         | Inr vTime \<Rightarrow> Inr (datePrefix @ Itoa (goDiv (UnixNano vTime) 1000000) @ dateSuffix))
      else if varTypeLower = ''bool'' then Inr (FormatBool (getBool d ''value''))
      else if varTypeLower = ''int'' then Inr (Itoa (getInt d ''value''))
      else if varTypeLower = ''string'' then Inr (Quote h (getString d ''value''))
      else Inr [])"

text \<open>How \<open>d.Set("value", value)\<close> stores the parsed value.\<close>

definition valueField :: "value option \<Rightarrow> cfgval" where
  "valueField v =
     (case v of
        None \<Rightarrow> CNil
      | Some (VString s) \<Rightarrow> CString s
      | Some (VInt32 i) \<Rightarrow> CInt (sint i)
      | Some (VBool b) \<Rightarrow> CBool b
      | Some (VTime t) \<Rightarrow> CNil)"

definition resourceAutomationVariableRead ::
    "helpers \<Rightarrow> string \<Rightarrow> Variable \<times> err \<Rightarrow> ResourceData \<Rightarrow> string option result" where
  "resourceAutomationVariableRead h varType get d =
     (case ParseAzureResourceID h (Id d) of
        Inl e \<Rightarrow> (Failure (Err e), d, [])
      | Inr rid \<Rightarrow>
          (let resourceGroup = ResourceGroup rid;
               accountName = pathOf rid ''automationAccounts'';
               name = pathOf rid ''variables'';
               varTypeLower = ToLower h varType;
               tr = [Call Get [resourceGroup, accountName, name] None]
           in case get of
                (resp, Some e) \<Rightarrow>
                  if WasNotFound resp then (Success, SetId d [], tr @ [IdSet []])
                  else (Failure (Errorf ''Error reading Automation %s Variable %q (Automation Account Name %q / Resource Group %q): %+v''
                                   [varType, name, accountName, resourceGroup, e]), d, tr)
              | (resp, None) \<Rightarrow>
                  (let d1 = SetField d ''name'' (ptrString (VariableName resp));
                       d2 = SetField d1 ''resource_group_name'' (CString resourceGroup);
                       d3 = SetField d2 ''automation_account_name'' (CString accountName)
                   in case VariableProps resp of
                        None \<Rightarrow> (Success, d3, tr)
                      | Some properties \<Rightarrow>
                          (let d4 = SetField d3 ''description'' (ptrString (Description properties));
                               d5 = SetField d4 ''encrypted'' (ptrBool (IsEncrypted properties))
                           in if \<not> getBool d5 ''encrypted'' then
                                (case ParseAzureAutomationVariableValue
                                        (''azurerm_automation_variable_'' @ varTypeLower) (Value properties) of
                                   (v, Some e) \<Rightarrow> (Failure e, d5, tr)
                                 | (v, None) \<Rightarrow>
                                     if varTypeLower = ''datetime'' then
                                       (case v of
                                          Some (VTime t) \<Rightarrow>
                                            (Success, SetField d5 ''value'' (CString (FormatTime h t)), tr)
                                        | _ \<Rightarrow> (Panic, d5, tr))
                                     else if varTypeLower \<noteq> ''null'' then
                                       (Success, SetField d5 ''value'' (valueField v), tr)
                                     else (Success, d5, tr))
                              else (Success, d5, tr)))))"

text \<open>The body of the events of this client is the \<open>Value\<close> sent (nil for the
  \<open>null\<close> type).\<close>

definition resourceAutomationVariableCreateUpdate ::
    "helpers \<Rightarrow> string \<Rightarrow> Variable \<times> err \<Rightarrow> err \<Rightarrow> Variable \<times> err \<Rightarrow> Variable \<times> err
       \<Rightarrow> ResourceData \<Rightarrow> string option result" where
  "resourceAutomationVariableCreateUpdate h varType existing createErr get readGet d =
     (let name = getString d ''name'';
          resourceGroup = getString d ''resource_group_name'';
          accountName = getString d ''automation_account_name'';
          varTypeLower = ToLower h varType;
          getEv = Call Get [resourceGroup, accountName, name] None;
          check =
            (if IsNewResource d then
               (case existing of
                  (resp, Some e) \<Rightarrow>
                    if \<not> WasNotFound resp then
                      Some (Failure (Errorf ''Error checking for present of existing Automation %s Variable %q (Automation Account Name %q / Resource Group %q): %+v''
                                       [varType, name, accountName, resourceGroup, e]))
                    else None
                | (resp, None) \<Rightarrow>
                    if \<not> WasNotFound resp then
                      (case ID resp of
                         None \<Rightarrow> Some Panic
                       | Some rid \<Rightarrow>
                           Some (Failure (ImportAsExistsError
                                            (''azurerm_automation_variable_'' @ varTypeLower) rid)))
                    else None)
             else None);
          pre = (if IsNewResource d then [getEv] else [])
      in case check of
           Some out \<Rightarrow> (out, d, pre)
         | None \<Rightarrow>
             (case encodeVariableValue h varTypeLower d of
                Inl e \<Rightarrow> (Failure e, d, pre)
              | Inr v \<Rightarrow>
                  (let put = Call CreateOrUpdate [resourceGroup, accountName, name]
                               (Some (if varTypeLower \<noteq> ''null'' then Some v else None))
                   in case createErr of
                        Some e \<Rightarrow>
                          (Failure (Errorf ''Error creating Automation %s Variable %q (Automation Account Name %q / Resource Group %q): %+v''
                                      [varType, name, accountName, resourceGroup, e]), d, pre @ [put])
                      | None \<Rightarrow>
                          (case get of
                             (resp, Some e) \<Rightarrow>
                               (Failure (Errorf ''Error retrieving Automation %s Variable %q (Automation Account Name %q / Resource Group %q): %+v''
                                           [varType, name, accountName, resourceGroup, e]), d,
                                pre @ [put, getEv])
                           | (resp, None) \<Rightarrow>
                               (case ID resp of
                                  None \<Rightarrow>
                                    (Failure (Errorf ''Cannot read Automation %s Variable %q (Automation Account Name %q / Resource Group %q) ID''
                                                [varType, name, accountName, resourceGroup]), d,
                                     pre @ [put, getEv])
                                | Some rid \<Rightarrow>
                                    traced (pre @ [put, getEv, IdSet rid])
                                        (resourceAutomationVariableRead h varType readGet (SetId d rid)) [])))))"

definition resourceAutomationVariableDelete ::
    "helpers \<Rightarrow> string \<Rightarrow> err \<Rightarrow> ResourceData \<Rightarrow> string option result" where
  "resourceAutomationVariableDelete h varType deleteErr d =
     (case ParseAzureResourceID h (Id d) of
        Inl e \<Rightarrow> (Failure (Err e), d, [])
      | Inr rid \<Rightarrow>
          (let resourceGroup = ResourceGroup rid;
               accountName = pathOf rid ''automationAccounts'';
               name = pathOf rid ''variables'';
               tr = [Call Delete [resourceGroup, accountName, name] None]
           in case deleteErr of
                Some e \<Rightarrow>
                  (Failure (Errorf ''Error deleting Automation %s Variable %q (Automation Account Name %q / Resource Group %q): %+v''
                              [varType, name, accountName, resourceGroup, e]), d, tr)
              | None \<Rightarrow> (Success, d, tr)))"

subsection \<open>Handlers of the other resources\<close>

text \<open>
  The existence check that the Create handlers of the storage sync, the SQL firewall
  rule, the SQL failover group, the ExpressRoute gateway, the DevTest policy and
  the data factory dataset each write out: an error of the \<open>Get\<close> other than
  not-found is returned, and a resource with a non-empty ID is an
  \<open>ImportAsExistsError\<close>. \<open>None\<close> lets the handler go on.
\<close>

definition checkExisting ::
    "string \<Rightarrow> string list \<Rightarrow> string \<Rightarrow> 'a Resource_scheme \<times> err \<Rightarrow> error option" where
  "checkExisting msg args resourceType existing =
     (case existing of
        (ex, e) \<Rightarrow>
          (case (case e of
                   Some er \<Rightarrow> if \<not> WasNotFound ex then Some (Errorf msg (args @ [er])) else None
                 | None \<Rightarrow> None) of
             Some failure \<Rightarrow> Some failure
           | None \<Rightarrow>
               (case ID ex of
                  Some rid \<Rightarrow> if rid \<noteq> [] then Some (ImportAsExistsError resourceType rid) else None
                | None \<Rightarrow> None)))"

subsubsection \<open>Storage sync\<close>

definition resourceStorageSyncRead ::
    "helpers \<Rightarrow> Resource \<times> err \<Rightarrow> outcome \<Rightarrow> ResourceData \<Rightarrow> unit result" where
  "resourceStorageSyncRead h get rest d =
     (case StorageSyncServiceID h (Id d) of
        Inl e \<Rightarrow> (Failure (Err e), d, [])
      | Inr (resourceGroup, name) \<Rightarrow>
          (let tr = [Call Get [resourceGroup, name] None]
           in case get of
                (resp, Some e) \<Rightarrow>
                  if WasNotFound resp then (Success, SetId d [], tr @ [IdSet []])
                  else (Failure (Errorf ''reading Storage Sync(Storage Sync Name %q / Resource Group %q): %+v''
                                   [name, resourceGroup, e]), d, tr)
              | (resp, None) \<Rightarrow> (rest, d, tr)))"

definition resourceStorageSyncCreate ::
    "helpers \<Rightarrow> Resource \<times> err \<Rightarrow> err \<Rightarrow> err \<Rightarrow> Resource \<times> err \<Rightarrow> Resource \<times> err
       \<Rightarrow> outcome \<Rightarrow> ResourceData \<Rightarrow> unit result" where
  "resourceStorageSyncCreate h existing createErr waitErr get readGet rest d =
     (let name = getString d ''name'';
          resourceGroupName = getString d ''resource_group_name'';
          getEv = Call Get [resourceGroupName, name] None
      in case checkExisting ''Error checking for present of existing Storage Sync(Storage Sync Name %q / Resource Group %q): %+v''
                [name, resourceGroupName] ''azurerm_storage_sync'' existing of
           Some e \<Rightarrow> (Failure e, d, [getEv])
         | None \<Rightarrow>
             (let put = Call Create [resourceGroupName, name] None
              in case createErr of
                   Some e \<Rightarrow>
                     (Failure (Errorf ''creating Storage Sync(Storage Sync Name %q / Resource Group %q): %+v''
                                 [name, resourceGroupName, e]), d, [getEv, put])
                 | None \<Rightarrow>
                     (case waitErr of
                        Some e \<Rightarrow>
                          (Failure (Errorf ''waiting for creation of Storage Sync(Storage Sync Name %q / Resource Group %q): %+v''
                                      [name, resourceGroupName, e]), d,
                           [getEv, put, Call WaitForCompletion [] None])
                      | None \<Rightarrow>
                          (let tr = [getEv, put, Call WaitForCompletion [] None, getEv]
                           in case get of
                                (resp, Some e) \<Rightarrow>
                                  (Failure (Errorf ''retrieving Storage Sync(Storage Sync Name %q / Resource Group %q): %+v''
                                              [name, resourceGroupName, e]), d, tr)
                              | (resp, None) \<Rightarrow>
                                  (case ID resp of
                                     None \<Rightarrow>
                                       (Failure (Errorf ''storage Sync(Storage Sync Name %q / Resource Group %q) ID is empty or nil''
                                                   [name, resourceGroupName]), d, tr)
                                   | Some rid \<Rightarrow>
                                       if rid = [] then
                                         (Failure (Errorf ''storage Sync(Storage Sync Name %q / Resource Group %q) ID is empty or nil''
                                                     [name, resourceGroupName]), d, tr)
                                       else
                                         traced (tr @ [IdSet rid])
                                        (resourceStorageSyncRead h readGet rest (SetId d rid)) [])))))"

definition resourceStorageSyncUpdate ::
    "helpers \<Rightarrow> err \<Rightarrow> err \<Rightarrow> Resource \<times> err \<Rightarrow> outcome \<Rightarrow> ResourceData \<Rightarrow> unit result" where
  "resourceStorageSyncUpdate h updateErr waitErr readGet rest d =
     (case StorageSyncServiceID h (Id d) of
        Inl e \<Rightarrow> (Failure (Err e), d, [])
      | Inr (resourceGroup, name) \<Rightarrow>
          (let put = Call Update [resourceGroup, name] None
           in case updateErr of
                Some e \<Rightarrow>
                  (Failure (Errorf ''updating Storage Sync %q (Resource Group %q): %+v''
                              [name, resourceGroup, e]), d, [put])
              | None \<Rightarrow>
                  (case waitErr of
                     Some e \<Rightarrow>
                       (Failure (Errorf ''waiting for update of Storage Sync(Storage Sync Name %q / Resource Group %q): %+v''
                                   [name, resourceGroup, e]), d, [put, Call WaitForCompletion [] None])
                   | None \<Rightarrow>
                       traced ([put, Call WaitForCompletion [] None])
                                        (resourceStorageSyncRead h readGet rest d) [])))"

definition resourceStorageSyncDelete ::
    "helpers \<Rightarrow> err \<Rightarrow> err \<Rightarrow> ResourceData \<Rightarrow> unit result" where
  "resourceStorageSyncDelete h deleteErr waitErr d =
     (case StorageSyncServiceID h (Id d) of
        Inl e \<Rightarrow> (Failure (Err e), d, [])
      | Inr (resourceGroup, name) \<Rightarrow>
          (let del = Call Delete [resourceGroup, name] None
           in case deleteErr of
                Some e \<Rightarrow>
                  (Failure (Errorf ''deleting Storage Sync(Storage Sync Name %q / Resource Group %q): %+v''
                              [name, resourceGroup, e]), d, [del])
              | None \<Rightarrow>
                  (case waitErr of
                     Some e \<Rightarrow>
                       (Failure (Errorf ''waiting for deletion of Storage Sync(Storage Sync Name %q / Resource Group %q): %+v''
                                   [name, resourceGroup, e]), d, [del, Call WaitForCompletion [] None])
                   | None \<Rightarrow> (Success, d, [del, Call WaitForCompletion [] None]))))"

subsubsection \<open>Portal dashboard\<close>

definition resourceDashboardRead ::
    "helpers \<Rightarrow> Resource \<times> err \<Rightarrow> outcome \<Rightarrow> ResourceData \<Rightarrow> unit result" where
  "resourceDashboardRead h get rest d =
     (case DashboardID h (Id d) of
        Inl e \<Rightarrow> (Failure (Err e), d, [])
      | Inr (resourceGroup, name) \<Rightarrow>
          (let tr = [Call Get [resourceGroup, name] None]
           in case get of
                (resp, Some e) \<Rightarrow>
                  if WasNotFound resp then (Success, SetId d [], tr @ [IdSet []])
                  else (Failure (Errorf ''retrieving Dashboard %q (Resource Group %q): %+v''
                                   [name, resourceGroup, e]), d, tr)
              | (resp, None) \<Rightarrow> (rest, d, tr)))"

text \<open>
  \<open>resourceDashboardCreateUpdate\<close> makes no \<open>Get\<close> before it writes (the source
  says \<open>TODO: requires import support\<close>). \<open>unmarshalErr\<close> is the result of
  \<open>json.Unmarshal\<close> on \<open>dashboard_properties\<close>.
\<close>

definition resourceDashboardCreateUpdate ::
    "helpers \<Rightarrow> string \<Rightarrow> err \<Rightarrow> err \<Rightarrow> Resource \<times> err \<Rightarrow> outcome \<Rightarrow> ResourceData
       \<Rightarrow> unit result" where
  "resourceDashboardCreateUpdate h subscriptionId unmarshalErr createErr readGet rest d =
     (let name = getString d ''name'';
          resourceGroup = getString d ''resource_group_name''
      in case unmarshalErr of
           Some e \<Rightarrow> (Failure (Errorf ''Error parsing JSON: %+v'' [e]), d, [])
         | None \<Rightarrow>
             (let put = Call CreateOrUpdate [resourceGroup, name] None
              in case createErr of
                   Some e \<Rightarrow>
                     (Failure (Errorf ''creating/updating Dashboard %q (Resource Group %q): %+v''
                                 [name, resourceGroup, e]), d, [put])
                 | None \<Rightarrow>
                     (let rid = NewDashboardID h subscriptionId resourceGroup name
                      in traced [put, IdSet rid] (resourceDashboardRead h readGet rest (SetId d rid)) [])))"

definition resourceDashboardDelete ::
    "helpers \<Rightarrow> bool \<times> err \<Rightarrow> ResourceData \<Rightarrow> unit result" where
  "resourceDashboardDelete h del d =
     (case DashboardID h (Id d) of
        Inl e \<Rightarrow> (Failure (Err e), d, [])
      | Inr (resourceGroup, name) \<Rightarrow>
          (let tr = [Call Delete [resourceGroup, name] None]
           in case del of
                (notFound, Some e) \<Rightarrow>
                  if \<not> notFound
                  then (Failure (Errorf ''deleting Dashboard %q (Resource Group %q): %+v''
                                   [name, name, e]), d, tr)
                  else (Success, d, tr)
              | (notFound, None) \<Rightarrow> (Success, d, tr)))"

subsubsection \<open>SQL firewall rule\<close>

definition resourceSqlFirewallRuleRead ::
    "helpers \<Rightarrow> Resource \<times> err \<Rightarrow> ResourceData \<Rightarrow> unit result" where
  "resourceSqlFirewallRuleRead h get d =
     (case FirewallRuleID h (Id d) of
        Inl e \<Rightarrow> (Failure (Err e), d, [])
      | Inr (resourceGroup, serverName, name) \<Rightarrow>
          (let tr = [Call Get [resourceGroup, serverName, name] None]
           in case get of
                (resp, Some e) \<Rightarrow>
                  if WasNotFound resp then (Success, SetId d [], tr @ [IdSet []])
                  else (Failure (Errorf ''retrieving SQL Firewall Rule %q (Server %q / Resource Group %q): %+v''
                                   [name, serverName, resourceGroup, e]), d, tr)
              | (resp, None) \<Rightarrow> (Success, d, tr)))"

definition resourceSqlFirewallRuleCreateUpdate ::
    "helpers \<Rightarrow> Resource \<times> err \<Rightarrow> err \<Rightarrow> Resource \<times> err \<Rightarrow> Resource \<times> err \<Rightarrow> ResourceData
       \<Rightarrow> unit result" where
  "resourceSqlFirewallRuleCreateUpdate h existing createErr get readGet d =
     (let name = getString d ''name'';
          serverName = getString d ''server_name'';
          resourceGroup = getString d ''resource_group_name'';
          getEv = Call Get [resourceGroup, serverName, name] None;
          pre = (if IsNewResource d then [getEv] else [])
      in case (if IsNewResource d
               then checkExisting ''Error checking for presence of existing SQL Firewall Rule %s (Resource Group %s, Server %s): %+v''
                      [name, resourceGroup, serverName] ''azurerm_sql_firewall_rule'' existing
               else None) of
           Some e \<Rightarrow> (Failure e, d, pre)
         | None \<Rightarrow>
             (let put = Call CreateOrUpdate [resourceGroup, serverName, name] None
              in case createErr of
                   Some e \<Rightarrow>
                     (Failure (Errorf ''Error creating SQL Firewall Rule %s (Resource Group %s, Server %s): %+v''
                                 [name, resourceGroup, serverName, e]), d, pre @ [put])
                 | None \<Rightarrow>
                     (case get of
                        (resp, Some e) \<Rightarrow>
                          (Failure (Errorf ''Error retrieving SQL Firewall Rule %s (Resource Group %s, Server %s): %+v''
                                      [name, resourceGroup, serverName, e]), d, pre @ [put, getEv])
                      | (resp, None) \<Rightarrow>
                          (case ID resp of
                             None \<Rightarrow> (Panic, d, pre @ [put, getEv])
                           | Some rid \<Rightarrow>
                               traced (pre @ [put, getEv, IdSet rid])
                                        (resourceSqlFirewallRuleRead h readGet (SetId d rid)) []))))"

definition resourceSqlFirewallRuleDelete ::
    "helpers \<Rightarrow> bool \<times> err \<Rightarrow> ResourceData \<Rightarrow> unit result" where
  "resourceSqlFirewallRuleDelete h del d =
     (case FirewallRuleID h (Id d) of
        Inl e \<Rightarrow> (Failure (Err e), d, [])
      | Inr (resourceGroup, serverName, name) \<Rightarrow>
          (let tr = [Call Delete [resourceGroup, serverName, name] None]
           in case del of
                (notFound, Some e) \<Rightarrow>
                  if \<not> notFound
                  then (Failure (Errorf ''deleting SQL Firewall Rule %q (Server %q / Resource Group %q): %+v''
                                   [name, serverName, resourceGroup, e]), d, tr)
                  else (Success, d, tr)
              | (notFound, None) \<Rightarrow> (Success, d, tr)))"

subsubsection \<open>SQL failover group\<close>

definition resourceSqlFailoverGroupRead ::
    "helpers \<Rightarrow> Resource \<times> err \<Rightarrow> outcome \<Rightarrow> ResourceData
       \<Rightarrow> FailoverGroupReadWriteEndpoint result" where
  "resourceSqlFailoverGroupRead h get rest d =
     (case FailoverGroupID h (Id d) of
        Inl e \<Rightarrow> (Failure (Err e), d, [])
      | Inr (resourceGroup, serverName, name) \<Rightarrow>
          (let tr = [Call Get [resourceGroup, serverName, name] None]
           in case get of
                (resp, Some e) \<Rightarrow>
                  if WasNotFound resp then (Success, SetId d [], tr @ [IdSet []])
                  else (Failure (Errorf ''retrieving Failover Group %q (Server %q / Resource Group %q): %+v''
                                   [name, serverName, resourceGroup, e]), d, tr)
              | (resp, None) \<Rightarrow> (rest, d, tr)))"

text \<open>\<open>vs\<close> is the value of the field \<open>read_write_endpoint_failover_policy\<close>; the
  body of the write is the expanded read-write endpoint.\<close>

definition resourceSqlFailoverGroupCreateUpdate ::
    "helpers \<Rightarrow> block list \<Rightarrow> Resource \<times> err \<Rightarrow> err \<Rightarrow> err \<Rightarrow> Resource \<times> err
       \<Rightarrow> Resource \<times> err \<Rightarrow> outcome \<Rightarrow> ResourceData
       \<Rightarrow> FailoverGroupReadWriteEndpoint result" where
  "resourceSqlFailoverGroupCreateUpdate h vs existing createErr waitErr get readGet rest d =
     (let name = getString d ''name'';
          resourceGroup = getString d ''resource_group_name'';
          serverName = getString d ''server_name'';
          getEv = Call Get [resourceGroup, serverName, name] None;
          pre = (if IsNewResource d then [getEv] else [])
      in case (if IsNewResource d
               then checkExisting ''Error checking for presence of existing SQL Failover Group %q (Resource Group %q, Server %q): %+v''
                      [name, resourceGroup, serverName] ''azurerm_sql_failover_group'' existing
               else None) of
           Some e \<Rightarrow> (Failure e, d, pre)
         | None \<Rightarrow>
             (case expandSqlFailoverGroupReadWritePolicy vs of
                None \<Rightarrow> (Panic, d, pre)
              | Some readWriteEndpoint \<Rightarrow>
                  (let put = Call CreateOrUpdate [resourceGroup, serverName, name] (Some readWriteEndpoint)
                   in case createErr of
                        Some e \<Rightarrow>
                          (Failure (Errorf ''Error issuing create/update request for SQL Failover Group %q (Resource Group %q, Server %q): %+v''
                                      [name, resourceGroup, serverName, e]), d, pre @ [put])
                      | None \<Rightarrow>
                          (case waitErr of
                             Some e \<Rightarrow>
                               (Failure (Errorf ''Error waiting on create/update future for SQL Failover Group %q (Resource Group %q, Server %q): %+v''
                                           [name, resourceGroup, serverName, e]), d,
                                pre @ [put, Call WaitForCompletion [] None])
                           | None \<Rightarrow>
                               (let tr = pre @ [put, Call WaitForCompletion [] None, getEv]
                                in case get of
                                     (resp, Some e) \<Rightarrow>
                                       (Failure (Errorf ''Error issuing get request for SQL Failover Group %q (Resource Group %q, Server %q): %+v''
                                                   [name, resourceGroup, serverName, e]), d, tr)
                                   | (resp, None) \<Rightarrow>
                                       (case ID resp of
                                          None \<Rightarrow> (Panic, d, tr)
                                        | Some rid \<Rightarrow>
                                            traced (tr @ [IdSet rid])
                                        (resourceSqlFailoverGroupRead h readGet rest (SetId d rid)) []))))))"

definition resourceSqlFailoverGroupDelete ::
    "helpers \<Rightarrow> err \<Rightarrow> err \<Rightarrow> ResourceData \<Rightarrow> FailoverGroupReadWriteEndpoint result" where
  "resourceSqlFailoverGroupDelete h deleteErr waitErr d =
     (case FailoverGroupID h (Id d) of
        Inl e \<Rightarrow> (Failure (Err e), d, [])
      | Inr (resourceGroup, serverName, name) \<Rightarrow>
          (let del = Call Delete [resourceGroup, serverName, name] None
           in case deleteErr of
                Some e \<Rightarrow>
                  (Failure (Errorf ''deleting SQL Failover Group %q (Server %q / Resource Group %q): %+v''
                              [name, serverName, resourceGroup, e]), d, [del])
              | None \<Rightarrow>
                  (case waitErr of
                     Some e \<Rightarrow>
                       (Failure (Errorf ''waiting for deletion of SQL Failover Group %q (Server %q / Resource Group %q): %+v''
                                   [name, serverName, resourceGroup, e]), d,
                        [del, Call WaitForCompletion [] None])
                   | None \<Rightarrow> (Success, d, [del, Call WaitForCompletion [] None]))))"

subsubsection \<open>ExpressRoute gateway\<close>

definition resourceExpressRouteGatewayRead ::
    "helpers \<Rightarrow> Resource \<times> err \<Rightarrow> outcome \<Rightarrow> ResourceData \<Rightarrow> unit result" where
  "resourceExpressRouteGatewayRead h get rest d =
     (case ParseAzureResourceID h (Id d) of
        Inl e \<Rightarrow> (Failure (Err e), d, [])
      | Inr rid \<Rightarrow>
          (let resourceGroup = ResourceGroup rid;
               name = pathOf rid ''expressRouteGateways'';
               tr = [Call Get [resourceGroup, name] None]
           in case get of
                (resp, Some e) \<Rightarrow>
                  if WasNotFound resp then (Success, SetId d [], tr @ [IdSet []])
                  else (Failure (Errorf ''Error reading ExpressRoute Gateway %q (Resource Group %q): %+v''
                                   [name, resourceGroup, e]), d, tr)
              | (resp, None) \<Rightarrow> (rest, d, tr)))"

definition resourceExpressRouteGatewayCreateUpdate ::
    "helpers \<Rightarrow> Resource \<times> err \<Rightarrow> err \<Rightarrow> err \<Rightarrow> Resource \<times> err \<Rightarrow> Resource \<times> err
       \<Rightarrow> outcome \<Rightarrow> ResourceData \<Rightarrow> unit result" where
  "resourceExpressRouteGatewayCreateUpdate h existing createErr waitErr get readGet rest d =
     (let name = getString d ''name'';
          resourceGroup = getString d ''resource_group_name'';
          getEv = Call Get [resourceGroup, name] None;
          pre = (if IsNewResource d then [getEv] else [])
      in case (if IsNewResource d
               then checkExisting ''Error checking for present of existing ExpressRoute Gateway %q (Resource Group %q): %+v''
                      [name, resourceGroup] ''azurerm_express_route_gateway'' existing
               else None) of
           Some e \<Rightarrow> (Failure e, d, pre)
         | None \<Rightarrow>
             (let put = Call CreateOrUpdate [resourceGroup, name] None
              in case createErr of
                   Some e \<Rightarrow>
                     (Failure (Errorf ''Error creating ExpressRoute Gateway %q (Resource Group %q): %+v''
                                 [name, resourceGroup, e]), d, pre @ [put])
                 | None \<Rightarrow>
                     (case waitErr of
                        Some e \<Rightarrow>
                          (Failure (Errorf ''Error waiting for creation of ExpressRoute Gateway %q (Resource Group %q): %+v''
                                      [name, resourceGroup, e]), d,
                           pre @ [put, Call WaitForCompletion [] None])
                      | None \<Rightarrow>
                          (let tr = pre @ [put, Call WaitForCompletion [] None, getEv]
                           in case get of
                                (resp, Some e) \<Rightarrow>
                                  (Failure (Errorf ''Error retrieving ExpressRoute Gateway %q (Resource Group %q): %+v''
                                              [name, resourceGroup, e]), d, tr)
                              | (resp, None) \<Rightarrow>
                                  (case ID resp of
                                     None \<Rightarrow>
                                       (Failure (Errorf ''Cannot read ExpressRoute Gateway %q (Resource Group %q) ID''
                                                   [name, resourceGroup]), d, tr)
                                   | Some rid \<Rightarrow>
                                       if rid = [] then
                                         (Failure (Errorf ''Cannot read ExpressRoute Gateway %q (Resource Group %q) ID''
                                                     [name, resourceGroup]), d, tr)
                                       else
                                         traced (tr @ [IdSet rid])
                                        (resourceExpressRouteGatewayRead h readGet rest (SetId d rid)) [])))))"

text \<open>\<open>del\<close> and \<open>wait\<close> pair \<open>response.WasNotFound(future.Response())\<close>, as it is
  after the call, with the error of the call.\<close>

definition resourceExpressRouteGatewayDelete ::
    "helpers \<Rightarrow> bool \<times> err \<Rightarrow> bool \<times> err \<Rightarrow> ResourceData \<Rightarrow> unit result" where
  "resourceExpressRouteGatewayDelete h del wait d =
     (case ParseAzureResourceID h (Id d) of
        Inl e \<Rightarrow> (Failure (Err e), d, [])
      | Inr rid \<Rightarrow>
          (let resourceGroup = ResourceGroup rid;
               name = pathOf rid ''expressRouteGateways'';
               delEv = Call Delete [resourceGroup, name] None
           in case del of
                (notFound, Some e) \<Rightarrow>
                  if notFound then (Success, d, [delEv])
                  else (Failure (Errorf ''Error deleting ExpressRoute Gateway %q (Resource Group %q): %+v''
                                   [name, resourceGroup, e]), d, [delEv])
              | (notFound, None) \<Rightarrow>
                  (case wait of
                     (notFound2, Some e) \<Rightarrow>
                       if \<not> notFound2
                       then (Failure (Errorf ''Error waiting for deleting ExpressRoute Gateway %q (Resource Group %q): %+v''
                                        [name, resourceGroup, e]), d,
                             [delEv, Call WaitForCompletion [] None])
                       else (Success, d, [delEv, Call WaitForCompletion [] None])
                   | (notFound2, None) \<Rightarrow> (Success, d, [delEv, Call WaitForCompletion [] None]))))"

subsubsection \<open>DevTest policy\<close>

definition resourceArmDevTestPolicyRead ::
    "helpers \<Rightarrow> Resource \<times> err \<Rightarrow> outcome \<Rightarrow> ResourceData \<Rightarrow> unit result" where
  "resourceArmDevTestPolicyRead h get rest d =
     (case ParseAzureResourceID h (Id d) of
        Inl e \<Rightarrow> (Failure (Err e), d, [])
      | Inr rid \<Rightarrow>
          (let resourceGroup = ResourceGroup rid;
               labName = pathOf rid ''labs'';
               policySetName = pathOf rid ''policysets'';
               name = pathOf rid ''policies'';
               tr = [Call Get [resourceGroup, labName, policySetName, name] None]
           in case get of
                (read, Some e) \<Rightarrow>
                  if WasNotFound read then (Success, SetId d [], tr @ [IdSet []])
                  else (Failure (Errorf ''Error making Read request on DevTest Policy %q (Policy Set %q / Lab %q / Resource Group %q): %+v''
                                   [name, policySetName, labName, resourceGroup, e]), d, tr)
              | (read, None) \<Rightarrow> (rest, d, tr)))"

definition resourceArmDevTestPolicyCreateUpdate ::
    "helpers \<Rightarrow> Resource \<times> err \<Rightarrow> err \<Rightarrow> Resource \<times> err \<Rightarrow> Resource \<times> err \<Rightarrow> outcome
       \<Rightarrow> ResourceData \<Rightarrow> unit result" where
  "resourceArmDevTestPolicyCreateUpdate h existing createErr get readGet rest d =
     (let name = getString d ''name'';
          policySetName = getString d ''policy_set_name'';
          labName = getString d ''lab_name'';
          resourceGroup = getString d ''resource_group_name'';
          getEv = Call Get [resourceGroup, labName, policySetName, name] None;
          pre = (if IsNewResource d then [getEv] else [])
      in case (if IsNewResource d
               then checkExisting ''Error checking for presence of existing DevTest Policy %q (Policy Set %q / Lab %q / Resource Group %q): %s''
                      [name, policySetName, labName, resourceGroup] ''azurerm_dev_test_policy'' existing
               else None) of
           Some e \<Rightarrow> (Failure e, d, pre)
         | None \<Rightarrow>
             (let put = Call CreateOrUpdate [resourceGroup, labName, policySetName, name] None
              in case createErr of
                   Some e \<Rightarrow>
                     (Failure (Errorf ''Error creating/updating DevTest Policy %q (Policy Set %q / Lab %q / Resource Group %q): %+v''
                                 [name, policySetName, labName, resourceGroup, e]), d, pre @ [put])
                 | None \<Rightarrow>
                     (case get of
                        (read, Some e) \<Rightarrow>
                          (Failure (Errorf ''Error retrieving DevTest Policy %q (Policy Set %q / Lab %q / Resource Group %q): %+v''
                                      [name, policySetName, labName, resourceGroup, e]), d,
                           pre @ [put, getEv])
                      | (read, None) \<Rightarrow>
                          (case ID read of
                             None \<Rightarrow>
                               (Failure (Errorf ''Cannot read DevTest Policy %q (Policy Set %q / Lab %q / Resource Group %q) ID''
                                           [name, policySetName, labName, resourceGroup]), d,
                                pre @ [put, getEv])
                           | Some rid \<Rightarrow>
                               traced (pre @ [put, getEv, IdSet rid])
                                        (resourceArmDevTestPolicyRead h readGet rest (SetId d rid)) []))))"

definition resourceArmDevTestPolicyDelete ::
    "helpers \<Rightarrow> Resource \<times> err \<Rightarrow> err \<Rightarrow> ResourceData \<Rightarrow> unit result" where
  "resourceArmDevTestPolicyDelete h get deleteErr d =
     (case ParseAzureResourceID h (Id d) of
        Inl e \<Rightarrow> (Failure (Err e), d, [])
      | Inr rid \<Rightarrow>
          (let resourceGroup = ResourceGroup rid;
               labName = pathOf rid ''labs'';
               policySetName = pathOf rid ''policysets'';
               name = pathOf rid ''policies'';
               getEv = Call Get [resourceGroup, labName, policySetName, name] None
           in case get of
                (read, Some e) \<Rightarrow>
                  if WasNotFound read then (Success, d, [getEv])
                  else (Failure (Errorf ''Error retrieving DevTest Policy %q (Policy Set %q / Lab %q / Resource Group %q): %+v''
                                   [name, policySetName, labName, resourceGroup, e]), d, [getEv])
              | (read, None) \<Rightarrow>
                  (let tr = [getEv, Call Delete [resourceGroup, labName, policySetName, name] None]
                   in case deleteErr of
                        Some e \<Rightarrow>
                          (Failure (Errorf ''Error deleting DevTest Policy %q (Policy Set %q / Lab %q / Resource Group %q): %+v''
                                      [name, policySetName, labName, resourceGroup, e]), d, tr)
                      | None \<Rightarrow> (Success, d, tr))))"

subsubsection \<open>Data factory dataset (Azure Blob)\<close>

definition resourceDataFactoryDatasetAzureBlobRead ::
    "helpers \<Rightarrow> Resource \<times> err \<Rightarrow> outcome \<Rightarrow> ResourceData \<Rightarrow> unit result" where
  "resourceDataFactoryDatasetAzureBlobRead h get rest d =
     (case ParseAzureResourceID h (Id d) of
        Inl e \<Rightarrow> (Failure (Err e), d, [])
      | Inr rid \<Rightarrow>
          (let resourceGroup = ResourceGroup rid;
               dataFactoryName = pathOf rid ''factories'';
               name = pathOf rid ''datasets'';
               tr = [Call Get [resourceGroup, dataFactoryName, name] None]
           in case get of
                (resp, Some e) \<Rightarrow>
                  if WasNotFound resp then (Success, SetId d [], tr @ [IdSet []])
                  else (Failure (Errorf ''Error retrieving Data Factory Dataset Azure Blob %q (Data Factory %q / Resource Group %q): %s''
                                   [name, dataFactoryName, resourceGroup, e]), d, tr)
              | (resp, None) \<Rightarrow> (rest, d, tr)))"

definition resourceDataFactoryDatasetAzureBlobCreateUpdate ::
    "helpers \<Rightarrow> Resource \<times> err \<Rightarrow> err \<Rightarrow> Resource \<times> err \<Rightarrow> Resource \<times> err \<Rightarrow> outcome
       \<Rightarrow> ResourceData \<Rightarrow> unit result" where
  "resourceDataFactoryDatasetAzureBlobCreateUpdate h existing createErr get readGet rest d =
     (let name = getString d ''name'';
          dataFactoryName = getString d ''data_factory_name'';
          resourceGroup = getString d ''resource_group_name'';
          getEv = Call Get [resourceGroup, dataFactoryName, name] None;
          pre = (if IsNewResource d then [getEv] else [])
      in case (if IsNewResource d
               then checkExisting ''Error checking for presence of existing Data Factory Dataset Azure Blob %q (Data Factory %q / Resource Group %q): %s''
                      [name, dataFactoryName, resourceGroup]
                      ''azurerm_data_factory_dataset_delimited_text'' existing
               else None) of
           Some e \<Rightarrow> (Failure e, d, pre)
         | None \<Rightarrow>
             (let put = Call CreateOrUpdate [resourceGroup, dataFactoryName, name] None
              in case createErr of
                   Some e \<Rightarrow>
                     (Failure (Errorf ''Error creating/updating Data Factory Dataset Azure Blob  %q (Data Factory %q / Resource Group %q): %s''
                                 [name, dataFactoryName, resourceGroup, e]), d, pre @ [put])
                 | None \<Rightarrow>
                     (case get of
                        (resp, Some e) \<Rightarrow>
                          (Failure (Errorf ''Error retrieving Data Factory Dataset Azure Blob %q (Data Factory %q / Resource Group %q): %s''
                                      [name, dataFactoryName, resourceGroup, e]), d, pre @ [put, getEv])
                      | (resp, None) \<Rightarrow>
                          (case ID resp of
                             None \<Rightarrow>
                               (Failure (Errorf ''Cannot read Data Factory Dataset Azure Blob %q (Data Factory %q / Resource Group %q): %s''
                                           [name, dataFactoryName, resourceGroup, []]), d,
                                pre @ [put, getEv])
                           | Some rid \<Rightarrow>
                               traced (pre @ [put, getEv, IdSet rid])
                                        (resourceDataFactoryDatasetAzureBlobRead h readGet rest (SetId d rid)) []))))"

definition resourceDataFactoryDatasetAzureBlobDelete ::
    "helpers \<Rightarrow> bool \<times> err \<Rightarrow> ResourceData \<Rightarrow> unit result" where
  "resourceDataFactoryDatasetAzureBlobDelete h del d =
     (case ParseAzureResourceID h (Id d) of
        Inl e \<Rightarrow> (Failure (Err e), d, [])
      | Inr rid \<Rightarrow>
          (let resourceGroup = ResourceGroup rid;
               dataFactoryName = pathOf rid ''factories'';
               name = pathOf rid ''datasets'';
               tr = [Call Delete [resourceGroup, dataFactoryName, name] None]
           in case del of
                (notFound, Some e) \<Rightarrow>
                  if \<not> notFound
                  then (Failure (Errorf ''Error deleting Data Factory Dataset Azure Blob %q (Data Factory %q / Resource Group %q): %s''
                                   [name, dataFactoryName, resourceGroup, e]), d, tr)
                  else (Success, d, tr)
              | (notFound, None) \<Rightarrow> (Success, d, tr)))"

subsection \<open>Container registry token (data source)\<close>

text \<open>\<open>containerregistry.TokenStatusDisabled\<close> is a constant of the Azure SDK, of
  the string type \<open>TokenStatus\<close>.\<close>

definition TokenStatusDisabled :: string where
  "TokenStatusDisabled = ''disabled''"

record Token = Resource +
  TokenName :: "string option"
  ScopeMapID :: "string option"
  Status :: string

definition dataSourceContainerRegistryTokenRead ::
    "Token \<times> err \<Rightarrow> ResourceData \<Rightarrow> unit result" where
  "dataSourceContainerRegistryTokenRead get d =
     (let resourceGroup = getString d ''resource_group_name'';
          containerRegistryName = getString d ''container_registry_name'';
          name = getString d ''name'';
          tr = [Call Get [resourceGroup, containerRegistryName, name] None]
      in case get of
           (resp, Some e) \<Rightarrow>
             if WasNotFound resp
             then (Failure (Errorf ''Container Registry token %q was not found in Resource Group %q''
                              [name, resourceGroup]), d, tr)
             else (Failure (Errorf ''Error making Read request on token %q (Azure Container Registry %q, Resource Group %q): %+v''
                              [name, containerRegistryName, resourceGroup, e]), d, tr)
         | (resp, None) \<Rightarrow>
             (let noId = Failure (Errorf ''retrieving Container Registry Token %q (Azure Container Registry %q, Resource Group %q): id was nil''
                                    [name, containerRegistryName, resourceGroup])
              in case ID resp of
                   None \<Rightarrow> (noId, d, tr)
                 | Some rid \<Rightarrow>
                     if rid = [] then (noId, d, tr)
                     else
                       (let status = (if Status resp = TokenStatusDisabled then False else True);
                            d1 = SetId d rid;
                            d2 = SetField d1 ''name'' (ptrString (TokenName resp));
                            d3 = SetField d2 ''resource_group_name'' (CString resourceGroup);
                            d4 = SetField d3 ''container_registry_name'' (CString containerRegistryName);
                            d5 = SetField d4 ''scope_map_id'' (ptrString (ScopeMapID resp));
                            d6 = SetField d5 ''enabled'' (CBool status)
                        in (Success, d6, tr @ [IdSet rid]))))"

subsection \<open>Inputs of the examples\<close>

text \<open>
  The closed examples below need values for the helper functions. On ASCII
  strings \<open>strings.EqualFold\<close> compares up to the case of the letters, and
  \<open>strings.ToLower\<close> lowers them; the ID parsers are given by their values at the
  IDs of the examples and fail elsewhere. The helpers the examples do not reach
  are the identity or a fixed value.
\<close>

definition asciiLower :: "char \<Rightarrow> char" where
  "asciiLower c =
     (if 65 \<le> (of_char c :: nat) \<and> (of_char c :: nat) \<le> 90 then char_of (of_char c + 32 :: nat)
      else c)"

definition exampleEndpointId :: string where
  "exampleEndpointId = ''/subscriptions/s1/resourceGroups/rg1/providers/Microsoft.Devices/IotHubs/hub1/Endpoints/queue1''"

definition exampleNicId :: string where
  "exampleNicId = ''/subscriptions/s1/resourceGroups/rg1/providers/Microsoft.Network/networkInterfaces/nic1''"

definition exampleNsgId :: string where
  "exampleNsgId = ''/subscriptions/s1/resourceGroups/rg1/providers/Microsoft.Network/networkSecurityGroups/nsg1''"

definition exampleVariableId :: string where
  "exampleVariableId = ''/subscriptions/s1/resourceGroups/rg1/providers/Microsoft.Automation/automationAccounts/acc1/variables/var1''"

definition exampleDashboardId :: string where
  "exampleDashboardId = ''/subscriptions/s1/resourceGroups/rg1/providers/Microsoft.Portal/dashboards/board1''"

definition exampleHelpers :: helpers where
  "exampleHelpers =
     \<lparr>EqualFold = (\<lambda>s t. map asciiLower s = map asciiLower t),
      ParseAzureResourceID =
        (\<lambda>s. if s = exampleEndpointId
              then Inr \<lparr>ResourceGroup = ''rg1'',
                        Path = [''IotHubs'' \<mapsto> ''hub1'', ''Endpoints'' \<mapsto> ''queue1'']\<rparr>
              else if s = exampleNicId
              then Inr \<lparr>ResourceGroup = ''rg1'', Path = [''networkInterfaces'' \<mapsto> ''nic1'']\<rparr>
              else if s = exampleNsgId
              then Inr \<lparr>ResourceGroup = ''rg1'', Path = [''networkSecurityGroups'' \<mapsto> ''nsg1'']\<rparr>
              else if s = exampleVariableId
              then Inr \<lparr>ResourceGroup = ''rg1'',
                        Path = [''automationAccounts'' \<mapsto> ''acc1'', ''variables'' \<mapsto> ''var1'']\<rparr>
              else Inl ''cannot parse the ID''),
      StorageSyncServiceID = (\<lambda>s. Inl ''cannot parse the ID''),
      DashboardID =
        (\<lambda>s. if s = exampleDashboardId then Inr (''rg1'', ''board1'')
              else Inl ''cannot parse the ID''),
      NewDashboardID =
        (\<lambda>subscriptionId resourceGroup name.
           ''/subscriptions/'' @ subscriptionId @ ''/resourceGroups/'' @ resourceGroup
           @ ''/providers/Microsoft.Portal/dashboards/'' @ name),
      FirewallRuleID = (\<lambda>s. Inl ''cannot parse the ID''),
      FailoverGroupID = (\<lambda>s. Inl ''cannot parse the ID''),
      ToLower = map asciiLower,
      ParseRFC3339 = (\<lambda>s. Inl ''cannot parse the time''),
      Quote = (\<lambda>s. s),
      FormatTime = (\<lambda>t. [])\<rparr>"

definition exampleQueue :: "string option \<Rightarrow> RoutingServiceBusQueueEndpointProperties" where
  "exampleQueue n =
     \<lparr>ConnectionString = Some ''Endpoint=sb://ns.servicebus.windows.net'',
      Name = n, SubscriptionID = Some ''s1'', EndpointResourceGroup = Some ''rg1''\<rparr>"

definition exampleHub :: "RoutingEndpoints \<Rightarrow> IotHubDescription" where
  "exampleHub eps =
     \<lparr>WasNotFound = False,
      ID = Some ''/subscriptions/s1/resourceGroups/rg1/providers/Microsoft.Devices/IotHubs/hub1'',
      Properties = Some \<lparr>Routing = Some \<lparr>Endpoints = Some eps\<rparr>\<rparr>\<rparr>"

definition exampleData :: "string \<Rightarrow> bool \<Rightarrow> (string \<times> cfgval) list \<Rightarrow> ResourceData" where
  "exampleData i new kvs = \<lparr>Id = i, IsNewResource = new, Fields = map_of kvs\<rparr>"

subsection \<open>The endpoint lists of claim C5\<close>

text \<open>
  \<open>claimedEndpoints\<close> follows the words of the claim: the original list without
  the entries whose name equals the deleted name case-insensitively.
  \<open>keptByDelete\<close> is the test the loop of the source applies: an entry stays when
  it has a name and the name differs.
\<close>

definition claimedEndpoints ::
    "(string \<Rightarrow> string \<Rightarrow> bool) \<Rightarrow> string \<Rightarrow> RoutingServiceBusQueueEndpointProperties list
       \<Rightarrow> RoutingServiceBusQueueEndpointProperties list" where
  "claimedEndpoints eqFold endpointName es =
     filter (\<lambda>e. \<not> (case Name e of None \<Rightarrow> False | Some n \<Rightarrow> eqFold n endpointName)) es"

definition keptByDelete ::
    "(string \<Rightarrow> string \<Rightarrow> bool) \<Rightarrow> string \<Rightarrow> RoutingServiceBusQueueEndpointProperties \<Rightarrow> bool" where
  "keptByDelete eqFold endpointName e =
     (case Name e of None \<Rightarrow> False | Some n \<Rightarrow> \<not> eqFold n endpointName)"

subsection \<open>Reading traces\<close>

text \<open>A trace without lock events, and the first ID a trace sets: in the trace of
  a Create handler, the ID set by Create before its final Read runs.\<close>

definition noLocks :: "'b event list \<Rightarrow> bool" where
  "noLocks tr =
     list_all (\<lambda>e. case e of LockByName n t \<Rightarrow> False | UnlockByName n t \<Rightarrow> False | _ \<Rightarrow> True) tr"

fun createdId :: "'b event list \<Rightarrow> string option" where
  "createdId [] = None"
| "createdId (IdSet v # es) = Some v"
| "createdId (e # es) = createdId es"

subsection \<open>Properties of a handler's result\<close>

text \<open>Predicates on the result of a handler, each about its trace or about the
  ID it leaves: \<open>quiet\<close> (no lock events), \<open>lockedBy\<close> (every client call is made
  under the lock and no lock is left held), \<open>innerOk\<close> (the same for a section
  nested in a locked one), \<open>createsOnly\<close> and \<open>createsOnSuccess\<close> (the ID the
  handler sets), \<open>setsServiceId\<close> (a handler that succeeds has set the ID that the
  service's answer carries), \<open>endsWithId\<close> and \<open>keepsId\<close> (the ID of the returned
  data).\<close>

definition quiet :: "'b result \<Rightarrow> bool" where
  "quiet r = noLocks (snd (snd r))"

definition lockedBy :: "string \<times> string \<Rightarrow> 'b result \<Rightarrow> bool" where
  "lockedBy k r = (callsUnder k False (snd (snd r)) \<and> heldAfter [] (snd (snd r)) = [])"

definition innerOk :: "'b result \<Rightarrow> bool" where
  "innerOk r =
     ((\<forall>k n t. callsUnder k True (snd (snd r) @ [UnlockByName n t]))
      \<and> (\<forall>hs. heldAfter hs (snd (snd r)) = hs))"

definition createsOnly :: "string option \<Rightarrow> 'b result \<Rightarrow> bool" where
  "createsOnly vo r = (createdId (snd (snd r)) = None \<or> createdId (snd (snd r)) = vo)"

definition createsOnSuccess :: "string option \<Rightarrow> 'b result \<Rightarrow> bool" where
  "createsOnSuccess vo r = (fst r = Success \<longrightarrow> createdId (snd (snd r)) = vo)"

definition endsWithId :: "string option \<Rightarrow> 'b result \<Rightarrow> bool" where
  "endsWithId vo r = (fst r = Success \<longrightarrow> Some (Id (fst (snd r))) = vo)"

definition keepsId :: "string \<Rightarrow> 'b result \<Rightarrow> bool" where
  "keepsId i r = (Id (fst (snd r)) = i)"

definition setsServiceId :: "string option \<Rightarrow> 'b result \<Rightarrow> bool" where
  "setsServiceId answer r =
     (fst r = Success \<longrightarrow> (\<exists>rid. answer = Some rid \<and> createdId (snd (snd r)) = Some rid))"

subsection \<open>Further inputs of the examples\<close>

definition exampleEndpointData :: ResourceData where
  "exampleEndpointData =
     exampleData [] True
       [(''name'', CString ''queue1''), (''iothub_name'', CString ''hub1''),
        (''resource_group_name'', CString ''rg1''),
        (''connection_string'', CString ''Endpoint=sb://ns.servicebus.windows.net'')]"

definition exampleAssociationData :: ResourceData where
  "exampleAssociationData =
     exampleData [] True [(''network_interface_id'', CString exampleNicId),
                          (''network_security_group_id'', CString exampleNsgId)]"

definition exampleInterface :: "SecurityGroup option \<Rightarrow> Interface" where
  "exampleInterface sg =
     \<lparr>WasNotFound = False, ID = Some exampleNicId,
      InterfaceProperties = Some \<lparr>NetworkSecurityGroup = sg\<rparr>\<rparr>"

text \<open>
  IDs of the other resources, and helpers whose parsers know them. The two storage
  sync IDs name the same service and differ in the case of its name.
  \<open>absent\<close> is the answer of a Get that finds nothing, \<open>found\<close> the answer that
  carries an ID; \<open>exampleNamed\<close> is the configuration of a new resource in \<open>rg1\<close>.
\<close>

definition exampleSyncId :: string where
  "exampleSyncId = ''/subscriptions/s1/resourceGroups/rg1/providers/Microsoft.StorageSync/storageSyncServices/sync1''"

definition exampleSyncIdUpper :: string where
  "exampleSyncIdUpper = ''/subscriptions/s1/resourceGroups/rg1/providers/Microsoft.StorageSync/storageSyncServices/SYNC1''"

definition exampleRuleId :: string where
  "exampleRuleId = ''/subscriptions/s1/resourceGroups/rg1/providers/Microsoft.Sql/servers/server1/firewallRules/rule1''"

definition exampleGroupId :: string where
  "exampleGroupId = ''/subscriptions/s1/resourceGroups/rg1/providers/Microsoft.Sql/servers/server1/failoverGroups/group1''"

definition exampleGatewayId :: string where
  "exampleGatewayId = ''/subscriptions/s1/resourceGroups/rg1/providers/Microsoft.Network/expressRouteGateways/gw1''"

definition examplePolicyId :: string where
  "examplePolicyId = ''/subscriptions/s1/resourceGroups/rg1/providers/Microsoft.DevTestLab/labs/lab1/policysets/default/policies/policy1''"

definition exampleDatasetId :: string where
  "exampleDatasetId = ''/subscriptions/s1/resourceGroups/rg1/providers/Microsoft.DataFactory/factories/df1/datasets/ds1''"

definition exampleParsers :: helpers where
  "exampleParsers =
     exampleHelpers
       \<lparr>ParseAzureResourceID :=
          (\<lambda>s. if s = exampleGatewayId
                then Inr \<lparr>ResourceGroup = ''rg1'', Path = [''expressRouteGateways'' \<mapsto> ''gw1'']\<rparr>
                else if s = examplePolicyId
                then Inr \<lparr>ResourceGroup = ''rg1'',
                          Path = [''labs'' \<mapsto> ''lab1'', ''policysets'' \<mapsto> ''default'',
                                  ''policies'' \<mapsto> ''policy1'']\<rparr>
                else if s = exampleDatasetId
                then Inr \<lparr>ResourceGroup = ''rg1'',
                          Path = [''factories'' \<mapsto> ''df1'', ''datasets'' \<mapsto> ''ds1'']\<rparr>
                else ParseAzureResourceID exampleHelpers s),
        StorageSyncServiceID :=
          (\<lambda>s. if s = exampleSyncId then Inr (''rg1'', ''sync1'')
                else if s = exampleSyncIdUpper then Inr (''rg1'', ''SYNC1'')
                else Inl ''cannot parse the ID''),
        FirewallRuleID :=
          (\<lambda>s. if s = exampleRuleId then Inr (''rg1'', ''server1'', ''rule1'')
                else Inl ''cannot parse the ID''),
        FailoverGroupID :=
          (\<lambda>s. if s = exampleGroupId then Inr (''rg1'', ''server1'', ''group1'')
                else Inl ''cannot parse the ID'')\<rparr>"

definition absent :: "Resource \<times> err" where
  "absent = (\<lparr>WasNotFound = True, ID = None\<rparr>, Some ''StatusCode=404'')"

definition found :: "string \<Rightarrow> Resource \<times> err" where
  "found rid = (\<lparr>WasNotFound = False, ID = Some rid\<rparr>, None)"

definition exampleNamed :: "string \<Rightarrow> (string \<times> cfgval) list \<Rightarrow> ResourceData" where
  "exampleNamed n kvs =
     exampleData [] True ((''name'', CString n) # (''resource_group_name'', CString ''rg1'') # kvs)"

definition exampleVariable :: Variable where
  "exampleVariable =
     \<lparr>WasNotFound = False, ID = Some exampleVariableId, VariableName = Some ''var1'',
      VariableProps = None\<rparr>"

section \<open>Theorems\<close>

lemma sint_word_of_int_32:
  assumes "- (2 ^ 31) \<le> g" and "g < 2 ^ 31"
  shows "sint (word_of_int g :: 32 word) = g"
  using assms by (simp add: sint_sbintrunc' signed_take_bit_int_eq_self)

lemma rwPolicyRoundTrip_Manual:
  "rwPolicyRoundTrip [rwPolicyBlock sql_Manual g] = Some [[''mode'' \<mapsto> CString sql_Manual]]"
  by (simp add: rwPolicyRoundTrip_def expandSqlFailoverGroupReadWritePolicy_def
      flattenSqlFailoverGroupReadWritePolicy_def rwPolicyBlock_def sql_Manual_def)

lemma rwPolicyRoundTrip_other:
  assumes "mode \<noteq> sql_Manual" and "- (2 ^ 31) \<le> g" and "g < 2 ^ 31"
  shows "rwPolicyRoundTrip [rwPolicyBlock mode g] = Some [rwPolicyBlock mode g]"
  using assms sint_word_of_int_32 [of g]
  by (simp add: rwPolicyRoundTrip_def expandSqlFailoverGroupReadWritePolicy_def
      flattenSqlFailoverGroupReadWritePolicy_def rwPolicyBlock_def Let_def)

text \<open>
  Claim C4, as stated, fails: with mode \<open>Manual\<close> and \<open>grace_minutes = 60\<close>, expand
  leaves the grace period nil (the guard \<open>mode != sql.Manual\<close>), and flatten then
  omits \<open>grace_minutes\<close>: the flattened block differs from the original, and reads
  back a grace period of 0.
\<close>

theorem C4_manual_grace_minutes_lost:
  "rwPolicyRoundTrip [rwPolicyBlock sql_Manual 60] = Some [[''mode'' \<mapsto> CString sql_Manual]]
   \<and> [''mode'' \<mapsto> CString sql_Manual] \<noteq> rwPolicyBlock sql_Manual 60
   \<and> blockInt [''mode'' \<mapsto> CString sql_Manual] ''grace_minutes'' = 0
   \<and> blockInt (rwPolicyBlock sql_Manual 60) ''grace_minutes'' = 60"
proof -
  have "[''mode'' \<mapsto> CString sql_Manual] ''grace_minutes'' = None"
    by simp
  moreover have "rwPolicyBlock sql_Manual 60 ''grace_minutes'' = Some (CInt 60)"
    by (simp add: rwPolicyBlock_def)
  ultimately have "[''mode'' \<mapsto> CString sql_Manual] \<noteq> rwPolicyBlock sql_Manual 60"
    by (metis option.distinct(1))
  moreover have "blockInt [''mode'' \<mapsto> CString sql_Manual] ''grace_minutes'' = 0"
    by (simp add: blockInt_def)
  moreover have "blockInt (rwPolicyBlock sql_Manual 60) ''grace_minutes'' = 60"
    by (simp add: blockInt_def rwPolicyBlock_def)
  ultimately show ?thesis
    using rwPolicyRoundTrip_Manual [of 60] by blast
qed

text \<open>
  Claim C4, amended: flatten applied to the output of expand reproduces the block,
  \<open>grace_minutes\<close> included, when the mode is not \<open>Manual\<close> and \<open>grace_minutes\<close>
  fits a 32-bit signed integer; for mode \<open>Manual\<close> it reproduces the mode alone and
  the flattened block has no \<open>grace_minutes\<close>.
\<close>

theorem C4_rw_policy_round_trip:
  "(mode \<noteq> sql_Manual \<longrightarrow> - (2 ^ 31) \<le> g \<longrightarrow> g < 2 ^ 31 \<longrightarrow>
      rwPolicyRoundTrip [rwPolicyBlock mode g] = Some [rwPolicyBlock mode g])
   \<and> rwPolicyRoundTrip [rwPolicyBlock sql_Manual g] = Some [[''mode'' \<mapsto> CString sql_Manual]]"
  using rwPolicyRoundTrip_other [of mode g] rwPolicyRoundTrip_Manual [of g] by blast

theorem C4_rw_policy_round_trip_witness:
  "sql_Automatic \<noteq> sql_Manual \<and> - (2 ^ 31) \<le> (60::int) \<and> (60::int) < 2 ^ 31
   \<and> rwPolicyRoundTrip [rwPolicyBlock sql_Automatic 60] = Some [rwPolicyBlock sql_Automatic 60]"
proof -
  have "sql_Automatic \<noteq> sql_Manual"
    by (simp add: sql_Automatic_def sql_Manual_def)
  then show ?thesis
    using C4_rw_policy_round_trip [of sql_Automatic 60] by simp
qed

subsection \<open>The value encoding of automation variables\<close>

lemma char_of_eq_nat: "n < 256 \<Longrightarrow> (char_of (n::nat) = c) = (n = of_char c)"
  by (auto simp add: char_of_eq_iff take_bit_eq_mod)

lemma Itoa_2147483648: "Itoa 2147483648 = ''2147483648''"
  by (simp add: Itoa_def natDigits.simps char_of_eq_nat)

lemma inferVariableValue_2147483648:
  "inferVariableValue ''2147483648'' = (Some (VBool False), ''Unknown'')"
proof -
  have "dateTicks ''2147483648'' = None"
    by (simp add: dateTicks_def)
  moreover have "Unquote ''2147483648'' = None"
    by (simp add: Unquote_def)
  moreover have "ParseInt ''2147483648'' 32 = None"
    by (simp add: ParseInt_def isDigit_def decimal_def)
  moreover have "ParseBool ''2147483648'' = None"
    by (simp add: ParseBool_def)
  ultimately show ?thesis
    by (simp add: inferVariableValue_def)
qed

lemma inferVariableValue_7:
  "inferVariableValue ''7'' = (Some (VInt32 7), ''azurerm_automation_variable_int'')"
proof -
  have "dateTicks ''7'' = None"
    by (simp add: dateTicks_def)
  moreover have "Unquote ''7'' = None"
    by (simp add: Unquote_def)
  moreover have "ParseInt ''7'' 32 = Some 7"
    by (simp add: ParseInt_def isDigit_def decimal_def)
  ultimately show ?thesis
    by (simp add: inferVariableValue_def)
qed

lemma inferVariableValue_names:
  "snd (inferVariableValue input) \<in>
     {''azurerm_automation_variable_datetime'', ''azurerm_automation_variable_string'',
      ''azurerm_automation_variable_int'', ''azurerm_automation_variable_bool'', ''Unknown''}"
  by (simp add: inferVariableValue_def split: option.splits)

text \<open>
  Claim C8: on a nil input \<open>ParseAzureAutomationVariableValue\<close> returns
  \<open>(nil, nil)\<close> when the expected resource name is
  \<open>azurerm_automation_variable_null\<close> and \<open>(nil, error)\<close> for every other name;
  on a non-nil input it returns an error exactly when the type inferred from the
  input (one of datetime, string, int, bool, Unknown) differs from the expected
  name, the value being nil then and the inferred value otherwise.
\<close>

theorem C8_parse_value_errors:
  "ParseAzureAutomationVariableValue resource None =
     (if resource = ''azurerm_automation_variable_null'' then (None, None)
      else (None, Some (Errorf ''Expected value nil to be %q, actual type is azurerm_automation_variable_null''
                          [resource])))
   \<and> (snd (ParseAzureAutomationVariableValue resource (Some input)) \<noteq> None)
       = (snd (inferVariableValue input) \<noteq> resource)
   \<and> fst (ParseAzureAutomationVariableValue resource (Some input))
       = (if snd (inferVariableValue input) = resource then fst (inferVariableValue input)
          else None)
   \<and> snd (inferVariableValue input) \<in>
       {''azurerm_automation_variable_datetime'', ''azurerm_automation_variable_string'',
        ''azurerm_automation_variable_int'', ''azurerm_automation_variable_bool'', ''Unknown''}"
  using inferVariableValue_names [of input]
  by (simp add: ParseAzureAutomationVariableValue_def split: prod.splits)

theorem C8_parse_value_errors_witness:
  "snd (ParseAzureAutomationVariableValue ''azurerm_automation_variable_int'' None) \<noteq> None
   \<and> snd (ParseAzureAutomationVariableValue ''azurerm_automation_variable_int'' (Some ''7'')) = None
   \<and> fst (ParseAzureAutomationVariableValue ''azurerm_automation_variable_int'' (Some ''7''))
       = Some (VInt32 7)
   \<and> snd (ParseAzureAutomationVariableValue ''azurerm_automation_variable_bool'' (Some ''7''))
       \<noteq> None"
  using C8_parse_value_errors [of "''azurerm_automation_variable_int''" "''7''"]
    C8_parse_value_errors [of "''azurerm_automation_variable_bool''" "''7''"]
  by (simp add: inferVariableValue_7)

lemma getInt_example:
  "getInt (exampleData i new [(''value'', CInt 2147483648)]) ''value'' = 2147483648"
  by (simp add: getInt_def exampleData_def)

text \<open>
  Claim C3 fails on the code: Create encodes the integer 2147483648 (a Go \<open>int\<close>
  the schema accepts) as the text \<open>2147483648\<close>, and
  \<open>ParseAzureAutomationVariableValue\<close>, which parses integers with 32 bits, takes
  this text for a value of unknown type and returns an error.
\<close>

theorem C3_int_beyond_int32_not_read_back:
  "encodeVariableValue h ''int'' (exampleData i new [(''value'', CInt 2147483648)])
     = Inr ''2147483648''
   \<and> ParseAzureAutomationVariableValue ''azurerm_automation_variable_int'' (Some ''2147483648'')
       = (None, Some (Errorf ''Expected value %q to be %q, actual type is %q''
                        [''2147483648'', ''azurerm_automation_variable_int'', ''Unknown'']))"
  by (simp add: encodeVariableValue_def getInt_example Itoa_2147483648
      ParseAzureAutomationVariableValue_def inferVariableValue_2147483648)

subsection \<open>Rules for reading a handler's definition\<close>

lemma traced_triple [simp]: "traced before (out, d, tr) after = (out, d, before @ tr @ after)"
  by (simp add: traced_def)

lemma traced_proj [simp]:
  "fst (traced before r after) = fst r"
  "fst (snd (traced before r after)) = fst (snd r)"
  "snd (snd (traced before r after)) = before @ snd (snd r) @ after"
  by (simp_all add: traced_def split: prod.splits)

lemma Id_SetField [simp]: "Id (SetField d k v) = Id d"
  by (simp add: SetField_def)

lemma Id_SetId [simp]: "Id (SetId d v) = v"
  by (simp add: SetId_def)

lemma in_case_option:
  "\<lbrakk>x = None \<Longrightarrow> P a; \<And>y. x = Some y \<Longrightarrow> P (b y)\<rbrakk> \<Longrightarrow> P (case x of None \<Rightarrow> a | Some y \<Rightarrow> b y)"
  by (cases x) simp_all

lemma in_case_sum:
  "\<lbrakk>\<And>y. x = Inl y \<Longrightarrow> P (a y); \<And>y. x = Inr y \<Longrightarrow> P (b y)\<rbrakk> \<Longrightarrow> P (case x of Inl y \<Rightarrow> a y | Inr y \<Rightarrow> b y)"
  by (cases x) simp_all

lemma in_case_prod:
  "(\<And>a b. x = (a, b) \<Longrightarrow> P (f a b)) \<Longrightarrow> P (case x of (a, b) \<Rightarrow> f a b)"
  by (cases x) simp

lemma in_case_list:
  "\<lbrakk>x = [] \<Longrightarrow> P a; \<And>y ys. x = y # ys \<Longrightarrow> P (b y ys)\<rbrakk> \<Longrightarrow> P (case x of [] \<Rightarrow> a | y # ys \<Rightarrow> b y ys)"
  by (cases x) simp_all

lemma in_if: "\<lbrakk>c \<Longrightarrow> P a; \<not> c \<Longrightarrow> P b\<rbrakk> \<Longrightarrow> P (if c then a else b)"
  by simp

lemma in_Let: "(\<And>x. x = v \<Longrightarrow> P (f x)) \<Longrightarrow> P (Let v f)"
  by simp

lemmas quiet_intros =
  in_case_option [where P = quiet] in_case_sum [where P = quiet] in_case_prod [where P = quiet]
  in_case_list [where P = quiet] in_if [where P = quiet] in_Let [where P = quiet]

lemma callsUnder_noLocks:
  "noLocks tr \<Longrightarrow> callsUnder k True (tr @ rest) = callsUnder k True rest"
  by (induction tr) (auto simp: noLocks_def split: event.splits)

lemma heldAfter_noLocks: "noLocks tr \<Longrightarrow> heldAfter hs (tr @ rest) = heldAfter hs rest"
  by (induction tr) (auto simp: noLocks_def split: event.splits)

lemma noLocks_simps [simp]:
  "noLocks []"
  "noLocks (Call operation args body # tr) = noLocks tr"
  "noLocks (IdSet v # tr) = noLocks tr"
  "noLocks (a @ b) = (noLocks a \<and> noLocks b)"
  by (simp_all add: noLocks_def)

lemma quiet_triple [simp]: "quiet (out, d, tr) = noLocks tr"
  by (simp add: quiet_def)

lemma quiet_traced [simp]: "quiet (traced before r after) = (noLocks before \<and> quiet r \<and> noLocks after)"
  by (simp add: quiet_def)

lemma iot_Read_quiet [simp]: "quiet (resourceIotHubEndpointServiceBusQueueRead h get d)"
  unfolding resourceIotHubEndpointServiceBusQueueRead_def
  by (intro quiet_intros) simp_all

lemma traced_locked:
  assumes "noLocks calls" and "quiet r"
  shows "callsUnder (n, t) False (snd (snd (traced (LockByName n t # calls) r [UnlockByName n t])))
         \<and> heldAfter [] (snd (snd (traced (LockByName n t # calls) r [UnlockByName n t]))) = []"
  using assms by (simp add: callsUnder_noLocks heldAfter_noLocks quiet_def)

lemmas lockedBy_intros =
  in_case_option [where P = "lockedBy k"] in_case_sum [where P = "lockedBy k"]
  in_case_prod [where P = "lockedBy k"] in_case_list [where P = "lockedBy k"]
  in_if [where P = "lockedBy k"] in_Let [where P = "lockedBy k"]
  for k

lemmas innerOk_intros =
  in_case_option [where P = innerOk] in_case_sum [where P = innerOk]
  in_case_prod [where P = innerOk] in_case_list [where P = innerOk]
  in_if [where P = innerOk] in_Let [where P = innerOk]

lemma heldAfter_append: "heldAfter hs (a @ b) = heldAfter (heldAfter hs a) b"
  by (induction a arbitrary: hs rule: heldAfter.induct) simp_all

lemma lockedBy_traced:
  assumes "noLocks calls" and "quiet r"
  shows "lockedBy (n, t) (traced (LockByName n t # calls) r [UnlockByName n t])"
  using assms by (simp add: lockedBy_def callsUnder_noLocks heldAfter_noLocks quiet_def)

lemma lockedBy_traced_inner:
  assumes "innerOk r"
  shows "lockedBy (n, t) (traced [LockByName n t] r [UnlockByName n t])"
  using assms by (simp add: lockedBy_def innerOk_def heldAfter_append)

lemma innerOk_traced:
  assumes "noLocks calls" and "quiet r"
  shows "innerOk (traced (LockByName m u # calls) r [UnlockByName m u])"
  using assms by (simp add: innerOk_def callsUnder_noLocks heldAfter_noLocks quiet_def)

lemma innerOk_empty [simp]: "innerOk (out, d, [])"
  by (simp add: innerOk_def)

lemma lockedBy_empty [simp]: "lockedBy k (out, d, [])"
  by (simp add: lockedBy_def)

lemma nic_Read_quiet [simp]: "quiet (resourceNetworkInterfaceSecurityGroupAssociationRead h get d)"
  unfolding resourceNetworkInterfaceSecurityGroupAssociationRead_def
  by (intro quiet_intros) simp_all

lemma iot_CreateUpdate_locked:
  "lockedBy (getString d ''iothub_name'', IothubResourceName)
     (resourceIotHubEndpointServiceBusQueueCreateUpdate h sub get createErr waitErr readGet d)"
  unfolding resourceIotHubEndpointServiceBusQueueCreateUpdate_def
  apply (intro lockedBy_intros)
  apply hypsubst
  apply (rule lockedBy_traced)
   apply simp
  apply (intro quiet_intros; simp)
  done

lemma iot_Delete_locked:
  "ParseAzureResourceID h (Id d) = Inr rid \<Longrightarrow>
   lockedBy (pathOf rid ''IotHubs'', IothubResourceName)
     (resourceIotHubEndpointServiceBusQueueDelete h get updateErr waitErr d)"
  unfolding resourceIotHubEndpointServiceBusQueueDelete_def
  apply (intro lockedBy_intros)
   apply simp
  apply (simp only: sum.inject)
  apply hypsubst
  apply (rule lockedBy_traced)
   apply simp
  apply (intro quiet_intros; simp)
  done

lemma nic_Delete_locked:
  "splitOn CHR ''|'' (Id d) = [a, b] \<Longrightarrow> ParseAzureResourceID h a = Inr rid \<Longrightarrow>
   lockedBy (pathOf rid ''networkInterfaces'', networkInterfaceResourceName)
     (resourceNetworkInterfaceSecurityGroupAssociationDelete h get updateErr waitErr d)"
  unfolding resourceNetworkInterfaceSecurityGroupAssociationDelete_def
  apply (simp only: list.case)
  apply (intro lockedBy_intros)
   apply simp
  apply (simp only: sum.inject)
  apply hypsubst
  apply (rule lockedBy_traced)
   apply simp
  apply (intro quiet_intros; simp)
  done

lemma nic_Create_locked:
  "ParseAzureResourceID h (getString d ''network_interface_id'') = Inr rid \<Longrightarrow>
   lockedBy (pathOf rid ''networkInterfaces'', networkInterfaceResourceName)
     (resourceNetworkInterfaceSecurityGroupAssociationCreate h get createErr waitErr readGet d)"
  unfolding resourceNetworkInterfaceSecurityGroupAssociationCreate_def
  apply (intro lockedBy_intros)
   apply simp
  apply (simp only:)
  apply (simp only: sum.inject)
  apply hypsubst
  apply (rule lockedBy_traced_inner)
  apply (intro innerOk_intros)
   apply simp
  apply hypsubst
  apply (rule innerOk_traced)
   apply simp
  apply (intro quiet_intros; simp)
  done

subsection \<open>IoT Hub endpoints\<close>

lemma deleteEndpoints_acc:
  "deleteEndpoints eqFold endpointName es acc = acc @ filter (keptByDelete eqFold endpointName) es"
  by (induction es arbitrary: acc) (auto simp: keptByDelete_def split: option.splits)

lemma Delete_sends_filtered:
  assumes "ParseAzureResourceID h (Id d) = Inr rid"
    and "Properties iothub = Some props" and "Routing props = Some routing"
    and "Endpoints routing = Some eps" and "ServiceBusQueues eps = Some endpoints"
  shows "\<exists>out tr.
           resourceIotHubEndpointServiceBusQueueDelete h (iothub, None) updateErr waitErr d
             = (out, d,
                [LockByName (pathOf rid ''IotHubs'') IothubResourceName,
                 Call Get [ResourceGroup rid, pathOf rid ''IotHubs''] None,
                 Call CreateOrUpdate [ResourceGroup rid, pathOf rid ''IotHubs'']
                   (Some (iothub\<lparr>Properties := Some (props\<lparr>Routing := Some (routing\<lparr>Endpoints :=
                      Some (eps\<lparr>ServiceBusQueues :=
                        Some (filter (keptByDelete (EqualFold h) (pathOf rid ''Endpoints''))
                                endpoints)\<rparr>)\<rparr>)\<rparr>)\<rparr>))]
                @ tr)"
  by (cases updateErr; cases waitErr)
     (simp_all add: resourceIotHubEndpointServiceBusQueueDelete_def Let_def assms deleteEndpoints_acc)

lemma example_parse_endpoint:
  "ParseAzureResourceID exampleHelpers (Id (exampleData exampleEndpointId new kvs))
     = Inr \<lparr>ResourceGroup = ''rg1'',
            Path = [''IotHubs'' \<mapsto> ''hub1'', ''Endpoints'' \<mapsto> ''queue1'']\<rparr>"
  by (simp add: exampleHelpers_def exampleData_def)

lemma example_pathOf:
  "pathOf \<lparr>ResourceGroup = ''rg1'',
           Path = [''IotHubs'' \<mapsto> ''hub1'', ''Endpoints'' \<mapsto> ''queue1'']\<rparr> ''Endpoints'' = ''queue1''"
  "pathOf \<lparr>ResourceGroup = ''rg1'',
           Path = [''IotHubs'' \<mapsto> ''hub1'', ''Endpoints'' \<mapsto> ''queue1'']\<rparr> ''IotHubs'' = ''hub1''"
  by (simp_all add: pathOf_def)

text \<open>
  Claim C5, as stated, fails: the loop of Delete also drops an entry whose name is
  nil. For a hub whose list holds an entry without a name and the entry
  \<open>queue2\<close>, deleting \<open>queue1\<close> gives the list with \<open>queue2\<close> alone, while the
  claim keeps both entries.
\<close>

theorem C5_delete_drops_unnamed_entry:
  "deleteEndpoints (EqualFold exampleHelpers) ''queue1''
     [exampleQueue None, exampleQueue (Some ''queue2'')] []
     = [exampleQueue (Some ''queue2'')]
   \<and> claimedEndpoints (EqualFold exampleHelpers) ''queue1''
       [exampleQueue None, exampleQueue (Some ''queue2'')]
     = [exampleQueue None, exampleQueue (Some ''queue2'')]
   \<and> [exampleQueue (Some ''queue2'')] \<noteq> [exampleQueue None, exampleQueue (Some ''queue2'')]"
  by (simp add: claimedEndpoints_def exampleQueue_def exampleHelpers_def asciiLower_def)

text \<open>
  Claim C5, amended: for an IoT Hub whose routing holds a list of ServiceBus queue
  endpoints, Delete of one named endpoint sends the hub with the list from which
  exactly the entries are removed whose name is nil or equals the deleted name
  case-insensitively; every other entry stays, unchanged and in its order.
\<close>

theorem C5_delete_filters_endpoints:
  assumes "ParseAzureResourceID h (Id d) = Inr rid"
    and "Properties iothub = Some props" and "Routing props = Some routing"
    and "Endpoints routing = Some eps" and "ServiceBusQueues eps = Some endpoints"
  shows "deleteEndpoints (EqualFold h) (pathOf rid ''Endpoints'') endpoints []
           = filter (keptByDelete (EqualFold h) (pathOf rid ''Endpoints'')) endpoints
         \<and> (\<exists>out tr.
               resourceIotHubEndpointServiceBusQueueDelete h (iothub, None) updateErr waitErr d
                 = (out, d,
                    [LockByName (pathOf rid ''IotHubs'') IothubResourceName,
                     Call Get [ResourceGroup rid, pathOf rid ''IotHubs''] None,
                     Call CreateOrUpdate [ResourceGroup rid, pathOf rid ''IotHubs'']
                       (Some (iothub\<lparr>Properties := Some (props\<lparr>Routing := Some (routing\<lparr>Endpoints :=
                          Some (eps\<lparr>ServiceBusQueues :=
                            Some (filter (keptByDelete (EqualFold h) (pathOf rid ''Endpoints''))
                                    endpoints)\<rparr>)\<rparr>)\<rparr>)\<rparr>))]
                    @ tr))"
  using Delete_sends_filtered [OF assms] by (simp add: deleteEndpoints_acc)

theorem C5_delete_filters_endpoints_witness:
  "deleteEndpoints (EqualFold exampleHelpers) ''queue1''
     [exampleQueue (Some ''queue2''), exampleQueue (Some ''QUEUE1''), exampleQueue None,
      exampleQueue (Some ''queue3'')] []
   = [exampleQueue (Some ''queue2''), exampleQueue (Some ''queue3'')]"
proof -
  let ?es = "[exampleQueue (Some ''queue2''), exampleQueue (Some ''QUEUE1''), exampleQueue None,
              exampleQueue (Some ''queue3'')]"
  let ?eps = "\<lparr>EventHubs = None, ServiceBusQueues = Some ?es\<rparr>"
  let ?routing = "\<lparr>Endpoints = Some ?eps\<rparr>"
  let ?props = "\<lparr>Routing = Some ?routing\<rparr>"
  let ?rid = "\<lparr>ResourceGroup = ''rg1'',
               Path = [''IotHubs'' \<mapsto> ''hub1'', ''Endpoints'' \<mapsto> ''queue1'']\<rparr>"
  have parsed: "ParseAzureResourceID exampleHelpers (Id (exampleData exampleEndpointId False []))
                  = Inr ?rid"
    by (rule example_parse_endpoint)
  have props: "Properties (exampleHub ?eps) = Some ?props"
    by (simp add: exampleHub_def)
  have routing: "Routing ?props = Some ?routing"
    by simp
  have eps: "Endpoints ?routing = Some ?eps"
    by simp
  have queues: "ServiceBusQueues ?eps = Some ?es"
    by simp
  have "deleteEndpoints (EqualFold exampleHelpers) (pathOf ?rid ''Endpoints'') ?es []
          = filter (keptByDelete (EqualFold exampleHelpers) (pathOf ?rid ''Endpoints'')) ?es"
    using C5_delete_filters_endpoints [OF parsed props routing eps queues, of None None]
    by (rule conjunct1)
  then show ?thesis
    by (simp add: example_pathOf keptByDelete_def exampleQueue_def exampleHelpers_def
        asciiLower_def char_of_eq_nat)
qed

text \<open>
  Claim C9 fails on the code: Create/Update initialises \<open>ServiceBusQueues\<close> under
  the test \<open>routing.Endpoints.EventHubs == nil\<close>. For a hub whose routing endpoints
  have an EventHubs list and a nil ServiceBusQueues pointer, the loop
  dereferences nil: the handler panics after the Get, and the deferred unlock runs.
\<close>

theorem C9_nil_queues_pointer_panics:
  "\<exists>d'. resourceIotHubEndpointServiceBusQueueCreateUpdate h subscriptionID
            (exampleHub \<lparr>EventHubs = Some [], ServiceBusQueues = None\<rparr>, None)
            createErr waitErr readGet d
          = (Panic, d',
             [LockByName (getString d ''iothub_name'') IothubResourceName,
              Call Get [getString d ''resource_group_name'', getString d ''iothub_name''] None,
              UnlockByName (getString d ''iothub_name'') IothubResourceName])"
  by (simp add: resourceIotHubEndpointServiceBusQueueCreateUpdate_def exampleHub_def Let_def)

subsection \<open>Container registry token\<close>

text \<open>
  Claim C10: when the data source reads a token (the Get returns no error and a
  non-empty ID), it succeeds and sets \<open>enabled\<close> to false exactly when the status
  equals \<open>TokenStatusDisabled\<close>, and to true for every other status, the empty one
  included; whenever it succeeds \<open>enabled\<close> has this value, and when it fails it
  writes nothing.
\<close>

theorem C10_enabled_iff_not_disabled:
  "(ID resp = Some rid \<and> rid \<noteq> [] \<longrightarrow>
      fst (dataSourceContainerRegistryTokenRead (resp, None) d) = Success)
   \<and> (fst (dataSourceContainerRegistryTokenRead (resp, e) d) = Success \<longrightarrow>
        Fields (fst (snd (dataSourceContainerRegistryTokenRead (resp, e) d))) ''enabled''
          = Some (CBool (Status resp \<noteq> TokenStatusDisabled)))
   \<and> (fst (dataSourceContainerRegistryTokenRead (resp, e) d) \<noteq> Success \<longrightarrow>
        fst (snd (dataSourceContainerRegistryTokenRead (resp, e) d)) = d)"
  by (auto simp: dataSourceContainerRegistryTokenRead_def Let_def SetField_def
      split: option.splits if_splits)

theorem C10_enabled_iff_not_disabled_witness:
  "fst (dataSourceContainerRegistryTokenRead
          (\<lparr>WasNotFound = False, ID = Some ''/tokens/t1'', TokenName = Some ''t1'',
            ScopeMapID = None, Status = []\<rparr>, None) (exampleData [] False [])) = Success
   \<and> Fields (fst (snd (dataSourceContainerRegistryTokenRead
          (\<lparr>WasNotFound = False, ID = Some ''/tokens/t1'', TokenName = Some ''t1'',
            ScopeMapID = None, Status = []\<rparr>, None) (exampleData [] False [])))) ''enabled''
       = Some (CBool True)
   \<and> fst (dataSourceContainerRegistryTokenRead
          (\<lparr>WasNotFound = True, ID = None, TokenName = None, ScopeMapID = None, Status = []\<rparr>,
           Some ''not found'') (exampleData [] False [])) \<noteq> Success
   \<and> fst (snd (dataSourceContainerRegistryTokenRead
          (\<lparr>WasNotFound = True, ID = None, TokenName = None, ScopeMapID = None, Status = []\<rparr>,
           Some ''not found'') (exampleData [] False []))) = exampleData [] False []"
proof -
  have ok: "fst (dataSourceContainerRegistryTokenRead
          (\<lparr>WasNotFound = False, ID = Some ''/tokens/t1'', TokenName = Some ''t1'',
            ScopeMapID = None, Status = []\<rparr>, None) (exampleData [] False [])) = Success"
    using C10_enabled_iff_not_disabled
      [of "\<lparr>WasNotFound = False, ID = Some ''/tokens/t1'', TokenName = Some ''t1'',
            ScopeMapID = None, Status = []\<rparr>" "''/tokens/t1''" "exampleData [] False []"]
    by simp
  have bad: "fst (dataSourceContainerRegistryTokenRead
          (\<lparr>WasNotFound = True, ID = None, TokenName = None, ScopeMapID = None, Status = []\<rparr>,
           Some ''not found'') (exampleData [] False [])) \<noteq> Success"
    by (simp add: dataSourceContainerRegistryTokenRead_def Let_def)
  show ?thesis
    using ok bad
      C10_enabled_iff_not_disabled
        [of "\<lparr>WasNotFound = False, ID = Some ''/tokens/t1'', TokenName = Some ''t1'',
              ScopeMapID = None, Status = []\<rparr>" _ "exampleData [] False []" None]
      C10_enabled_iff_not_disabled
        [of "\<lparr>WasNotFound = True, ID = None, TokenName = None, ScopeMapID = None, Status = []\<rparr>"
            _ "exampleData [] False []" "Some ''not found''"]
    by (simp add: TokenStatusDisabled_def)
qed

subsection \<open>Locks around the update of a shared parent\<close>

lemma example_parse_nic:
  "ParseAzureResourceID exampleHelpers exampleNicId
     = Inr \<lparr>ResourceGroup = ''rg1'', Path = [''networkInterfaces'' \<mapsto> ''nic1'']\<rparr>"
  by (simp add: exampleHelpers_def exampleNicId_def exampleEndpointId_def)

lemma example_parse_nsg:
  "ParseAzureResourceID exampleHelpers exampleNsgId
     = Inr \<lparr>ResourceGroup = ''rg1'', Path = [''networkSecurityGroups'' \<mapsto> ''nsg1'']\<rparr>"
  by (simp add: exampleHelpers_def exampleNsgId_def exampleNicId_def exampleEndpointId_def)

lemma splitOn_no_separator: "c \<notin> set s \<Longrightarrow> splitOn c s = [s]"
  by (induction s) auto

lemma splitOn_first: "c \<notin> set s \<Longrightarrow> splitOn c (s @ c # t) = s # splitOn c t"
  by (induction s) (auto split: list.splits)

lemma example_split:
  "splitOn CHR ''|'' (exampleNicId @ ''|'' @ exampleNsgId) = [exampleNicId, exampleNsgId]"
proof -
  have "CHR ''|'' \<notin> set exampleNicId" and "CHR ''|'' \<notin> set exampleNsgId"
    by (simp_all add: exampleNicId_def exampleNsgId_def)
  then show ?thesis
    by (simp add: splitOn_first splitOn_no_separator)
qed

text \<open>
  Claim C7: the handlers that rewrite a shared parent (Create/Update and Delete of
  the IoT Hub endpoint, Create and Delete of the network interface association)
  make every client call, the first read of the parent included, while they hold
  the lock named by the parent's name and its resource-type tag, and at the end
  of the handler no lock is held, whatever the outcome: success, error or panic.
\<close>

theorem C7_parent_lock_held_and_released:
  "callsUnder (getString d1 ''iothub_name'', IothubResourceName) False
     (snd (snd (resourceIotHubEndpointServiceBusQueueCreateUpdate h sub get1 createErr1 waitErr1 readGet1 d1)))
   \<and> heldAfter []
       (snd (snd (resourceIotHubEndpointServiceBusQueueCreateUpdate h sub get1 createErr1 waitErr1 readGet1 d1)))
     = []
   \<and> (ParseAzureResourceID h (Id d2) = Inr rid2 \<longrightarrow>
        callsUnder (pathOf rid2 ''IotHubs'', IothubResourceName) False
          (snd (snd (resourceIotHubEndpointServiceBusQueueDelete h get2 updateErr2 waitErr2 d2)))
        \<and> heldAfter []
            (snd (snd (resourceIotHubEndpointServiceBusQueueDelete h get2 updateErr2 waitErr2 d2)))
          = [])
   \<and> (ParseAzureResourceID h (getString d3 ''network_interface_id'') = Inr rid3 \<longrightarrow>
        callsUnder (pathOf rid3 ''networkInterfaces'', networkInterfaceResourceName) False
          (snd (snd (resourceNetworkInterfaceSecurityGroupAssociationCreate h get3 createErr3 waitErr3 readGet3 d3)))
        \<and> heldAfter []
            (snd (snd (resourceNetworkInterfaceSecurityGroupAssociationCreate h get3 createErr3 waitErr3 readGet3 d3)))
          = [])
   \<and> (splitOn CHR ''|'' (Id d4) = [a, b] \<and> ParseAzureResourceID h a = Inr rid4 \<longrightarrow>
        callsUnder (pathOf rid4 ''networkInterfaces'', networkInterfaceResourceName) False
          (snd (snd (resourceNetworkInterfaceSecurityGroupAssociationDelete h get4 updateErr4 waitErr4 d4)))
        \<and> heldAfter []
            (snd (snd (resourceNetworkInterfaceSecurityGroupAssociationDelete h get4 updateErr4 waitErr4 d4)))
          = [])"
  using iot_CreateUpdate_locked [of d1 h sub get1 createErr1 waitErr1 readGet1, unfolded lockedBy_def]
    iot_Delete_locked [of h d2 rid2 get2 updateErr2 waitErr2, unfolded lockedBy_def]
    nic_Create_locked [of h d3 rid3 get3 createErr3 waitErr3 readGet3, unfolded lockedBy_def]
    nic_Delete_locked [of d4 a b h rid4 get4 updateErr4 waitErr4, unfolded lockedBy_def]
  by blast

theorem C7_parent_lock_held_and_released_witness:
  "ParseAzureResourceID exampleHelpers (Id (exampleData exampleEndpointId False []))
     = Inr \<lparr>ResourceGroup = ''rg1'',
            Path = [''IotHubs'' \<mapsto> ''hub1'', ''Endpoints'' \<mapsto> ''queue1'']\<rparr>
   \<and> ParseAzureResourceID exampleHelpers
         (getString (exampleData [] True [(''network_interface_id'', CString exampleNicId),
                                          (''network_security_group_id'', CString exampleNsgId)])
            ''network_interface_id'')
       = Inr \<lparr>ResourceGroup = ''rg1'', Path = [''networkInterfaces'' \<mapsto> ''nic1'']\<rparr>
   \<and> splitOn CHR ''|'' (Id (exampleData (exampleNicId @ ''|'' @ exampleNsgId) False []))
       = [exampleNicId, exampleNsgId]
   \<and> heldAfter []
       (snd (snd (resourceIotHubEndpointServiceBusQueueDelete exampleHelpers
                    (exampleHub \<lparr>EventHubs = None, ServiceBusQueues = Some []\<rparr>, None) None None
                    (exampleData exampleEndpointId False [])))) = []
   \<and> heldAfter []
       (snd (snd (resourceNetworkInterfaceSecurityGroupAssociationCreate exampleHelpers
                    (\<lparr>WasNotFound = False, ID = Some exampleNicId,
                      InterfaceProperties = Some \<lparr>NetworkSecurityGroup = None\<rparr>\<rparr>, None)
                    None None
                    (\<lparr>WasNotFound = False, ID = Some exampleNicId,
                      InterfaceProperties = Some \<lparr>NetworkSecurityGroup = None\<rparr>\<rparr>, None)
                    (exampleData [] True [(''network_interface_id'', CString exampleNicId),
                                          (''network_security_group_id'', CString exampleNsgId)]))))
       = []
   \<and> heldAfter []
       (snd (snd (resourceNetworkInterfaceSecurityGroupAssociationDelete exampleHelpers
                    (\<lparr>WasNotFound = False, ID = Some exampleNicId,
                      InterfaceProperties = Some \<lparr>NetworkSecurityGroup = None\<rparr>\<rparr>, None)
                    None None
                    (exampleData (exampleNicId @ ''|'' @ exampleNsgId) False [])))) = []"
proof -
  have p2: "ParseAzureResourceID exampleHelpers (Id (exampleData exampleEndpointId False []))
              = Inr \<lparr>ResourceGroup = ''rg1'',
                     Path = [''IotHubs'' \<mapsto> ''hub1'', ''Endpoints'' \<mapsto> ''queue1'']\<rparr>"
    by (rule example_parse_endpoint)
  have p3: "ParseAzureResourceID exampleHelpers
              (getString (exampleData [] True [(''network_interface_id'', CString exampleNicId),
                                               (''network_security_group_id'', CString exampleNsgId)])
                 ''network_interface_id'')
            = Inr \<lparr>ResourceGroup = ''rg1'', Path = [''networkInterfaces'' \<mapsto> ''nic1'']\<rparr>"
    by (simp add: getString_def exampleData_def example_parse_nic)
  have p4: "splitOn CHR ''|'' (Id (exampleData (exampleNicId @ ''|'' @ exampleNsgId) False []))
              = [exampleNicId, exampleNsgId]
            \<and> ParseAzureResourceID exampleHelpers exampleNicId
              = Inr \<lparr>ResourceGroup = ''rg1'', Path = [''networkInterfaces'' \<mapsto> ''nic1'']\<rparr>"
    using example_split by (simp add: exampleData_def example_parse_nic)
  show ?thesis
    using p2 p3 p4
      C7_parent_lock_held_and_released
        [where h = exampleHelpers
           and ?d2.0 = "exampleData exampleEndpointId False []"
           and ?rid2.0 = "\<lparr>ResourceGroup = ''rg1'',
                           Path = [''IotHubs'' \<mapsto> ''hub1'', ''Endpoints'' \<mapsto> ''queue1'']\<rparr>"
           and ?get2.0 = "(exampleHub \<lparr>EventHubs = None, ServiceBusQueues = Some []\<rparr>, None)"
           and ?updateErr2.0 = None and ?waitErr2.0 = None
           and ?d3.0 = "exampleData [] True [(''network_interface_id'', CString exampleNicId),
                                             (''network_security_group_id'', CString exampleNsgId)]"
           and ?rid3.0 = "\<lparr>ResourceGroup = ''rg1'', Path = [''networkInterfaces'' \<mapsto> ''nic1'']\<rparr>"
           and ?get3.0 = "(\<lparr>WasNotFound = False, ID = Some exampleNicId,
                            InterfaceProperties = Some \<lparr>NetworkSecurityGroup = None\<rparr>\<rparr>, None)"
           and ?createErr3.0 = None and ?waitErr3.0 = None
           and ?readGet3.0 = "(\<lparr>WasNotFound = False, ID = Some exampleNicId,
                                InterfaceProperties = Some \<lparr>NetworkSecurityGroup = None\<rparr>\<rparr>, None)"
           and ?d4.0 = "exampleData (exampleNicId @ ''|'' @ exampleNsgId) False []"
           and a = exampleNicId and b = exampleNsgId
           and ?rid4.0 = "\<lparr>ResourceGroup = ''rg1'', Path = [''networkInterfaces'' \<mapsto> ''nic1'']\<rparr>"
           and ?get4.0 = "(\<lparr>WasNotFound = False, ID = Some exampleNicId,
                            InterfaceProperties = Some \<lparr>NetworkSecurityGroup = None\<rparr>\<rparr>, None)"
           and ?updateErr4.0 = None and ?waitErr4.0 = None]
    by simp
qed

subsection \<open>Resource IDs\<close>

lemmas createsOnly_intros =
  in_case_option [where P = "createsOnly vo"] in_case_sum [where P = "createsOnly vo"]
  in_case_prod [where P = "createsOnly vo"] in_case_list [where P = "createsOnly vo"]
  in_if [where P = "createsOnly vo"] in_Let [where P = "createsOnly vo"]
  for vo

lemmas createsOnSuccess_intros =
  in_case_option [where P = "createsOnSuccess vo"] in_case_sum [where P = "createsOnSuccess vo"]
  in_case_prod [where P = "createsOnSuccess vo"] in_case_list [where P = "createsOnSuccess vo"]
  in_if [where P = "createsOnSuccess vo"] in_Let [where P = "createsOnSuccess vo"]
  for vo

lemmas endsWithId_intros =
  in_case_option [where P = "endsWithId vo"] in_case_sum [where P = "endsWithId vo"]
  in_case_prod [where P = "endsWithId vo"] in_case_list [where P = "endsWithId vo"]
  in_if [where P = "endsWithId vo"] in_Let [where P = "endsWithId vo"]
  for vo

lemmas keepsId_intros =
  in_case_option [where P = "keepsId i"] in_case_sum [where P = "keepsId i"]
  in_case_prod [where P = "keepsId i"] in_case_list [where P = "keepsId i"]
  in_if [where P = "keepsId i"] in_Let [where P = "keepsId i"]
  for i

lemma createdId_append:
  "createdId (a @ b) = (case createdId a of None \<Rightarrow> createdId b | Some v \<Rightarrow> Some v)"
  by (induction a rule: createdId.induct) auto

lemma readEndpoints_Id [simp]: "Id (readEndpoints eqFold n es d) = Id d"
  by (induction es arbitrary: d) (auto split: option.splits)

lemma keepsId_triple [simp]: "keepsId i (out, d, tr) = (Id d = i)"
  by (simp add: keepsId_def)

lemma iot_Read_keepsId: "keepsId (Id d) (resourceIotHubEndpointServiceBusQueueRead h get d)"
  unfolding resourceIotHubEndpointServiceBusQueueRead_def
  by (intro keepsId_intros; simp)

lemma iot_Read_Id [simp]:
  "Id (fst (snd (resourceIotHubEndpointServiceBusQueueRead h get d))) = Id d"
  using iot_Read_keepsId [of d h get] by (simp add: keepsId_def)

lemma nic_Read_found:
  "Id (fst (snd (resourceNetworkInterfaceSecurityGroupAssociationRead h
                   (read\<lparr>InterfaceProperties :=
                      Some \<lparr>NetworkSecurityGroup = Some \<lparr>SecurityGroupID = Some sgID\<rparr>\<rparr>\<rparr>, None) d)))
     = Id d"
proof -
  have "keepsId (Id d) (resourceNetworkInterfaceSecurityGroupAssociationRead h
                   (read\<lparr>InterfaceProperties :=
                      Some \<lparr>NetworkSecurityGroup = Some \<lparr>SecurityGroupID = Some sgID\<rparr>\<rparr>\<rparr>, None) d)"
    unfolding resourceNetworkInterfaceSecurityGroupAssociationRead_def
    by (intro keepsId_intros; simp; fastforce)
  then show ?thesis
    by (simp add: keepsId_def)
qed

lemma automation_Read_found:
  "Id (fst (snd (resourceAutomationVariableRead h varType (resp, None) d))) = Id d"
proof -
  have "keepsId (Id d) (resourceAutomationVariableRead h varType (resp, None) d)"
    unfolding resourceAutomationVariableRead_def
    by (intro keepsId_intros; simp split: option.splits "value.splits")
  then show ?thesis
    by (simp add: keepsId_def)
qed

lemma storage_Read_found:
  "Id (fst (snd (resourceStorageSyncRead h (resp, None) rest d))) = Id d"
proof -
  have "keepsId (Id d) (resourceStorageSyncRead h (resp, None) rest d)"
    unfolding resourceStorageSyncRead_def
    by (intro keepsId_intros; simp)
  then show ?thesis
    by (simp add: keepsId_def)
qed

lemma dashboard_Read_found:
  "Id (fst (snd (resourceDashboardRead h (resp, None) rest d))) = Id d"
proof -
  have "keepsId (Id d) (resourceDashboardRead h (resp, None) rest d)"
    unfolding resourceDashboardRead_def
    by (intro keepsId_intros; simp)
  then show ?thesis
    by (simp add: keepsId_def)
qed

lemma firewall_Read_found:
  "Id (fst (snd (resourceSqlFirewallRuleRead h (resp, None) d))) = Id d"
proof -
  have "keepsId (Id d) (resourceSqlFirewallRuleRead h (resp, None) d)"
    unfolding resourceSqlFirewallRuleRead_def
    by (intro keepsId_intros; simp)
  then show ?thesis
    by (simp add: keepsId_def)
qed

lemma failover_Read_found:
  "Id (fst (snd (resourceSqlFailoverGroupRead h (resp, None) rest d))) = Id d"
proof -
  have "keepsId (Id d) (resourceSqlFailoverGroupRead h (resp, None) rest d)"
    unfolding resourceSqlFailoverGroupRead_def
    by (intro keepsId_intros; simp)
  then show ?thesis
    by (simp add: keepsId_def)
qed

lemma express_Read_found:
  "Id (fst (snd (resourceExpressRouteGatewayRead h (resp, None) rest d))) = Id d"
proof -
  have "keepsId (Id d) (resourceExpressRouteGatewayRead h (resp, None) rest d)"
    unfolding resourceExpressRouteGatewayRead_def
    by (intro keepsId_intros; simp)
  then show ?thesis
    by (simp add: keepsId_def)
qed

lemma devtest_Read_found:
  "Id (fst (snd (resourceArmDevTestPolicyRead h (resp, None) rest d))) = Id d"
proof -
  have "keepsId (Id d) (resourceArmDevTestPolicyRead h (resp, None) rest d)"
    unfolding resourceArmDevTestPolicyRead_def
    by (intro keepsId_intros; simp)
  then show ?thesis
    by (simp add: keepsId_def)
qed

lemma datafactory_Read_found:
  "Id (fst (snd (resourceDataFactoryDatasetAzureBlobRead h (resp, None) rest d))) = Id d"
proof -
  have "keepsId (Id d) (resourceDataFactoryDatasetAzureBlobRead h (resp, None) rest d)"
    unfolding resourceDataFactoryDatasetAzureBlobRead_def
    by (intro keepsId_intros; simp)
  then show ?thesis
    by (simp add: keepsId_def)
qed

lemma createsOnly_locked:
  "\<lbrakk>createdId calls = None; createdId after = None; createsOnly vo r\<rbrakk>
   \<Longrightarrow> createsOnly vo (traced (LockByName n t # calls) r after)"
  by (auto simp: createsOnly_def createdId_append split: option.splits)

lemma createsOnSuccess_locked:
  "\<lbrakk>createdId calls = None; createdId after = None; createsOnSuccess vo r\<rbrakk>
   \<Longrightarrow> createsOnSuccess vo (traced (LockByName n t # calls) r after)"
  by (auto simp: createsOnSuccess_def createdId_append split: option.splits)

lemma endsWithId_traced [simp]: "endsWithId vo (traced before r after) = endsWithId vo r"
  by (simp add: endsWithId_def)

lemma automation_Create_id:
  "createsOnly (ID (fst get)) (resourceAutomationVariableCreateUpdate h varType existing createErr get readGet d)"
  unfolding resourceAutomationVariableCreateUpdate_def
  by (intro createsOnly_intros createsOnly_locked; simp add: createsOnly_def createdId_append)

lemma storage_Create_id:
  "createsOnly (ID (fst get)) (resourceStorageSyncCreate h existing createErr waitErr get readGet rest d)"
  unfolding resourceStorageSyncCreate_def
  by (intro createsOnly_intros createsOnly_locked; simp add: createsOnly_def createdId_append)

lemma firewall_Create_id:
  "createsOnly (ID (fst get)) (resourceSqlFirewallRuleCreateUpdate h existing createErr get readGet d)"
  unfolding resourceSqlFirewallRuleCreateUpdate_def
  by (intro createsOnly_intros createsOnly_locked; simp add: createsOnly_def createdId_append)

lemma failover_Create_id:
  "createsOnly (ID (fst get)) (resourceSqlFailoverGroupCreateUpdate h vs existing createErr waitErr get readGet rest d)"
  unfolding resourceSqlFailoverGroupCreateUpdate_def
  by (intro createsOnly_intros createsOnly_locked; simp add: createsOnly_def createdId_append)

lemma express_Create_id:
  "createsOnly (ID (fst get)) (resourceExpressRouteGatewayCreateUpdate h existing createErr waitErr get readGet rest d)"
  unfolding resourceExpressRouteGatewayCreateUpdate_def
  by (intro createsOnly_intros createsOnly_locked; simp add: createsOnly_def createdId_append)

lemma devtest_Create_id:
  "createsOnly (ID (fst get)) (resourceArmDevTestPolicyCreateUpdate h existing createErr get readGet rest d)"
  unfolding resourceArmDevTestPolicyCreateUpdate_def
  by (intro createsOnly_intros createsOnly_locked; simp add: createsOnly_def createdId_append)

lemma datafactory_Create_id:
  "createsOnly (ID (fst get)) (resourceDataFactoryDatasetAzureBlobCreateUpdate h existing createErr get readGet rest d)"
  unfolding resourceDataFactoryDatasetAzureBlobCreateUpdate_def
  by (intro createsOnly_intros createsOnly_locked; simp add: createsOnly_def createdId_append)

lemma dashboard_Create_id:
  "createsOnly (Some (NewDashboardID h subscriptionId (getString d ''resource_group_name'')
                        (getString d ''name'')))
     (resourceDashboardCreateUpdate h subscriptionId unmarshalErr createErr readGet rest d)"
  unfolding resourceDashboardCreateUpdate_def
  by (intro createsOnly_intros createsOnly_locked; simp add: createsOnly_def createdId_append)

lemma nic_Create_id:
  "createsOnly (Some (getString d ''network_interface_id'' @ ''|''
                      @ getString d ''network_security_group_id''))
     (resourceNetworkInterfaceSecurityGroupAssociationCreate h get createErr waitErr readGet d)"
  unfolding resourceNetworkInterfaceSecurityGroupAssociationCreate_def
  by (intro createsOnly_intros createsOnly_locked; simp add: createsOnly_def createdId_append)

lemma nic_Create_success:
  "createsOnSuccess (Some (getString d ''network_interface_id'' @ ''|''
                           @ getString d ''network_security_group_id''))
     (resourceNetworkInterfaceSecurityGroupAssociationCreate h get createErr waitErr readGet d)"
  unfolding resourceNetworkInterfaceSecurityGroupAssociationCreate_def
  by (intro createsOnSuccess_intros createsOnSuccess_locked;
      simp add: createsOnSuccess_def createdId_append)

lemma iot_Create_id:
  "createsOnly (map_option (\<lambda>hubID. hubID @ ''/Endpoints/'' @ getString d ''name'') (ID (fst get)))
     (resourceIotHubEndpointServiceBusQueueCreateUpdate h sub get createErr waitErr readGet d)"
  unfolding resourceIotHubEndpointServiceBusQueueCreateUpdate_def
  by (intro createsOnly_intros createsOnly_locked; simp add: createsOnly_def createdId_append)

lemma iot_Create_success:
  "createsOnSuccess (map_option (\<lambda>hubID. hubID @ ''/Endpoints/'' @ getString d ''name'') (ID (fst get)))
     (resourceIotHubEndpointServiceBusQueueCreateUpdate h sub get createErr waitErr readGet d)"
  unfolding resourceIotHubEndpointServiceBusQueueCreateUpdate_def
  by (intro createsOnSuccess_intros createsOnSuccess_locked;
      simp add: createsOnSuccess_def createdId_append)

lemma iot_Create_ends:
  "endsWithId (map_option (\<lambda>hubID. hubID @ ''/Endpoints/'' @ getString d ''name'') (ID (fst get)))
     (resourceIotHubEndpointServiceBusQueueCreateUpdate h sub get createErr waitErr readGet d)"
  unfolding resourceIotHubEndpointServiceBusQueueCreateUpdate_def
  by (intro endsWithId_intros; simp; intro endsWithId_intros; simp add: endsWithId_def)

lemma example_getString:
  "getString exampleEndpointData ''name'' = ''queue1''"
  "getString exampleEndpointData ''iothub_name'' = ''hub1''"
  "getString exampleEndpointData ''resource_group_name'' = ''rg1''"
  "getString exampleEndpointData ''connection_string'' = ''Endpoint=sb://ns.servicebus.windows.net''"
  "IsNewResource exampleEndpointData"
  by (simp_all add: getString_def exampleEndpointData_def exampleData_def)

lemma example_iot_read:
  "fst (resourceIotHubEndpointServiceBusQueueRead exampleHelpers
          (exampleHub \<lparr>EventHubs = None, ServiceBusQueues = Some []\<rparr>, None)
          (SetId exampleEndpointData exampleEndpointId)) = Success"
  by (simp add: resourceIotHubEndpointServiceBusQueueRead_def exampleHelpers_def SetId_def
      exampleHub_def Let_def)

lemma example_iot_create:
  "fst (resourceIotHubEndpointServiceBusQueueCreateUpdate exampleHelpers ''s1''
          (exampleHub \<lparr>EventHubs = None, ServiceBusQueues = Some []\<rparr>, None) None None
          (exampleHub \<lparr>EventHubs = None, ServiceBusQueues = Some []\<rparr>, None)
          exampleEndpointData) = Success"
proof -
  have "''/subscriptions/s1/resourceGroups/rg1/providers/Microsoft.Devices/IotHubs/hub1''
          @ ''/Endpoints/'' @ ''queue1'' = exampleEndpointId"
    by (simp add: exampleEndpointId_def)
  then show ?thesis
    using example_iot_read
    by (simp add: resourceIotHubEndpointServiceBusQueueCreateUpdate_def example_getString
        exampleHub_def Let_def)
qed

lemma example_association_getString:
  "getString exampleAssociationData ''network_interface_id'' = exampleNicId"
  "getString exampleAssociationData ''network_security_group_id'' = exampleNsgId"
  by (simp_all add: getString_def exampleAssociationData_def exampleData_def)

lemma example_nic_read:
  "fst (resourceNetworkInterfaceSecurityGroupAssociationRead exampleHelpers
          (exampleInterface (Some \<lparr>SecurityGroupID = Some exampleNsgId\<rparr>), None)
          (SetId exampleAssociationData (exampleNicId @ ''|'' @ exampleNsgId))) = Success"
  using example_split
  by (simp add: resourceNetworkInterfaceSecurityGroupAssociationRead_def SetId_def
      example_parse_nic exampleInterface_def Let_def)

lemma example_nic_create:
  "fst (resourceNetworkInterfaceSecurityGroupAssociationCreate exampleHelpers
          (exampleInterface None, None) None None
          (exampleInterface (Some \<lparr>SecurityGroupID = Some exampleNsgId\<rparr>), None)
          exampleAssociationData) = Success"
  using example_nic_read
  by (simp add: resourceNetworkInterfaceSecurityGroupAssociationCreate_def
      example_association_getString example_parse_nic example_parse_nsg exampleInterface_def Let_def)

lemma iot_Create_success_id:
  assumes "fst (resourceIotHubEndpointServiceBusQueueCreateUpdate h sub get createErr waitErr readGet d) = Success"
  shows "\<exists>hubID. ID (fst get) = Some hubID
          \<and> createdId (snd (snd (resourceIotHubEndpointServiceBusQueueCreateUpdate h sub get createErr waitErr readGet d)))
              = Some (hubID @ ''/Endpoints/'' @ getString d ''name'')
          \<and> Id (fst (snd (resourceIotHubEndpointServiceBusQueueCreateUpdate h sub get createErr waitErr readGet d)))
              = hubID @ ''/Endpoints/'' @ getString d ''name''"
  using assms iot_Create_success [of d get h sub createErr waitErr readGet]
    iot_Create_ends [of d get h sub createErr waitErr readGet]
  by (cases "ID (fst get)") (auto simp: createsOnSuccess_def endsWithId_def)

lemmas setsServiceId_intros =
  in_case_option [where P = "setsServiceId vo"] in_case_sum [where P = "setsServiceId vo"]
  in_case_prod [where P = "setsServiceId vo"] in_case_list [where P = "setsServiceId vo"]
  in_if [where P = "setsServiceId vo"] in_Let [where P = "setsServiceId vo"]
  for vo

lemma automation_Create_success:
  "setsServiceId (ID (fst get)) (resourceAutomationVariableCreateUpdate h varType existing createErr get readGet d)"
  unfolding resourceAutomationVariableCreateUpdate_def
  by (intro setsServiceId_intros;
      simp add: setsServiceId_def createdId_append split: if_splits prod.splits option.splits)

lemma storage_Create_success:
  "setsServiceId (ID (fst get)) (resourceStorageSyncCreate h existing createErr waitErr get readGet rest d)"
  unfolding resourceStorageSyncCreate_def
  by (intro setsServiceId_intros; simp add: setsServiceId_def createdId_append)

lemma firewall_Create_success:
  "setsServiceId (ID (fst get)) (resourceSqlFirewallRuleCreateUpdate h existing createErr get readGet d)"
  unfolding resourceSqlFirewallRuleCreateUpdate_def
  by (intro setsServiceId_intros; simp add: setsServiceId_def createdId_append)

lemma failover_Create_success:
  "setsServiceId (ID (fst get)) (resourceSqlFailoverGroupCreateUpdate h vs existing createErr waitErr get readGet rest d)"
  unfolding resourceSqlFailoverGroupCreateUpdate_def
  by (intro setsServiceId_intros; simp add: setsServiceId_def createdId_append)

lemma express_Create_success:
  "setsServiceId (ID (fst get)) (resourceExpressRouteGatewayCreateUpdate h existing createErr waitErr get readGet rest d)"
  unfolding resourceExpressRouteGatewayCreateUpdate_def
  by (intro setsServiceId_intros; simp add: setsServiceId_def createdId_append)

lemma devtest_Create_success:
  "setsServiceId (ID (fst get)) (resourceArmDevTestPolicyCreateUpdate h existing createErr get readGet rest d)"
  unfolding resourceArmDevTestPolicyCreateUpdate_def
  by (intro setsServiceId_intros; simp add: setsServiceId_def createdId_append)

lemma datafactory_Create_success:
  "setsServiceId (ID (fst get)) (resourceDataFactoryDatasetAzureBlobCreateUpdate h existing createErr get readGet rest d)"
  unfolding resourceDataFactoryDatasetAzureBlobCreateUpdate_def
  by (intro setsServiceId_intros; simp add: setsServiceId_def createdId_append)

lemma dashboard_Create_success:
  "createsOnSuccess (Some (NewDashboardID h subscriptionId (getString d ''resource_group_name'')
                        (getString d ''name'')))
     (resourceDashboardCreateUpdate h subscriptionId unmarshalErr createErr readGet rest d)"
  unfolding resourceDashboardCreateUpdate_def
  by (intro createsOnSuccess_intros; simp add: createsOnSuccess_def createdId_append)

subsection \<open>Not found on Read and Delete\<close>

lemma example_parse_variable:
  "ParseAzureResourceID exampleHelpers (Id (exampleData exampleVariableId new kvs))
     = Inr \<lparr>ResourceGroup = ''rg1'',
            Path = [''automationAccounts'' \<mapsto> ''acc1'', ''variables'' \<mapsto> ''var1'']\<rparr>"
  by (simp add: exampleHelpers_def exampleData_def exampleVariableId_def exampleEndpointId_def
      exampleNicId_def exampleNsgId_def)

lemma example_parse_dashboard:
  "DashboardID exampleHelpers exampleDashboardId = Inr (''rg1'', ''board1'')"
  "NewDashboardID exampleHelpers ''s1'' ''rg1'' ''board1'' = exampleDashboardId"
  by (simp_all add: exampleHelpers_def exampleDashboardId_def)

text \<open>
  The Delete of the automation variable makes no not-found check, unlike the
  Delete of the dashboard or of the SQL firewall rule: a Delete answered with
  status 404 returns the error of the call.
\<close>

lemma automation_variable_Delete_on_404:
  "resourceAutomationVariableDelete exampleHelpers ''String'' (Some ''StatusCode=404'')
     (exampleData exampleVariableId False [])
     = (Failure (Errorf ''Error deleting Automation %s Variable %q (Automation Account Name %q / Resource Group %q): %+v''
                   [''String'', ''var1'', ''acc1'', ''rg1'', ''StatusCode=404'']),
        exampleData exampleVariableId False [],
        [Call Delete [''rg1'', ''acc1'', ''var1''] None])"
  by (simp add: resourceAutomationVariableDelete_def example_parse_variable pathOf_def Let_def)

text \<open>
  Claim C1, as stated, fails. The handlers that rewrite a parent have a branch of
  their own for a parent that is not found: Delete of the IoT Hub endpoint, when
  the Get of the hub answers not found, returns the error
  \<open>IotHub ... was not found\<close>, and Delete of the network interface association
  returns \<open>Network Interface ... was not found!\<close>.
\<close>

theorem C1_delete_not_found_is_error:
  "fst (resourceIotHubEndpointServiceBusQueueDelete exampleHelpers
          ((exampleHub \<lparr>EventHubs = None, ServiceBusQueues = Some []\<rparr>)\<lparr>WasNotFound := True\<rparr>,
           Some ''StatusCode=404'')
          None None (exampleData exampleEndpointId False []))
     = Failure (Errorf ''IotHub %q (Resource Group %q) was not found'' [''hub1'', ''rg1''])
   \<and> fst (resourceNetworkInterfaceSecurityGroupAssociationDelete exampleHelpers
          ((exampleInterface None)\<lparr>WasNotFound := True\<rparr>, Some ''StatusCode=404'') None None
          (exampleData (exampleNicId @ ''|'' @ exampleNsgId) False []))
     = Failure (Errorf ''Network Interface %q (Resource Group %q) was not found!''
                  [''nic1'', ''rg1''])"
proof (rule conjI)
  show "fst (resourceIotHubEndpointServiceBusQueueDelete exampleHelpers
          ((exampleHub \<lparr>EventHubs = None, ServiceBusQueues = Some []\<rparr>)\<lparr>WasNotFound := True\<rparr>,
           Some ''StatusCode=404'')
          None None (exampleData exampleEndpointId False []))
     = Failure (Errorf ''IotHub %q (Resource Group %q) was not found'' [''hub1'', ''rg1''])"
    by (simp add: resourceIotHubEndpointServiceBusQueueDelete_def example_parse_endpoint
        pathOf_def Let_def)
  show "fst (resourceNetworkInterfaceSecurityGroupAssociationDelete exampleHelpers
          ((exampleInterface None)\<lparr>WasNotFound := True\<rparr>, Some ''StatusCode=404'') None None
          (exampleData (exampleNicId @ ''|'' @ exampleNsgId) False []))
     = Failure (Errorf ''Network Interface %q (Resource Group %q) was not found!''
                  [''nic1'', ''rg1''])"
    using example_split
    by (simp add: resourceNetworkInterfaceSecurityGroupAssociationDelete_def exampleData_def
        example_parse_nic exampleInterface_def pathOf_def Let_def)
qed

text \<open>
  Claim C1, amended. When the Get fails with not found and the stored ID parses,
  the Read of the automation variable, the network interface association, the
  storage sync, the dashboard, the SQL firewall rule, the SQL failover group, the
  ExpressRoute gateway, the DevTest policy and the data factory dataset clears the
  ID and returns no error, after the one Get. On not found, the Delete of the
  dashboard, the SQL firewall rule, the data factory dataset, the ExpressRoute
  gateway (on the call and on the wait) and the DevTest policy (on its Get)
  returns no error. The Delete of the IoT Hub endpoint and of the network
  interface association, which rewrite a parent, return a was-not-found error
  when the parent is not found. An ID that does not parse is an error of each of
  these handlers.
\<close>

theorem C1_not_found_on_read_and_delete:
  "resourceAutomationVariableRead h varType (resp1\<lparr>WasNotFound := True\<rparr>, Some e) d
     = (case ParseAzureResourceID h (Id d) of
          Inl parseErr \<Rightarrow> (Failure (Err parseErr), d, [])
        | Inr rid \<Rightarrow>
            (Success, SetId d [],
             [Call Get [ResourceGroup rid, pathOf rid ''automationAccounts'', pathOf rid ''variables'']
                None, IdSet []]))
   \<and> resourceNetworkInterfaceSecurityGroupAssociationRead h (resp2\<lparr>WasNotFound := True\<rparr>, Some e) d
     = (case splitOn CHR ''|'' (Id d) of
          [nicPart, nsgPart] \<Rightarrow>
            (case ParseAzureResourceID h nicPart of
               Inl parseErr \<Rightarrow> (Failure (Err parseErr), d, [])
             | Inr rid \<Rightarrow>
                 (Success, SetId d [],
                  [Call Get [ResourceGroup rid, pathOf rid ''networkInterfaces''] None, IdSet []]))
        | _ \<Rightarrow>
            (Failure (Errorf ''Expected ID to be in the format {networkInterfaceId}|{networkSecurityGroupId} but got %q''
                        [Id d]), d, []))
   \<and> resourceStorageSyncRead h (resp\<lparr>WasNotFound := True\<rparr>, Some e) rest d
     = (case StorageSyncServiceID h (Id d) of
          Inl parseErr \<Rightarrow> (Failure (Err parseErr), d, [])
        | Inr (resourceGroup, name) \<Rightarrow>
            (Success, SetId d [], [Call Get [resourceGroup, name] None, IdSet []]))
   \<and> resourceDashboardRead h (resp\<lparr>WasNotFound := True\<rparr>, Some e) rest d
     = (case DashboardID h (Id d) of
          Inl parseErr \<Rightarrow> (Failure (Err parseErr), d, [])
        | Inr (resourceGroup, name) \<Rightarrow>
            (Success, SetId d [], [Call Get [resourceGroup, name] None, IdSet []]))
   \<and> resourceSqlFirewallRuleRead h (resp\<lparr>WasNotFound := True\<rparr>, Some e) d
     = (case FirewallRuleID h (Id d) of
          Inl parseErr \<Rightarrow> (Failure (Err parseErr), d, [])
        | Inr (resourceGroup, serverName, name) \<Rightarrow>
            (Success, SetId d [], [Call Get [resourceGroup, serverName, name] None, IdSet []]))
   \<and> resourceSqlFailoverGroupRead h (resp\<lparr>WasNotFound := True\<rparr>, Some e) rest d
     = (case FailoverGroupID h (Id d) of
          Inl parseErr \<Rightarrow> (Failure (Err parseErr), d, [])
        | Inr (resourceGroup, serverName, name) \<Rightarrow>
            (Success, SetId d [], [Call Get [resourceGroup, serverName, name] None, IdSet []]))
   \<and> resourceExpressRouteGatewayRead h (resp\<lparr>WasNotFound := True\<rparr>, Some e) rest d
     = (case ParseAzureResourceID h (Id d) of
          Inl parseErr \<Rightarrow> (Failure (Err parseErr), d, [])
        | Inr rid \<Rightarrow>
            (Success, SetId d [],
             [Call Get [ResourceGroup rid, pathOf rid ''expressRouteGateways''] None, IdSet []]))
   \<and> resourceArmDevTestPolicyRead h (resp\<lparr>WasNotFound := True\<rparr>, Some e) rest d
     = (case ParseAzureResourceID h (Id d) of
          Inl parseErr \<Rightarrow> (Failure (Err parseErr), d, [])
        | Inr rid \<Rightarrow>
            (Success, SetId d [],
             [Call Get [ResourceGroup rid, pathOf rid ''labs'', pathOf rid ''policysets'',
                        pathOf rid ''policies''] None, IdSet []]))
   \<and> resourceDataFactoryDatasetAzureBlobRead h (resp\<lparr>WasNotFound := True\<rparr>, Some e) rest d
     = (case ParseAzureResourceID h (Id d) of
          Inl parseErr \<Rightarrow> (Failure (Err parseErr), d, [])
        | Inr rid \<Rightarrow>
            (Success, SetId d [],
             [Call Get [ResourceGroup rid, pathOf rid ''factories'', pathOf rid ''datasets''] None,
              IdSet []]))
   \<and> resourceDashboardDelete h (True, deleteErr) d
     = (case DashboardID h (Id d) of
          Inl parseErr \<Rightarrow> (Failure (Err parseErr), d, [])
        | Inr (resourceGroup, name) \<Rightarrow> (Success, d, [Call Delete [resourceGroup, name] None]))
   \<and> resourceSqlFirewallRuleDelete h (True, deleteErr) d
     = (case FirewallRuleID h (Id d) of
          Inl parseErr \<Rightarrow> (Failure (Err parseErr), d, [])
        | Inr (resourceGroup, serverName, name) \<Rightarrow>
            (Success, d, [Call Delete [resourceGroup, serverName, name] None]))
   \<and> resourceDataFactoryDatasetAzureBlobDelete h (True, deleteErr) d
     = (case ParseAzureResourceID h (Id d) of
          Inl parseErr \<Rightarrow> (Failure (Err parseErr), d, [])
        | Inr rid \<Rightarrow>
            (Success, d,
             [Call Delete [ResourceGroup rid, pathOf rid ''factories'', pathOf rid ''datasets''] None]))
   \<and> resourceExpressRouteGatewayDelete h (True, Some e) wait d
     = (case ParseAzureResourceID h (Id d) of
          Inl parseErr \<Rightarrow> (Failure (Err parseErr), d, [])
        | Inr rid \<Rightarrow>
            (Success, d,
             [Call Delete [ResourceGroup rid, pathOf rid ''expressRouteGateways''] None]))
   \<and> resourceExpressRouteGatewayDelete h (notFound, None) (True, waitErr) d
     = (case ParseAzureResourceID h (Id d) of
          Inl parseErr \<Rightarrow> (Failure (Err parseErr), d, [])
        | Inr rid \<Rightarrow>
            (Success, d,
             [Call Delete [ResourceGroup rid, pathOf rid ''expressRouteGateways''] None,
              Call WaitForCompletion [] None]))
   \<and> resourceArmDevTestPolicyDelete h (resp\<lparr>WasNotFound := True\<rparr>, Some e) deleteErr d
     = (case ParseAzureResourceID h (Id d) of
          Inl parseErr \<Rightarrow> (Failure (Err parseErr), d, [])
        | Inr rid \<Rightarrow>
            (Success, d,
             [Call Get [ResourceGroup rid, pathOf rid ''labs'', pathOf rid ''policysets'',
                        pathOf rid ''policies''] None]))
   \<and> fst (resourceIotHubEndpointServiceBusQueueDelete h (resp3\<lparr>WasNotFound := True\<rparr>, Some e)
            updateErr waitErr3 d)
     = (case ParseAzureResourceID h (Id d) of
          Inl parseErr \<Rightarrow> Failure (Err parseErr)
        | Inr rid \<Rightarrow>
            Failure (Errorf ''IotHub %q (Resource Group %q) was not found''
                       [pathOf rid ''IotHubs'', ResourceGroup rid]))
   \<and> fst (resourceNetworkInterfaceSecurityGroupAssociationDelete h (resp2\<lparr>WasNotFound := True\<rparr>, Some e)
            updateErr waitErr3 d)
     = (case splitOn CHR ''|'' (Id d) of
          [nicPart, nsgPart] \<Rightarrow>
            (case ParseAzureResourceID h nicPart of
               Inl parseErr \<Rightarrow> Failure (Err parseErr)
             | Inr rid \<Rightarrow>
                 Failure (Errorf ''Network Interface %q (Resource Group %q) was not found!''
                            [pathOf rid ''networkInterfaces'', ResourceGroup rid]))
        | _ \<Rightarrow>
            Failure (Errorf ''Expected ID to be in the format {networkInterfaceId}/{networkSecurityGroup} but got %q''
                       [Id d]))"
proof (intro conjI)
qed (simp_all add: resourceAutomationVariableRead_def
      resourceNetworkInterfaceSecurityGroupAssociationRead_def resourceStorageSyncRead_def
      resourceDashboardRead_def resourceSqlFirewallRuleRead_def resourceSqlFailoverGroupRead_def
      resourceExpressRouteGatewayRead_def resourceArmDevTestPolicyRead_def
      resourceDataFactoryDatasetAzureBlobRead_def resourceDashboardDelete_def
      resourceSqlFirewallRuleDelete_def resourceDataFactoryDatasetAzureBlobDelete_def
      resourceExpressRouteGatewayDelete_def resourceArmDevTestPolicyDelete_def
      resourceIotHubEndpointServiceBusQueueDelete_def
      resourceNetworkInterfaceSecurityGroupAssociationDelete_def Let_def
      split: sum.splits prod.splits list.splits option.splits)

theorem C1_not_found_on_read_and_delete_witness:
  "resourceDashboardRead exampleHelpers (\<lparr>WasNotFound = True, ID = None\<rparr>, Some ''StatusCode=404'')
     Success (exampleData exampleDashboardId False [])
     = (Success, SetId (exampleData exampleDashboardId False []) [],
        [Call Get [''rg1'', ''board1''] None, IdSet []])
   \<and> resourceDashboardDelete exampleHelpers (True, Some ''StatusCode=404'')
       (exampleData exampleDashboardId False [])
     = (Success, exampleData exampleDashboardId False [], [Call Delete [''rg1'', ''board1''] None])"
proof -
  note w = C1_not_found_on_read_and_delete
    [where h = exampleHelpers and resp = "\<lparr>WasNotFound = False, ID = None\<rparr>"
       and e = "''StatusCode=404''" and rest = Success
       and d = "exampleData exampleDashboardId False []"
       and deleteErr = "Some ''StatusCode=404''"]
  have parsed: "DashboardID exampleHelpers (Id (exampleData exampleDashboardId False []))
                  = Inr (''rg1'', ''board1'')"
    by (simp add: exampleData_def example_parse_dashboard)
  have rd: "resourceDashboardRead exampleHelpers
              (\<lparr>WasNotFound = True, ID = None\<rparr>, Some ''StatusCode=404'')
              Success (exampleData exampleDashboardId False [])
            = (Success, SetId (exampleData exampleDashboardId False []) [],
               [Call Get [''rg1'', ''board1''] None, IdSet []])"
    using w [THEN conjunct2, THEN conjunct2, THEN conjunct2, THEN conjunct1]
    by (simp add: parsed)
  have del: "resourceDashboardDelete exampleHelpers (True, Some ''StatusCode=404'')
               (exampleData exampleDashboardId False [])
             = (Success, exampleData exampleDashboardId False [],
                [Call Delete [''rg1'', ''board1''] None])"
    using w [THEN conjunct2, THEN conjunct2, THEN conjunct2, THEN conjunct2, THEN conjunct2,
             THEN conjunct2, THEN conjunct2, THEN conjunct2, THEN conjunct2, THEN conjunct1]
    by (simp add: parsed)
  show ?thesis
    using rd del by (rule conjI)
qed

subsection \<open>The existence check of Create\<close>

text \<open>The Create of the SQL firewall rule, for comparison, reports a resource
  that exists and makes no write.\<close>

lemma firewall_rule_create_reports_existing:
  assumes "IsNewResource d" and "ID ex = Some rid" and "rid \<noteq> []"
  shows "resourceSqlFirewallRuleCreateUpdate h (ex, None) createErr get readGet d
           = (Failure (ImportAsExistsError ''azurerm_sql_firewall_rule'' rid), d,
              [Call Get [getString d ''resource_group_name'', getString d ''server_name'',
                         getString d ''name''] None])"
  using assms by (simp add: resourceSqlFirewallRuleCreateUpdate_def checkExisting_def Let_def)

text \<open>
  Claim C2 fails on the code for the portal dashboard: \<open>resourceDashboardCreateUpdate\<close>
  makes no Get before it writes. For a new resource \<open>board1\<close> in \<open>rg1\<close> whose
  dashboard already exists remotely, Create succeeds: its first client call is
  \<open>CreateOrUpdate\<close>, it sets the ID and reads the dashboard back; no
  \<open>ImportAsExistsError\<close> is returned. Whenever the JSON of the properties parses, the
  first event of the trace is the write.
\<close>

theorem C2_dashboard_create_writes_without_check:
  "resourceDashboardCreateUpdate exampleHelpers ''s1'' None None
     (\<lparr>WasNotFound = False, ID = Some exampleDashboardId\<rparr>, None) Success
     (exampleData [] True [(''name'', CString ''board1''), (''resource_group_name'', CString ''rg1'')])
   = (Success,
      SetId (exampleData [] True [(''name'', CString ''board1''),
                                  (''resource_group_name'', CString ''rg1'')]) exampleDashboardId,
      [Call CreateOrUpdate [''rg1'', ''board1''] None, IdSet exampleDashboardId,
       Call Get [''rg1'', ''board1''] None])
   \<and> (\<exists>tr. snd (snd (resourceDashboardCreateUpdate h subscriptionId None createErr readGet rest d))
              = Call CreateOrUpdate [getString d ''resource_group_name'', getString d ''name''] None
                # tr)"
proof -
  have "getString (exampleData [] True [(''name'', CString ''board1''),
                                        (''resource_group_name'', CString ''rg1'')]) ''name''
          = ''board1''"
    and "getString (exampleData [] True [(''name'', CString ''board1''),
                                         (''resource_group_name'', CString ''rg1'')])
           ''resource_group_name'' = ''rg1''"
    by (simp_all add: getString_def exampleData_def)
  then have "resourceDashboardCreateUpdate exampleHelpers ''s1'' None None
     (\<lparr>WasNotFound = False, ID = Some exampleDashboardId\<rparr>, None) Success
     (exampleData [] True [(''name'', CString ''board1''), (''resource_group_name'', CString ''rg1'')])
   = (Success,
      SetId (exampleData [] True [(''name'', CString ''board1''),
                                  (''resource_group_name'', CString ''rg1'')]) exampleDashboardId,
      [Call CreateOrUpdate [''rg1'', ''board1''] None, IdSet exampleDashboardId,
       Call Get [''rg1'', ''board1''] None])"
    by (simp add: resourceDashboardCreateUpdate_def resourceDashboardRead_def Let_def
        example_parse_dashboard)
  moreover have "\<exists>tr. snd (snd (resourceDashboardCreateUpdate h subscriptionId None createErr readGet rest d))
              = Call CreateOrUpdate [getString d ''resource_group_name'', getString d ''name''] None
                # tr"
    by (cases createErr) (simp_all add: resourceDashboardCreateUpdate_def Let_def)
  ultimately show ?thesis
    by (rule conjI)
qed

subsection \<open>The ID set by Create\<close>

lemma exampleNamed_simps:
  "getString (exampleNamed n kvs) ''name'' = n"
  "getString (exampleNamed n kvs) ''resource_group_name'' = ''rg1''"
  "IsNewResource (exampleNamed n kvs)"
  by (simp_all add: exampleNamed_def getString_def exampleData_def)

lemma checkExisting_absent: "checkExisting msg args t absent = None"
  by (simp add: checkExisting_def absent_def)

lemma example_sync_parse:
  "StorageSyncServiceID exampleParsers exampleSyncId = Inr (''rg1'', ''sync1'')"
  "StorageSyncServiceID exampleParsers exampleSyncIdUpper = Inr (''rg1'', ''SYNC1'')"
  "exampleSyncId \<noteq> []" "exampleSyncIdUpper \<noteq> []" "exampleSyncId \<noteq> exampleSyncIdUpper"
  by (simp_all add: exampleParsers_def exampleSyncId_def exampleSyncIdUpper_def)

lemma example_sync_create:
  "resourceStorageSyncCreate exampleParsers absent None None (found exampleSyncId)
     (found exampleSyncId) Success (exampleNamed ''sync1'' [])
   = (Success, SetId (exampleNamed ''sync1'' []) exampleSyncId,
      [Call Get [''rg1'', ''sync1''] None, Call Create [''rg1'', ''sync1''] None,
       Call WaitForCompletion [] None, Call Get [''rg1'', ''sync1''] None, IdSet exampleSyncId,
       Call Get [''rg1'', ''sync1''] None])"
  by (simp add: resourceStorageSyncCreate_def resourceStorageSyncRead_def checkExisting_absent
      exampleNamed_simps example_sync_parse found_def Let_def)

lemma example_sync_create_upper:
  "resourceStorageSyncCreate exampleParsers absent None None (found exampleSyncIdUpper)
     (found exampleSyncIdUpper) Success (exampleNamed ''sync1'' [])
   = (Success, SetId (exampleNamed ''sync1'' []) exampleSyncIdUpper,
      [Call Get [''rg1'', ''sync1''] None, Call Create [''rg1'', ''sync1''] None,
       Call WaitForCompletion [] None, Call Get [''rg1'', ''sync1''] None,
       IdSet exampleSyncIdUpper, Call Get [''rg1'', ''SYNC1''] None])"
  by (simp add: resourceStorageSyncCreate_def resourceStorageSyncRead_def checkExisting_absent
      exampleNamed_simps example_sync_parse found_def Let_def)

lemma example_dashboard_create:
  "fst (resourceDashboardCreateUpdate exampleHelpers ''s1'' None None (found exampleDashboardId)
          Success (exampleNamed ''board1'' [])) = Success"
  by (simp add: resourceDashboardCreateUpdate_def resourceDashboardRead_def exampleNamed_simps
      example_parse_dashboard found_def Let_def)

lemma example_rule_create:
  "fst (resourceSqlFirewallRuleCreateUpdate exampleParsers absent None (found exampleRuleId)
          (found exampleRuleId) (exampleNamed ''rule1'' [(''server_name'', CString ''server1'')]))
     = Success"
  by (simp add: resourceSqlFirewallRuleCreateUpdate_def resourceSqlFirewallRuleRead_def
      checkExisting_absent exampleNamed_simps exampleParsers_def found_def Let_def)

lemma example_group_create:
  "fst (resourceSqlFailoverGroupCreateUpdate exampleParsers [rwPolicyBlock sql_Automatic 60]
          absent None None (found exampleGroupId) (found exampleGroupId) Success
          (exampleNamed ''group1'' [(''server_name'', CString ''server1'')])) = Success"
  by (simp add: resourceSqlFailoverGroupCreateUpdate_def resourceSqlFailoverGroupRead_def
      checkExisting_absent exampleNamed_simps exampleParsers_def found_def Let_def
      expandSqlFailoverGroupReadWritePolicy_def rwPolicyBlock_def)

lemma example_gateway_create:
  "fst (resourceExpressRouteGatewayCreateUpdate exampleParsers absent None None
          (found exampleGatewayId) (found exampleGatewayId) Success (exampleNamed ''gw1'' []))
     = Success"
  by (simp add: resourceExpressRouteGatewayCreateUpdate_def resourceExpressRouteGatewayRead_def
      checkExisting_absent exampleNamed_simps exampleParsers_def found_def Let_def
      exampleGatewayId_def)

lemma example_policy_create:
  "fst (resourceArmDevTestPolicyCreateUpdate exampleParsers absent None (found examplePolicyId)
          (found examplePolicyId) Success
          (exampleNamed ''policy1'' [(''policy_set_name'', CString ''default''),
                                     (''lab_name'', CString ''lab1'')])) = Success"
  by (simp add: resourceArmDevTestPolicyCreateUpdate_def resourceArmDevTestPolicyRead_def
      checkExisting_absent exampleNamed_simps exampleParsers_def found_def Let_def
      exampleGatewayId_def examplePolicyId_def)

lemma example_dataset_create:
  "fst (resourceDataFactoryDatasetAzureBlobCreateUpdate exampleParsers absent None
          (found exampleDatasetId) (found exampleDatasetId) Success
          (exampleNamed ''ds1'' [(''data_factory_name'', CString ''df1'')])) = Success"
  by (simp add: resourceDataFactoryDatasetAzureBlobCreateUpdate_def
      resourceDataFactoryDatasetAzureBlobRead_def
      checkExisting_absent exampleNamed_simps exampleParsers_def found_def Let_def
      exampleGatewayId_def examplePolicyId_def exampleDatasetId_def)

lemma example_variable_create:
  "fst (resourceAutomationVariableCreateUpdate exampleHelpers ''Null''
          (exampleVariable\<lparr>WasNotFound := True, ID := None\<rparr>, Some ''StatusCode=404'') None
          (exampleVariable, None) (exampleVariable, None)
          (exampleNamed ''var1'' [(''automation_account_name'', CString ''acc1'')])) = Success"
  by (simp add: resourceAutomationVariableCreateUpdate_def resourceAutomationVariableRead_def
      exampleNamed_simps exampleVariable_def Let_def encodeVariableValue_def
      exampleHelpers_def asciiLower_def char_of_eq_nat exampleVariableId_def exampleEndpointId_def
      exampleNicId_def exampleNsgId_def)

text \<open>
  Claim C6, as stated, fails for the resources whose Create takes the ID from the
  answer of the service. Create of the storage sync \<open>sync1\<close> in \<open>rg1\<close> sets the
  ID that the Get after the write carries: with the same configuration and the
  same parent, an answer that spells the name \<open>SYNC1\<close> makes Create set another
  ID. Both runs succeed.
\<close>

theorem C6_created_id_is_service_answer:
  "fst (resourceStorageSyncCreate exampleParsers absent None None (found exampleSyncId)
          (found exampleSyncId) Success (exampleNamed ''sync1'' [])) = Success
   \<and> createdId (snd (snd (resourceStorageSyncCreate exampleParsers absent None None
          (found exampleSyncId) (found exampleSyncId) Success (exampleNamed ''sync1'' []))))
       = Some exampleSyncId
   \<and> fst (resourceStorageSyncCreate exampleParsers absent None None (found exampleSyncIdUpper)
          (found exampleSyncIdUpper) Success (exampleNamed ''sync1'' [])) = Success
   \<and> createdId (snd (snd (resourceStorageSyncCreate exampleParsers absent None None
          (found exampleSyncIdUpper) (found exampleSyncIdUpper) Success
          (exampleNamed ''sync1'' []))))
       = Some exampleSyncIdUpper
   \<and> exampleSyncId \<noteq> exampleSyncIdUpper"
  by (simp add: example_sync_create example_sync_create_upper example_sync_parse)

text \<open>
  Claim C6, amended. On every path Create sets no ID or the one ID described
  here, and a Create that succeeds has set it. For the IoT Hub endpoint it is the
  ID of the hub, as the Get returns it, followed by \<open>/Endpoints/\<close> and the endpoint
  name, and Create returns with it; for the network interface association it is
  the interface ID and the security group ID of the configuration joined by
  \<open>|\<close>; for the dashboard it is the ID built from subscription, resource group
  and name. For the automation variable, the storage sync, the SQL firewall rule,
  the SQL failover group, the ExpressRoute gateway, the DevTest policy and the
  data factory dataset it is the ID carried by the answer of the Get that follows
  the write, whatever that ID is. A Read that finds the resource (for the
  association: an interface with a security group that has an ID) returns the
  data with the ID it was given.
\<close>

theorem C6_resource_id_from_parent_and_name:
  "(createdId (snd (snd (resourceIotHubEndpointServiceBusQueueCreateUpdate h sub get1 createErr1 waitErr1 readGet1 d1))) = None
    \<or> createdId (snd (snd (resourceIotHubEndpointServiceBusQueueCreateUpdate h sub get1 createErr1 waitErr1 readGet1 d1)))
        = map_option (\<lambda>hubID. hubID @ ''/Endpoints/'' @ getString d1 ''name'') (ID (fst get1)))
   \<and> (fst (resourceIotHubEndpointServiceBusQueueCreateUpdate h sub get1 createErr1 waitErr1 readGet1 d1) = Success \<longrightarrow>
        (\<exists>hubID. ID (fst get1) = Some hubID
           \<and> createdId (snd (snd (resourceIotHubEndpointServiceBusQueueCreateUpdate h sub get1 createErr1 waitErr1 readGet1 d1)))
               = Some (hubID @ ''/Endpoints/'' @ getString d1 ''name'')
           \<and> Id (fst (snd (resourceIotHubEndpointServiceBusQueueCreateUpdate h sub get1 createErr1 waitErr1 readGet1 d1)))
               = hubID @ ''/Endpoints/'' @ getString d1 ''name''))
   \<and> (createdId (snd (snd (resourceNetworkInterfaceSecurityGroupAssociationCreate h get2 createErr2 waitErr2 readGet2 d2))) = None
    \<or> createdId (snd (snd (resourceNetworkInterfaceSecurityGroupAssociationCreate h get2 createErr2 waitErr2 readGet2 d2)))
        = Some (getString d2 ''network_interface_id'' @ ''|'' @ getString d2 ''network_security_group_id''))
   \<and> (fst (resourceNetworkInterfaceSecurityGroupAssociationCreate h get2 createErr2 waitErr2 readGet2 d2) = Success \<longrightarrow>
        createdId (snd (snd (resourceNetworkInterfaceSecurityGroupAssociationCreate h get2 createErr2 waitErr2 readGet2 d2)))
          = Some (getString d2 ''network_interface_id'' @ ''|'' @ getString d2 ''network_security_group_id''))
   \<and> (createdId (snd (snd (resourceDashboardCreateUpdate h subscriptionId unmarshalErr3 createErr3 readGet3 rest3 d3))) = None
    \<or> createdId (snd (snd (resourceDashboardCreateUpdate h subscriptionId unmarshalErr3 createErr3 readGet3 rest3 d3)))
        = Some (NewDashboardID h subscriptionId (getString d3 ''resource_group_name'') (getString d3 ''name'')))
   \<and> (fst (resourceDashboardCreateUpdate h subscriptionId unmarshalErr3 createErr3 readGet3 rest3 d3) = Success \<longrightarrow>
        createdId (snd (snd (resourceDashboardCreateUpdate h subscriptionId unmarshalErr3 createErr3 readGet3 rest3 d3)))
          = Some (NewDashboardID h subscriptionId (getString d3 ''resource_group_name'') (getString d3 ''name'')))
   \<and> (createdId (snd (snd (resourceAutomationVariableCreateUpdate h varType existing4 createErr4 get4 readGet4 d4))) = None
    \<or> createdId (snd (snd (resourceAutomationVariableCreateUpdate h varType existing4 createErr4 get4 readGet4 d4)))
        = ID (fst get4))
   \<and> (fst (resourceAutomationVariableCreateUpdate h varType existing4 createErr4 get4 readGet4 d4) = Success \<longrightarrow>
        (\<exists>rid. ID (fst get4) = Some rid
           \<and> createdId (snd (snd (resourceAutomationVariableCreateUpdate h varType existing4 createErr4 get4 readGet4 d4))) = Some rid))
   \<and> (createdId (snd (snd (resourceStorageSyncCreate h existing5 createErr5 waitErr5 get5 readGet5 rest5 d5))) = None
    \<or> createdId (snd (snd (resourceStorageSyncCreate h existing5 createErr5 waitErr5 get5 readGet5 rest5 d5)))
        = ID (fst get5))
   \<and> (fst (resourceStorageSyncCreate h existing5 createErr5 waitErr5 get5 readGet5 rest5 d5) = Success \<longrightarrow>
        (\<exists>rid. ID (fst get5) = Some rid
           \<and> createdId (snd (snd (resourceStorageSyncCreate h existing5 createErr5 waitErr5 get5 readGet5 rest5 d5))) = Some rid))
   \<and> (createdId (snd (snd (resourceSqlFirewallRuleCreateUpdate h existing6 createErr6 get6 readGet6 d6))) = None
    \<or> createdId (snd (snd (resourceSqlFirewallRuleCreateUpdate h existing6 createErr6 get6 readGet6 d6)))
        = ID (fst get6))
   \<and> (fst (resourceSqlFirewallRuleCreateUpdate h existing6 createErr6 get6 readGet6 d6) = Success \<longrightarrow>
        (\<exists>rid. ID (fst get6) = Some rid
           \<and> createdId (snd (snd (resourceSqlFirewallRuleCreateUpdate h existing6 createErr6 get6 readGet6 d6))) = Some rid))
   \<and> (createdId (snd (snd (resourceSqlFailoverGroupCreateUpdate h vs existing7 createErr7 waitErr7 get7 readGet7 rest7 d7))) = None
    \<or> createdId (snd (snd (resourceSqlFailoverGroupCreateUpdate h vs existing7 createErr7 waitErr7 get7 readGet7 rest7 d7)))
        = ID (fst get7))
   \<and> (fst (resourceSqlFailoverGroupCreateUpdate h vs existing7 createErr7 waitErr7 get7 readGet7 rest7 d7) = Success \<longrightarrow>
        (\<exists>rid. ID (fst get7) = Some rid
           \<and> createdId (snd (snd (resourceSqlFailoverGroupCreateUpdate h vs existing7 createErr7 waitErr7 get7 readGet7 rest7 d7))) = Some rid))
   \<and> (createdId (snd (snd (resourceExpressRouteGatewayCreateUpdate h existing8 createErr8 waitErr8 get8 readGet8 rest8 d8))) = None
    \<or> createdId (snd (snd (resourceExpressRouteGatewayCreateUpdate h existing8 createErr8 waitErr8 get8 readGet8 rest8 d8)))
        = ID (fst get8))
   \<and> (fst (resourceExpressRouteGatewayCreateUpdate h existing8 createErr8 waitErr8 get8 readGet8 rest8 d8) = Success \<longrightarrow>
        (\<exists>rid. ID (fst get8) = Some rid
           \<and> createdId (snd (snd (resourceExpressRouteGatewayCreateUpdate h existing8 createErr8 waitErr8 get8 readGet8 rest8 d8))) = Some rid))
   \<and> (createdId (snd (snd (resourceArmDevTestPolicyCreateUpdate h existing9 createErr9 get9 readGet9 rest9 d9))) = None
    \<or> createdId (snd (snd (resourceArmDevTestPolicyCreateUpdate h existing9 createErr9 get9 readGet9 rest9 d9)))
        = ID (fst get9))
   \<and> (fst (resourceArmDevTestPolicyCreateUpdate h existing9 createErr9 get9 readGet9 rest9 d9) = Success \<longrightarrow>
        (\<exists>rid. ID (fst get9) = Some rid
           \<and> createdId (snd (snd (resourceArmDevTestPolicyCreateUpdate h existing9 createErr9 get9 readGet9 rest9 d9))) = Some rid))
   \<and> (createdId (snd (snd (resourceDataFactoryDatasetAzureBlobCreateUpdate h existing10 createErr10 get10 readGet10 rest10 d10))) = None
    \<or> createdId (snd (snd (resourceDataFactoryDatasetAzureBlobCreateUpdate h existing10 createErr10 get10 readGet10 rest10 d10)))
        = ID (fst get10))
   \<and> (fst (resourceDataFactoryDatasetAzureBlobCreateUpdate h existing10 createErr10 get10 readGet10 rest10 d10) = Success \<longrightarrow>
        (\<exists>rid. ID (fst get10) = Some rid
           \<and> createdId (snd (snd (resourceDataFactoryDatasetAzureBlobCreateUpdate h existing10 createErr10 get10 readGet10 rest10 d10))) = Some rid))
   \<and> Id (fst (snd (resourceIotHubEndpointServiceBusQueueRead h get11 d))) = Id d
   \<and> Id (fst (snd (resourceNetworkInterfaceSecurityGroupAssociationRead h
                     (read12\<lparr>InterfaceProperties :=
                        Some \<lparr>NetworkSecurityGroup = Some \<lparr>SecurityGroupID = Some sgID\<rparr>\<rparr>\<rparr>, None) d)))
       = Id d
   \<and> Id (fst (snd (resourceAutomationVariableRead h varType (resp13, None) d))) = Id d
   \<and> Id (fst (snd (resourceStorageSyncRead h (resp14, None) rest d))) = Id d
   \<and> Id (fst (snd (resourceDashboardRead h (resp14, None) rest d))) = Id d
   \<and> Id (fst (snd (resourceSqlFirewallRuleRead h (resp14, None) d))) = Id d
   \<and> Id (fst (snd (resourceSqlFailoverGroupRead h (resp14, None) rest d))) = Id d
   \<and> Id (fst (snd (resourceExpressRouteGatewayRead h (resp14, None) rest d))) = Id d
   \<and> Id (fst (snd (resourceArmDevTestPolicyRead h (resp14, None) rest d))) = Id d
   \<and> Id (fst (snd (resourceDataFactoryDatasetAzureBlobRead h (resp14, None) rest d))) = Id d"
proof -
  note ids =
    iot_Create_id [unfolded createsOnly_def] nic_Create_id [unfolded createsOnly_def]
    dashboard_Create_id [unfolded createsOnly_def] automation_Create_id [unfolded createsOnly_def]
    storage_Create_id [unfolded createsOnly_def] firewall_Create_id [unfolded createsOnly_def]
    failover_Create_id [unfolded createsOnly_def] express_Create_id [unfolded createsOnly_def]
    devtest_Create_id [unfolded createsOnly_def] datafactory_Create_id [unfolded createsOnly_def]
  note set =
    nic_Create_success [unfolded createsOnSuccess_def]
    dashboard_Create_success [unfolded createsOnSuccess_def]
    automation_Create_success [unfolded setsServiceId_def]
    storage_Create_success [unfolded setsServiceId_def]
    firewall_Create_success [unfolded setsServiceId_def]
    failover_Create_success [unfolded setsServiceId_def]
    express_Create_success [unfolded setsServiceId_def]
    devtest_Create_success [unfolded setsServiceId_def]
    datafactory_Create_success [unfolded setsServiceId_def]
  note reads =
    iot_Read_Id nic_Read_found automation_Read_found storage_Read_found dashboard_Read_found
    firewall_Read_found failover_Read_found express_Read_found devtest_Read_found
    datafactory_Read_found
  show ?thesis
    by (intro conjI; (rule ids set reads | (rule impI, erule iot_Create_success_id)))
qed

theorem C6_resource_id_from_parent_and_name_witness:
  "fst (resourceIotHubEndpointServiceBusQueueCreateUpdate exampleHelpers ''s1''
          (exampleHub \<lparr>EventHubs = None, ServiceBusQueues = Some []\<rparr>, None) None None
          (exampleHub \<lparr>EventHubs = None, ServiceBusQueues = Some []\<rparr>, None)
          exampleEndpointData) = Success
   \<and> fst (resourceNetworkInterfaceSecurityGroupAssociationCreate exampleHelpers
          (exampleInterface None, None) None None
          (exampleInterface (Some \<lparr>SecurityGroupID = Some exampleNsgId\<rparr>), None)
          exampleAssociationData) = Success
   \<and> fst (resourceDashboardCreateUpdate exampleHelpers ''s1'' None None (found exampleDashboardId)
          Success (exampleNamed ''board1'' [])) = Success
   \<and> fst (resourceAutomationVariableCreateUpdate exampleHelpers ''Null''
          (exampleVariable\<lparr>WasNotFound := True, ID := None\<rparr>, Some ''StatusCode=404'') None
          (exampleVariable, None) (exampleVariable, None)
          (exampleNamed ''var1'' [(''automation_account_name'', CString ''acc1'')])) = Success
   \<and> fst (resourceStorageSyncCreate exampleParsers absent None None (found exampleSyncId)
          (found exampleSyncId) Success (exampleNamed ''sync1'' [])) = Success
   \<and> fst (resourceSqlFirewallRuleCreateUpdate exampleParsers absent None (found exampleRuleId)
          (found exampleRuleId) (exampleNamed ''rule1'' [(''server_name'', CString ''server1'')])) = Success
   \<and> fst (resourceSqlFailoverGroupCreateUpdate exampleParsers [rwPolicyBlock sql_Automatic 60]
          absent None None (found exampleGroupId) (found exampleGroupId) Success
          (exampleNamed ''group1'' [(''server_name'', CString ''server1'')])) = Success
   \<and> fst (resourceExpressRouteGatewayCreateUpdate exampleParsers absent None None
          (found exampleGatewayId) (found exampleGatewayId) Success (exampleNamed ''gw1'' [])) = Success
   \<and> fst (resourceArmDevTestPolicyCreateUpdate exampleParsers absent None (found examplePolicyId)
          (found examplePolicyId) Success
          (exampleNamed ''policy1'' [(''policy_set_name'', CString ''default''),
                                     (''lab_name'', CString ''lab1'')])) = Success
   \<and> fst (resourceDataFactoryDatasetAzureBlobCreateUpdate exampleParsers absent None
          (found exampleDatasetId) (found exampleDatasetId) Success
          (exampleNamed ''ds1'' [(''data_factory_name'', CString ''df1'')])) = Success
   \<and> Id (fst (snd (resourceIotHubEndpointServiceBusQueueCreateUpdate exampleHelpers ''s1''
          (exampleHub \<lparr>EventHubs = None, ServiceBusQueues = Some []\<rparr>, None) None None
          (exampleHub \<lparr>EventHubs = None, ServiceBusQueues = Some []\<rparr>, None)
          exampleEndpointData))) = exampleEndpointId
   \<and> createdId (snd (snd (resourceNetworkInterfaceSecurityGroupAssociationCreate exampleHelpers
          (exampleInterface None, None) None None
          (exampleInterface (Some \<lparr>SecurityGroupID = Some exampleNsgId\<rparr>), None)
          exampleAssociationData))) = Some (exampleNicId @ ''|'' @ exampleNsgId)
   \<and> createdId (snd (snd (resourceDashboardCreateUpdate exampleHelpers ''s1'' None None (found exampleDashboardId)
          Success (exampleNamed ''board1'' [])))) = Some exampleDashboardId
   \<and> createdId (snd (snd (resourceAutomationVariableCreateUpdate exampleHelpers ''Null''
          (exampleVariable\<lparr>WasNotFound := True, ID := None\<rparr>, Some ''StatusCode=404'') None
          (exampleVariable, None) (exampleVariable, None)
          (exampleNamed ''var1'' [(''automation_account_name'', CString ''acc1'')])))) = Some exampleVariableId
   \<and> createdId (snd (snd (resourceStorageSyncCreate exampleParsers absent None None (found exampleSyncId)
          (found exampleSyncId) Success (exampleNamed ''sync1'' [])))) = Some exampleSyncId
   \<and> createdId (snd (snd (resourceSqlFirewallRuleCreateUpdate exampleParsers absent None (found exampleRuleId)
          (found exampleRuleId) (exampleNamed ''rule1'' [(''server_name'', CString ''server1'')])))) = Some exampleRuleId
   \<and> createdId (snd (snd (resourceSqlFailoverGroupCreateUpdate exampleParsers [rwPolicyBlock sql_Automatic 60]
          absent None None (found exampleGroupId) (found exampleGroupId) Success
          (exampleNamed ''group1'' [(''server_name'', CString ''server1'')])))) = Some exampleGroupId
   \<and> createdId (snd (snd (resourceExpressRouteGatewayCreateUpdate exampleParsers absent None None
          (found exampleGatewayId) (found exampleGatewayId) Success (exampleNamed ''gw1'' [])))) = Some exampleGatewayId
   \<and> createdId (snd (snd (resourceArmDevTestPolicyCreateUpdate exampleParsers absent None (found examplePolicyId)
          (found examplePolicyId) Success
          (exampleNamed ''policy1'' [(''policy_set_name'', CString ''default''),
                                     (''lab_name'', CString ''lab1'')])))) = Some examplePolicyId
   \<and> createdId (snd (snd (resourceDataFactoryDatasetAzureBlobCreateUpdate exampleParsers absent None
          (found exampleDatasetId) (found exampleDatasetId) Success
          (exampleNamed ''ds1'' [(''data_factory_name'', CString ''df1'')])))) = Some exampleDatasetId"
proof -
  note w1 = C6_resource_id_from_parent_and_name
    [where h = exampleHelpers and sub = "''s1''"
       and ?get1.0 = "(exampleHub \<lparr>EventHubs = None, ServiceBusQueues = Some []\<rparr>, None)"
       and ?createErr1.0 = None and ?waitErr1.0 = None
       and ?readGet1.0 = "(exampleHub \<lparr>EventHubs = None, ServiceBusQueues = Some []\<rparr>, None)"
       and ?d1.0 = exampleEndpointData
       and ?get2.0 = "(exampleInterface None, None)"
       and ?createErr2.0 = None and ?waitErr2.0 = None
       and ?readGet2.0 = "(exampleInterface (Some \<lparr>SecurityGroupID = Some exampleNsgId\<rparr>), None)"
       and ?d2.0 = exampleAssociationData
       and subscriptionId = "''s1''" and ?unmarshalErr3.0 = None and ?createErr3.0 = None
       and ?readGet3.0 = "found exampleDashboardId" and ?rest3.0 = Success
       and ?d3.0 = "exampleNamed ''board1'' []"
       and varType = "''Null''"
       and ?existing4.0 = "(exampleVariable\<lparr>WasNotFound := True, ID := None\<rparr>, Some ''StatusCode=404'')"
       and ?createErr4.0 = None and ?get4.0 = "(exampleVariable, None)"
       and ?readGet4.0 = "(exampleVariable, None)"
       and ?d4.0 = "exampleNamed ''var1'' [(''automation_account_name'', CString ''acc1'')]"]
  note w2 = C6_resource_id_from_parent_and_name
    [where h = exampleParsers
       and ?existing5.0 = absent and ?createErr5.0 = None and ?waitErr5.0 = None
       and ?get5.0 = "found exampleSyncId" and ?readGet5.0 = "found exampleSyncId"
       and ?rest5.0 = Success and ?d5.0 = "exampleNamed ''sync1'' []"
       and ?existing6.0 = absent and ?createErr6.0 = None
       and ?get6.0 = "found exampleRuleId" and ?readGet6.0 = "found exampleRuleId"
       and ?d6.0 = "exampleNamed ''rule1'' [(''server_name'', CString ''server1'')]"
       and vs = "[rwPolicyBlock sql_Automatic 60]"
       and ?existing7.0 = absent and ?createErr7.0 = None and ?waitErr7.0 = None
       and ?get7.0 = "found exampleGroupId" and ?readGet7.0 = "found exampleGroupId"
       and ?rest7.0 = Success
       and ?d7.0 = "exampleNamed ''group1'' [(''server_name'', CString ''server1'')]"
       and ?existing8.0 = absent and ?createErr8.0 = None and ?waitErr8.0 = None
       and ?get8.0 = "found exampleGatewayId" and ?readGet8.0 = "found exampleGatewayId"
       and ?rest8.0 = Success and ?d8.0 = "exampleNamed ''gw1'' []"
       and ?existing9.0 = absent and ?createErr9.0 = None
       and ?get9.0 = "found examplePolicyId" and ?readGet9.0 = "found examplePolicyId"
       and ?rest9.0 = Success
       and ?d9.0 = "exampleNamed ''policy1'' [(''policy_set_name'', CString ''default''),
                                            (''lab_name'', CString ''lab1'')]"
       and ?existing10.0 = absent and ?createErr10.0 = None
       and ?get10.0 = "found exampleDatasetId" and ?readGet10.0 = "found exampleDatasetId"
       and ?rest10.0 = Success
       and ?d10.0 = "exampleNamed ''ds1'' [(''data_factory_name'', CString ''df1'')]"]
  have iot: "Id (fst (snd (resourceIotHubEndpointServiceBusQueueCreateUpdate exampleHelpers ''s1''
              (exampleHub \<lparr>EventHubs = None, ServiceBusQueues = Some []\<rparr>, None) None None
              (exampleHub \<lparr>EventHubs = None, ServiceBusQueues = Some []\<rparr>, None)
              exampleEndpointData))) = exampleEndpointId"
    using w1 [THEN conjunct2, THEN conjunct1] example_iot_create
    by (auto simp: exampleHub_def example_getString exampleEndpointId_def)
  have nic: "createdId (snd (snd (resourceNetworkInterfaceSecurityGroupAssociationCreate exampleHelpers
              (exampleInterface None, None) None None
              (exampleInterface (Some \<lparr>SecurityGroupID = Some exampleNsgId\<rparr>), None)
              exampleAssociationData))) = Some (exampleNicId @ ''|'' @ exampleNsgId)"
    using w1 [THEN conjunct2, THEN conjunct2, THEN conjunct2, THEN conjunct1] example_nic_create
    by (simp add: example_association_getString)
  have dash: "createdId (snd (snd (resourceDashboardCreateUpdate exampleHelpers ''s1'' None None (found exampleDashboardId)
              Success (exampleNamed ''board1'' [])))) = Some exampleDashboardId"
    using w1 [THEN conjunct2, THEN conjunct2, THEN conjunct2, THEN conjunct2, THEN conjunct2, THEN conjunct1] example_dashboard_create
    by (simp add: exampleNamed_simps example_parse_dashboard)
  have auto: "createdId (snd (snd (resourceAutomationVariableCreateUpdate exampleHelpers ''Null''
              (exampleVariable\<lparr>WasNotFound := True, ID := None\<rparr>, Some ''StatusCode=404'') None
              (exampleVariable, None) (exampleVariable, None)
              (exampleNamed ''var1'' [(''automation_account_name'', CString ''acc1'')])))) = Some exampleVariableId"
    using w1 [THEN conjunct2, THEN conjunct2, THEN conjunct2, THEN conjunct2, THEN conjunct2, THEN conjunct2, THEN conjunct2, THEN conjunct1] example_variable_create
    by (simp add: exampleVariable_def)
  have sync: "createdId (snd (snd (resourceStorageSyncCreate exampleParsers absent None None (found exampleSyncId)
              (found exampleSyncId) Success (exampleNamed ''sync1'' [])))) = Some exampleSyncId"
    using w2 [THEN conjunct2, THEN conjunct2, THEN conjunct2, THEN conjunct2, THEN conjunct2, THEN conjunct2, THEN conjunct2, THEN conjunct2, THEN conjunct2, THEN conjunct1] example_sync_create
    by (simp add: found_def)
  have rule: "createdId (snd (snd (resourceSqlFirewallRuleCreateUpdate exampleParsers absent None (found exampleRuleId)
              (found exampleRuleId) (exampleNamed ''rule1'' [(''server_name'', CString ''server1'')])))) = Some exampleRuleId"
    using w2 [THEN conjunct2, THEN conjunct2, THEN conjunct2, THEN conjunct2, THEN conjunct2, THEN conjunct2, THEN conjunct2, THEN conjunct2, THEN conjunct2, THEN conjunct2, THEN conjunct2, THEN conjunct1] example_rule_create
    by (simp add: found_def)
  have group: "createdId (snd (snd (resourceSqlFailoverGroupCreateUpdate exampleParsers [rwPolicyBlock sql_Automatic 60]
              absent None None (found exampleGroupId) (found exampleGroupId) Success
              (exampleNamed ''group1'' [(''server_name'', CString ''server1'')])))) = Some exampleGroupId"
    using w2 [THEN conjunct2, THEN conjunct2, THEN conjunct2, THEN conjunct2, THEN conjunct2, THEN conjunct2, THEN conjunct2, THEN conjunct2, THEN conjunct2, THEN conjunct2, THEN conjunct2, THEN conjunct2, THEN conjunct2, THEN conjunct1] example_group_create
    by (simp add: found_def)
  have gw: "createdId (snd (snd (resourceExpressRouteGatewayCreateUpdate exampleParsers absent None None
              (found exampleGatewayId) (found exampleGatewayId) Success (exampleNamed ''gw1'' [])))) = Some exampleGatewayId"
    using w2 [THEN conjunct2, THEN conjunct2, THEN conjunct2, THEN conjunct2, THEN conjunct2, THEN conjunct2, THEN conjunct2, THEN conjunct2, THEN conjunct2, THEN conjunct2, THEN conjunct2, THEN conjunct2, THEN conjunct2, THEN conjunct2, THEN conjunct2, THEN conjunct1] example_gateway_create
    by (simp add: found_def)
  have pol: "createdId (snd (snd (resourceArmDevTestPolicyCreateUpdate exampleParsers absent None (found examplePolicyId)
              (found examplePolicyId) Success
              (exampleNamed ''policy1'' [(''policy_set_name'', CString ''default''),
                                         (''lab_name'', CString ''lab1'')])))) = Some examplePolicyId"
    using w2 [THEN conjunct2, THEN conjunct2, THEN conjunct2, THEN conjunct2, THEN conjunct2, THEN conjunct2, THEN conjunct2, THEN conjunct2, THEN conjunct2, THEN conjunct2, THEN conjunct2, THEN conjunct2, THEN conjunct2, THEN conjunct2, THEN conjunct2, THEN conjunct2, THEN conjunct2, THEN conjunct1] example_policy_create
    by (simp add: found_def)
  have ds: "createdId (snd (snd (resourceDataFactoryDatasetAzureBlobCreateUpdate exampleParsers absent None
              (found exampleDatasetId) (found exampleDatasetId) Success
              (exampleNamed ''ds1'' [(''data_factory_name'', CString ''df1'')])))) = Some exampleDatasetId"
    using w2 [THEN conjunct2, THEN conjunct2, THEN conjunct2, THEN conjunct2, THEN conjunct2, THEN conjunct2, THEN conjunct2, THEN conjunct2, THEN conjunct2, THEN conjunct2, THEN conjunct2, THEN conjunct2, THEN conjunct2, THEN conjunct2, THEN conjunct2, THEN conjunct2, THEN conjunct2, THEN conjunct2, THEN conjunct2, THEN conjunct1] example_dataset_create
    by (simp add: found_def)
  show ?thesis
    using iot nic dash auto sync rule group gw pol ds
      example_iot_create example_nic_create example_dashboard_create example_variable_create example_sync_create example_rule_create example_group_create example_gateway_create example_policy_create example_dataset_create
    by simp
qed

end
